theory Spec2Isabelle
  imports Complex_Main "HOL-Library.Word"
begin

unbundle bit_operations_syntax

section \<open>Strings and label abbreviation\<close>

text \<open>
  A \<open>std::string\<close> holding UTF-8 text is represented by the sequence of its code points
  (the values \<open>utf8::MakeUTF8CharRange\<close> iterates over and \<open>utf8::UCS4ToUTF8\<close> writes
  back). All delimiters used below are ASCII, so splitting the byte string and splitting the
  code point sequence give the same tokens.
\<close>

type_synonym ustring = "nat list"

definition ustr :: "string \<Rightarrow> ustring" where
  "ustr s = map of_char s"

text \<open>
  The two glib predicates \<open>g_unichar_iszerowidth\<close> and \<open>g_unichar_iswide\<close> are tables of
  an external library; they are parameters of the model.
\<close>

record glib =
  g_unichar_iszerowidth :: "nat \<Rightarrow> bool"
  g_unichar_iswide :: "nat \<Rightarrow> bool"

definition charWidth :: "glib \<Rightarrow> nat \<Rightarrow> nat" where
  "charWidth g c =
     (if g_unichar_iszerowidth g c then 0
      else if g_unichar_iswide g c then 2 else 1)"

text \<open>
  Modelled from the spec: the macro \<open>FCITX_WHITESPACE\<close> (fcitx-utils, not among the
  sources) is the set of ASCII whitespace characters: form feed, newline, carriage return,
  tab, vertical tab and space.
\<close>

definition FCITX_WHITESPACE :: ustring where
  "FCITX_WHITESPACE = [12, 10, 13, 9, 11, 32]"

text \<open>
  Modelled from the spec: \<open>stringutils::split\<close> (fcitx-utils, not among the sources)
  cuts a string at every delimiter character and returns the tokens in order. As the caller's
  test \<open>texts.empty()\<close> shows, a string without any token gives the empty list: empty tokens
  are not returned. \<open>cur\<close> is the token being collected.
\<close>

fun split_from :: "ustring \<Rightarrow> ustring \<Rightarrow> ustring \<Rightarrow> ustring list" where
  "split_from delims cur [] = (if cur = [] then [] else [cur])"
| "split_from delims cur (c # cs) =
     (if c \<in> set delims
      then (if cur = [] then split_from delims [] cs else cur # split_from delims [] cs)
      else split_from delims (cur @ [c]) cs)"

definition split :: "ustring \<Rightarrow> ustring \<Rightarrow> ustring list" where
  "split str delims = split_from delims [] str"

definition label_delims :: ustring where
  "label_delims = FCITX_WHITESPACE @ ustr ''-_/|''"

text \<open>
  The loop of \<open>extractTextForLabel\<close> over the code points of the first token:
  \<open>extracted\<close> and \<open>currentWidth\<close> are the loop's two variables, the \<open>else\<close> branch is
  the \<open>break\<close>.
\<close>

fun extract_loop :: "glib \<Rightarrow> ustring \<Rightarrow> ustring \<Rightarrow> nat \<Rightarrow> ustring \<times> nat" where
  "extract_loop g [] extracted currentWidth = (extracted, currentWidth)"
| "extract_loop g (chr # rest) extracted currentWidth =
     (let width = charWidth g chr in
      if currentWidth + width \<le> 3
      then extract_loop g rest (extracted @ [chr]) (currentWidth + width)
      else (extracted, currentWidth))"

definition extractTextForLabel :: "glib \<Rightarrow> ustring \<Rightarrow> ustring \<times> nat" where
  "extractTextForLabel g label =
     (case split label label_delims of
        [] \<Rightarrow> ([], 0)
      | text0 # _ \<Rightarrow> extract_loop g text0 [] 0)"

text \<open>The display width of a sequence of code points.\<close>

definition text_width :: "glib \<Rightarrow> ustring \<Rightarrow> nat" where
  "text_width g cs = sum_list (map (charWidth g) cs)"

text \<open>The first token, said directly: skip leading delimiters, read up to the next one.\<close>

definition first_token :: "ustring \<Rightarrow> ustring" where
  "first_token label =
     takeWhile (\<lambda>c. c \<notin> set label_delims) (dropWhile (\<lambda>c. c \<in> set label_delims) label)"

text \<open>
  A fragment of the glib tables, for the concrete examples: the zero width space U+200B is
  zero-width, the CJK unified ideographs U+4E00 to U+9FFF are wide, ASCII is neither.
\<close>

definition sample_glib :: glib where
  "sample_glib =
     \<lparr>g_unichar_iszerowidth = (\<lambda>c. c = 0x200B),
      g_unichar_iswide = (\<lambda>c. 0x4E00 \<le> c \<and> c \<le> 0x9FFF)\<rparr>"

section \<open>The font size of a text icon\<close>

text \<open>
  \<open>int pixelSize = size * 0.75 * (textWidth >= 3 ? (2.0 / textWidth) : 1.0)\<close>, followed by
  \<open>if (pixelSize < 0) pixelSize = 1\<close>. \<open>size\<close> is a \<open>uint32_t\<close> and \<open>textWidth\<close>
  a \<open>size_t\<close>, both natural numbers. The product is computed here in exact rational
  arithmetic and truncated, as the conversion to \<open>int\<close> does. For \<open>textWidth < 3\<close> the
  double product is exact; for \<open>textWidth = 3\<close> (the only other value the extraction
  produces) the rounded double product truncates to the same integer as the exact one.
  The conversion is undefined in C++ when the product exceeds the range of \<open>int\<close>
  (sizes above 2863311530); the model describes the code below that bound.
\<close>

definition pixelSize_product :: "nat \<Rightarrow> nat \<Rightarrow> rat" where
  "pixelSize_product sz textWidth =
     of_nat sz * (3 / 4) * (if textWidth \<ge> 3 then 2 / of_nat textWidth else 1)"

definition trunc_int :: "rat \<Rightarrow> int" where
  "trunc_int q = (if q < 0 then - \<lfloor>- q\<rfloor> else \<lfloor>q\<rfloor>)"

definition drawTextIcon_pixelSize :: "nat \<Rightarrow> nat \<Rightarrow> int" where
  "drawTextIcon_pixelSize sz textWidth =
     (let pixelSize = trunc_int (pixelSize_product sz textWidth) in
      if pixelSize < 0 then 1 else pixelSize)"

section \<open>Surfaces and the drawing context\<close>

text \<open>
  cairo and pango are external libraries. The model of cairo below covers what the theme
  code uses: image surfaces, a context with an axis-aligned transformation (translations
  and scalings), rectangular paths and clips, a solid or surface source, \<open>save\<close> and
  \<open>restore\<close>, and painting with a constant alpha. Coordinates and scale factors are exact
  rationals (the rounding of \<open>double\<close> is not modelled). A pixel is a premultiplied ARGB32
  value; pixel \<open>(px, py)\<close> covers the unit square at \<open>(px, py)\<close> and is painted when its
  centre lies in the clip.
\<close>

type_synonym pixel = "32 word"

record surface =
  status_ok :: bool
  s_width :: int
  s_height :: int
  s_pixels :: "int \<Rightarrow> int \<Rightarrow> pixel"

definition MAX_IMAGE_SIZE :: int where
  "MAX_IMAGE_SIZE = 32767"

text \<open>
  \<open>cairo_image_surface_create\<close> never returns a null pointer: for a size outside
  \<open>0..MAX_IMAGE_SIZE\<close> it returns a surface in an error state, of width and height 0.
  A new surface is transparent.
\<close>

definition cairo_image_surface_create :: "int \<Rightarrow> int \<Rightarrow> surface" where
  "cairo_image_surface_create w h =
     (if 0 \<le> w \<and> w \<le> MAX_IMAGE_SIZE \<and> 0 \<le> h \<and> h \<le> MAX_IMAGE_SIZE
      then \<lparr>status_ok = True, s_width = w, s_height = h, s_pixels = (\<lambda>x y. 0)\<rparr>
      else \<lparr>status_ok = False, s_width = 0, s_height = 0, s_pixels = (\<lambda>x y. 0)\<rparr>)"

definition cairo_image_surface_get_width :: "surface \<Rightarrow> int" where
  "cairo_image_surface_get_width s = s_width s"

definition cairo_image_surface_get_height :: "surface \<Rightarrow> int" where
  "cairo_image_surface_get_height s = s_height s"

text \<open>Reading a surface as a source: outside its bounds it is transparent.\<close>

definition surface_pixel :: "surface \<Rightarrow> int \<Rightarrow> int \<Rightarrow> pixel" where
  "surface_pixel s i j =
     (if 0 \<le> i \<and> i < s_width s \<and> 0 \<le> j \<and> j < s_height s then s_pixels s i j else 0)"

record color =
  c_red :: nat
  c_green :: nat
  c_blue :: nat
  c_alpha :: nat

datatype cairo_operator = CAIRO_OPERATOR_OVER | CAIRO_OPERATOR_SOURCE

datatype cairo_filter = CAIRO_FILTER_GOOD | CAIRO_FILTER_NEAREST

text \<open>The transformation matrix: user \<open>(u, v)\<close> is device \<open>(sx * u + tx, sy * v + ty)\<close>.\<close>

record matrix =
  m_sx :: rat
  m_sy :: rat
  m_tx :: rat
  m_ty :: rat

text \<open>
  A surface source keeps the transformation that was current when it was set, the offset
  given to \<open>cairo_set_source_surface\<close>, and its filter.
\<close>

datatype source =
  SolidSource pixel
| SurfaceSource surface matrix rat rat cairo_filter

type_synonym drect = "rat \<times> rat \<times> rat \<times> rat"

text \<open>
  The clip is a list of paths that were intersected; a path is a list of device rectangles
  \<open>(x1, y1, x2, y2)\<close>, and a point is inside a path when it is inside one of them.
\<close>

record gstate =
  g_op :: cairo_operator
  g_ctm :: matrix
  g_clip :: "drect list list"
  g_source :: source

record cairo_t =
  c_target :: surface
  c_gstate :: gstate
  c_saved :: "gstate list"
  c_path :: "drect list"

text \<open>
  What the external libraries compute and the model leaves open: the file system and the
  image decoders, the icon theme lookup, the glib character tables, the text rendering of
  pango, the pixel value of a colour, the arithmetic of compositing (other than a plain copy)
  and of resampling a scaled source.
\<close>

record StandardPathFile =
  f_fd :: int
  f_path :: ustring

record ext =
  x_glib :: glib
  x_findIcon :: "ustring \<Rightarrow> ustring \<Rightarrow> nat \<Rightarrow> ustring"
  x_open :: "ustring \<Rightarrow> int"
  x_StandardPath_open :: "ustring \<Rightarrow> StandardPathFile"
  x_png_stream :: "int \<Rightarrow> surface option"
  x_pixbuf :: "int \<Rightarrow> surface option"
  x_hasTwoKeyboardInCurrentGroup :: bool
  x_pixel_of_color :: "color \<Rightarrow> pixel"
  x_text_icon :: "ustring \<Rightarrow> ustring \<Rightarrow> int \<Rightarrow> nat \<Rightarrow> (color \<times> int) option \<Rightarrow> color
                   \<Rightarrow> int \<Rightarrow> int \<Rightarrow> pixel"
  x_composite :: "cairo_operator \<Rightarrow> rat \<Rightarrow> pixel \<Rightarrow> pixel \<Rightarrow> pixel"
  x_resample :: "cairo_filter \<Rightarrow> surface \<Rightarrow> rat \<Rightarrow> rat \<Rightarrow> rat \<Rightarrow> rat \<Rightarrow> pixel"

definition identity_matrix :: matrix where
  "identity_matrix = \<lparr>m_sx = 1, m_sy = 1, m_tx = 0, m_ty = 0\<rparr>"

text \<open>A new context: operator OVER, identity transformation, no clip, opaque black source.\<close>

definition cairo_create :: "surface \<Rightarrow> cairo_t" where
  "cairo_create s =
     \<lparr>c_target = s,
      c_gstate = \<lparr>g_op = CAIRO_OPERATOR_OVER, g_ctm = identity_matrix, g_clip = [],
                   g_source = SolidSource 0xFF000000\<rparr>,
      c_saved = [], c_path = []\<rparr>"

definition cairo_save :: "cairo_t \<Rightarrow> cairo_t" where
  "cairo_save c = c\<lparr>c_saved := c_gstate c # c_saved c\<rparr>"

definition cairo_restore :: "cairo_t \<Rightarrow> cairo_t" where
  "cairo_restore c =
     (case c_saved c of
        [] \<Rightarrow> c
      | g # gs \<Rightarrow> c\<lparr>c_gstate := g, c_saved := gs\<rparr>)"

definition cairo_set_operator :: "cairo_t \<Rightarrow> cairo_operator \<Rightarrow> cairo_t" where
  "cairo_set_operator c op = c\<lparr>c_gstate := (c_gstate c)\<lparr>g_op := op\<rparr>\<rparr>"

definition cairo_translate :: "cairo_t \<Rightarrow> rat \<Rightarrow> rat \<Rightarrow> cairo_t" where
  "cairo_translate c dx dy =
     (let m = g_ctm (c_gstate c) in
      c\<lparr>c_gstate := (c_gstate c)\<lparr>g_ctm :=
           m\<lparr>m_tx := m_sx m * dx + m_tx m, m_ty := m_sy m * dy + m_ty m\<rparr>\<rparr>\<rparr>)"

definition cairo_scale :: "cairo_t \<Rightarrow> rat \<Rightarrow> rat \<Rightarrow> cairo_t" where
  "cairo_scale c fx fy =
     (let m = g_ctm (c_gstate c) in
      c\<lparr>c_gstate := (c_gstate c)\<lparr>g_ctm :=
           m\<lparr>m_sx := m_sx m * fx, m_sy := m_sy m * fy\<rparr>\<rparr>\<rparr>)"

definition cairo_set_source_surface :: "cairo_t \<Rightarrow> surface \<Rightarrow> rat \<Rightarrow> rat \<Rightarrow> cairo_t" where
  "cairo_set_source_surface c s x y =
     c\<lparr>c_gstate := (c_gstate c)\<lparr>g_source :=
          SurfaceSource s (g_ctm (c_gstate c)) x y CAIRO_FILTER_GOOD\<rparr>\<rparr>"

text \<open>\<open>cairo_pattern_set_filter(cairo_get_source(c), filter)\<close>.\<close>

definition cairo_source_set_filter :: "cairo_t \<Rightarrow> cairo_filter \<Rightarrow> cairo_t" where
  "cairo_source_set_filter c f =
     (case g_source (c_gstate c) of
        SolidSource p \<Rightarrow> c
      | SurfaceSource s m x y _ \<Rightarrow>
          c\<lparr>c_gstate := (c_gstate c)\<lparr>g_source := SurfaceSource s m x y f\<rparr>\<rparr>)"

text \<open>\<open>cairoSetSourceColor\<close> (common.h): the source becomes the solid colour.\<close>

definition cairoSetSourceColor :: "ext \<Rightarrow> cairo_t \<Rightarrow> color \<Rightarrow> cairo_t" where
  "cairoSetSourceColor x c col =
     c\<lparr>c_gstate := (c_gstate c)\<lparr>g_source := SolidSource (x_pixel_of_color x col)\<rparr>\<rparr>"

text \<open>A rectangle given in user space is added to the path in device space.\<close>

definition device_rect :: "matrix \<Rightarrow> rat \<Rightarrow> rat \<Rightarrow> rat \<Rightarrow> rat \<Rightarrow> drect" where
  "device_rect m x y w h =
     (let xa = m_sx m * x + m_tx m; xb = m_sx m * (x + w) + m_tx m;
          ya = m_sy m * y + m_ty m; yb = m_sy m * (y + h) + m_ty m
      in (min xa xb, min ya yb, max xa xb, max ya yb))"

definition cairo_rectangle :: "cairo_t \<Rightarrow> rat \<Rightarrow> rat \<Rightarrow> rat \<Rightarrow> rat \<Rightarrow> cairo_t" where
  "cairo_rectangle c x y w h =
     c\<lparr>c_path := c_path c @ [device_rect (g_ctm (c_gstate c)) x y w h]\<rparr>"

text \<open>\<open>cairo_clip\<close> intersects the clip with the current path and clears the path.\<close>

definition cairo_clip :: "cairo_t \<Rightarrow> cairo_t" where
  "cairo_clip c =
     c\<lparr>c_gstate := (c_gstate c)\<lparr>g_clip := g_clip (c_gstate c) @ [c_path c]\<rparr>, c_path := []\<rparr>"

definition in_drect :: "drect \<Rightarrow> int \<Rightarrow> int \<Rightarrow> bool" where
  "in_drect r px py =
     (case r of (x1, y1, x2, y2) \<Rightarrow>
        x1 \<le> of_int px + 1 / 2 \<and> of_int px + 1 / 2 < x2 \<and>
        y1 \<le> of_int py + 1 / 2 \<and> of_int py + 1 / 2 < y2)"

definition in_clip :: "drect list list \<Rightarrow> int \<Rightarrow> int \<Rightarrow> bool" where
  "in_clip cl px py = list_all (\<lambda>path. list_ex (\<lambda>r. in_drect r px py) path) cl"

definition is_integer :: "rat \<Rightarrow> bool" where
  "is_integer q = (of_int \<lfloor>q\<rfloor> = q)"

text \<open>
  The source colour at a device pixel. A surface source is read at the pixel's centre,
  taken back through the transformation that was current when the source was set. When that
  transformation is a translation that maps pixel centres to pixel centres, every filter
  reads exactly one source pixel; otherwise the value is left to \<open>x_resample\<close>.
\<close>

definition source_at :: "ext \<Rightarrow> source \<Rightarrow> int \<Rightarrow> int \<Rightarrow> pixel" where
  "source_at x src px py =
     (case src of
        SolidSource p \<Rightarrow> p
      | SurfaceSource s m ox oy f \<Rightarrow>
          (let qx = (of_int px + 1 / 2 - m_tx m) / m_sx m - ox;
               qy = (of_int py + 1 / 2 - m_ty m) / m_sy m - oy
           in if m_sx m = 1 \<and> m_sy m = 1 \<and> is_integer (qx - 1 / 2) \<and> is_integer (qy - 1 / 2)
              then surface_pixel s \<lfloor>qx\<rfloor> \<lfloor>qy\<rfloor>
              else x_resample x f s (m_sx m) (m_sy m) qx qy))"

text \<open>
  Compositing one pixel. With the operator SOURCE and an alpha of 1 the source replaces the
  destination; every other combination is left to \<open>x_composite\<close>.
\<close>

definition composite :: "ext \<Rightarrow> cairo_operator \<Rightarrow> rat \<Rightarrow> pixel \<Rightarrow> pixel \<Rightarrow> pixel" where
  "composite x op al src dst =
     (if op = CAIRO_OPERATOR_SOURCE \<and> 1 \<le> al then src else x_composite x op al src dst)"

definition cairo_paint_with_alpha :: "ext \<Rightarrow> cairo_t \<Rightarrow> rat \<Rightarrow> cairo_t" where
  "cairo_paint_with_alpha x c al =
     (let t = c_target c; op = g_op (c_gstate c); clip = g_clip (c_gstate c);
          src = g_source (c_gstate c); old = s_pixels t
      in if \<not> status_ok t then c
         else c\<lparr>c_target := t\<lparr>s_pixels := (\<lambda>px py.
                if 0 \<le> px \<and> px < s_width t \<and> 0 \<le> py \<and> py < s_height t \<and> in_clip clip px py
                then composite x op al (source_at x src px py) (old px py)
                else old px py)\<rparr>\<rparr>)"

definition cairo_paint :: "ext \<Rightarrow> cairo_t \<Rightarrow> cairo_t" where
  "cairo_paint x c = cairo_paint_with_alpha x c 1"

section \<open>Configuration and themed images\<close>

record MarginConfig =
  marginLeft :: int
  marginRight :: int
  marginTop :: int
  marginBottom :: int

datatype Gravity =
  TopLeft | TopCenter | TopRight
| CenterLeft | Center | CenterRight
| BottomLeft | BottomCenter | BottomRight

record BackgroundImageConfig =
  bg_image :: ustring
  bg_color :: color
  bg_borderColor :: color
  bg_borderWidth :: int
  bg_overlay :: ustring
  bg_gravity :: Gravity
  bg_overlayOffsetX :: int
  bg_overlayOffsetY :: int
  bg_hideOverlayIfOversize :: bool
  bg_margin :: MarginConfig
  bg_overlayClipMargin :: MarginConfig

record ActionImageConfig =
  act_image :: ustring

record ClassicUIConfig =
  preferTextIcon :: bool
  trayFont :: ustring
  trayBorderColor :: color
  trayTextColor :: color

text \<open>
  Modelled from the spec: the icon theme (\<open>IconTheme\<close>, not among the sources) is
  identified by the name it was created from; its lookup is \<open>x_findIcon\<close>.
\<close>

record IconTheme =
  internalName :: ustring

definition IconTheme_new :: "ustring \<Rightarrow> IconTheme" where
  "IconTheme_new name = \<lparr>internalName = name\<rparr>"

text \<open>
  The members of \<open>ThemeImage\<close>: \<open>ti_valid\<close> is the member \<open>valid_\<close>, and so on for
  \<open>size_\<close>, \<open>isImage_\<close>, \<open>image_\<close> and \<open>overlay_\<close>. The image and the overlay are
  owning pointers: \<open>None\<close> is the null pointer. A member that a constructor does not assign
  keeps its initial value (\<open>false\<close>, 0, null).
\<close>

record ThemeImage =
  ti_valid :: bool
  ti_size :: nat
  ti_isImage :: bool
  ti_image :: "surface option"
  ti_overlay :: "surface option"

definition ThemeImage_init :: ThemeImage where
  "ThemeImage_init =
     \<lparr>ti_valid = False, ti_size = 0, ti_isImage = False, ti_image = None, ti_overlay = None\<rparr>"

text \<open>
  Modelled from the spec: the accessors of \<open>ThemeImage\<close> (theme.h, not among the sources)
  give the overlay's width and height.
\<close>

definition overlayWidth :: "surface \<Rightarrow> int" where
  "overlayWidth ov = cairo_image_surface_get_width ov"

definition overlayHeight :: "surface \<Rightarrow> int" where
  "overlayHeight ov = cairo_image_surface_get_height ov"

definition endsWith :: "ustring \<Rightarrow> ustring \<Rightarrow> bool" where
  "endsWith s suffix =
     (length suffix \<le> length s \<and> drop (length s - length suffix) s = suffix)"

text \<open>
  \<open>loadImage(StandardPathFile &)\<close>. \<open>x_png_stream\<close> is
  \<open>cairo_image_surface_create_from_png_stream\<close>; \<open>x_pixbuf\<close> is
  \<open>gdk_pixbuf_new_from_stream\<close> followed by \<open>pixBufToCairoSurface\<close>, \<open>None\<close> when
  either returns null.
\<close>

definition loadImage :: "ext \<Rightarrow> StandardPathFile \<Rightarrow> surface option" where
  "loadImage x file =
     (if f_fd file < 0 then None
      else if endsWith (f_path file) (ustr ''.png'') then
        (case x_png_stream x (f_fd file) of
           None \<Rightarrow> None
         | Some surface \<Rightarrow> if \<not> status_ok surface then None else Some surface)
      else x_pixbuf x (f_fd file))"

text \<open>
  \<open>image_.reset(loadImage(file))\<close> followed by the reset of a surface whose status is
  not \<open>CAIRO_STATUS_SUCCESS\<close>.
\<close>

definition load_checked :: "ext \<Rightarrow> StandardPathFile \<Rightarrow> surface option" where
  "load_checked x file =
     (case loadImage x file of
        None \<Rightarrow> None
      | Some s \<Rightarrow> if \<not> status_ok s then None else Some s)"

definition theme_path :: "ustring \<Rightarrow> ustring \<Rightarrow> ustring" where
  "theme_path name rel = ustr ''themes/'' @ name @ ustr ''/'' @ rel"

text \<open>The conversion of a \<open>uint32_t\<close> to \<open>int\<close>.\<close>

definition int_of_uint32 :: "nat \<Rightarrow> int" where
  "int_of_uint32 n = (if n < 2 ^ 31 then int n else int n - 2 ^ 32)"

text \<open>
  \<open>ThemeImage::drawTextIcon\<close>. The layout and rendering of pango is \<open>x_text_icon\<close>: it is
  given the extracted label, the font, the font pixel size, the icon size, the outline
  (colour and line width, when the border colour is not transparent) and the text colour.
  Drawing on a surface in an error state does nothing.
\<close>

definition drawTextIcon :: "ext \<Rightarrow> surface \<Rightarrow> ustring \<Rightarrow> nat \<Rightarrow> ClassicUIConfig \<Rightarrow> surface" where
  "drawTextIcon x surface rawLabel sz config =
     (case extractTextForLabel (x_glib x) rawLabel of (label, textWidth) \<Rightarrow>
        let pixelSize = drawTextIcon_pixelSize sz textWidth;
            outline = (if c_alpha (trayBorderColor config) \<noteq> 0
                       then Some (trayBorderColor config, min 4 ((pixelSize + 4) div 8))
                       else None)
        in if status_ok surface
           then surface\<lparr>s_pixels :=
                  x_text_icon x label (trayFont config) pixelSize sz outline (trayTextColor config)\<rparr>
           else surface)"

text \<open>\<open>ThemeImage::ThemeImage(iconTheme, icon, label, size, classicui)\<close>: a tray image.\<close>

definition ThemeImage_tray ::
  "ext \<Rightarrow> ClassicUIConfig \<Rightarrow> IconTheme \<Rightarrow> ustring \<Rightarrow> ustring \<Rightarrow> nat \<Rightarrow> ThemeImage" where
  "ThemeImage_tray x config iconTheme icon label sz =
     (let this = ThemeImage_init\<lparr>ti_size := sz\<rparr>;
          preferText = (label \<noteq> [] \<and>
             ((icon = ustr ''input-keyboard'' \<and> x_hasTwoKeyboardInCurrentGroup x) \<or>
              preferTextIcon config));
          this = (if \<not> preferText \<and> icon \<noteq> [] then
                    (let iconPath = x_findIcon x (internalName iconTheme) icon sz;
                         fd = x_open x iconPath;
                         file = \<lparr>f_fd = fd, f_path = icon\<rparr>
                     in this\<lparr>ti_image := load_checked x file\<rparr>)
                  else this)
      in (case ti_image this of
            None \<Rightarrow> this\<lparr>ti_image := Some (drawTextIcon x
                       (cairo_image_surface_create (int_of_uint32 sz) (int_of_uint32 sz))
                       label sz config)\<rparr>
          | Some _ \<Rightarrow> this))"

text \<open>
  \<open>ThemeImage::ThemeImage(name, BackgroundImageConfig)\<close>: a background image, with the
  procedurally drawn fallback when no image was loaded.
\<close>

definition minimumSize :: int where
  "minimumSize = 20"

definition drawBackground :: "ext \<Rightarrow> BackgroundImageConfig \<Rightarrow> surface" where
  "drawBackground x cfg =
     (let m = bg_margin cfg;
          width = marginLeft m + marginRight m + max (marginLeft m + marginRight m) minimumSize;
          height = marginTop m + marginBottom m + max (marginTop m + marginBottom m) minimumSize;
          borderWidth = Min {bg_borderWidth cfg, marginLeft m, marginRight m, marginTop m,
                             marginBottom m};
          cr = cairo_create (cairo_image_surface_create width height);
          cr = cairo_set_operator cr CAIRO_OPERATOR_SOURCE;
          cr = (if borderWidth \<noteq> 0
                then cairo_paint x (cairoSetSourceColor x cr (bg_borderColor cfg))
                else cr);
          cr = cairo_rectangle cr (of_int borderWidth) (of_int borderWidth)
                 (of_int (width - borderWidth * 2)) (of_int (height - borderWidth * 2));
          cr = cairo_clip cr;
          cr = cairoSetSourceColor x cr (bg_color cfg);
          cr = cairo_paint x cr
      in c_target cr)"

definition ThemeImage_background :: "ext \<Rightarrow> ustring \<Rightarrow> BackgroundImageConfig \<Rightarrow> ThemeImage" where
  "ThemeImage_background x name cfg =
     (let this = ThemeImage_init;
          this = (if bg_image cfg \<noteq> [] then
                    (let imageFile = x_StandardPath_open x (theme_path name (bg_image cfg));
                         img = load_checked x imageFile
                     in this\<lparr>ti_image := img, ti_valid := (img \<noteq> None)\<rparr>)
                  else this);
          this = (if bg_overlay cfg \<noteq> [] then
                    (let imageFile = x_StandardPath_open x (theme_path name (bg_overlay cfg))
                     in this\<lparr>ti_overlay := load_checked x imageFile\<rparr>)
                  else this)
      in (case ti_image this of
            None \<Rightarrow> this\<lparr>ti_image := Some (drawBackground x cfg), ti_isImage := True\<rparr>
          | Some _ \<Rightarrow> this))"

text \<open>\<open>ThemeImage::ThemeImage(name, ActionImageConfig)\<close>: an action image.\<close>

definition ThemeImage_action :: "ext \<Rightarrow> ustring \<Rightarrow> ActionImageConfig \<Rightarrow> ThemeImage" where
  "ThemeImage_action x name cfg =
     (let this = ThemeImage_init in
      if act_image cfg \<noteq> [] then
        (let imageFile = x_StandardPath_open x (theme_path name (act_image cfg));
             img = load_checked x imageFile
         in this\<lparr>ti_image := img, ti_valid := (img \<noteq> None)\<rparr>)
      else this)"

section \<open>The theme and its image caches\<close>

text \<open>
  The three tables of \<open>Theme\<close> are hash maps: the tray table is keyed by a string, the
  background and action tables by the address of the configuration object. A configuration
  passed by reference is a pair of its address and its contents. \<open>th_iconTheme\<close> and
  \<open>th_name\<close> are the members \<open>iconTheme_\<close> and \<open>name_\<close>, the tables are the members
  of the same names. \<open>built\<close> is not a member of the class: it counts the \<open>ThemeImage\<close>
  constructor calls, as instrumentation.
\<close>

type_synonym 'a cref = "nat \<times> 'a"

record Theme =
  th_iconTheme :: IconTheme
  th_name :: ustring
  trayImageTable :: "ustring \<rightharpoonup> ThemeImage"
  backgroundImageTable :: "nat \<rightharpoonup> ThemeImage"
  actionImageTable :: "nat \<rightharpoonup> ThemeImage"
  built :: nat

datatype error = AssertionFailed | NullSurface

definition findValue :: "('k \<rightharpoonup> 'v) \<Rightarrow> 'k \<Rightarrow> 'v option" where
  "findValue m k = m k"

text \<open>
  \<open>emplace\<close> on a map with unique keys: the new value is stored only when the key is
  absent. The result is the map, the element now stored under the key, and whether the
  insertion took place.
\<close>

definition emplace :: "('k \<rightharpoonup> 'v) \<Rightarrow> 'k \<Rightarrow> 'v \<Rightarrow> ('k \<rightharpoonup> 'v) \<times> 'v \<times> bool" where
  "emplace m k v =
     (case m k of
        None \<Rightarrow> (m(k \<mapsto> v), v, True)
      | Some old \<Rightarrow> (m, old, False))"

definition erase :: "('k \<rightharpoonup> 'v) \<Rightarrow> 'k \<Rightarrow> ('k \<rightharpoonup> 'v)" where
  "erase m k = m(k := None)"

definition loadBackground ::
  "ext \<Rightarrow> Theme \<Rightarrow> BackgroundImageConfig cref \<Rightarrow> error + (ThemeImage \<times> Theme)" where
  "loadBackground x th cfg =
     (case findValue (backgroundImageTable th) (fst cfg) of
        Some img \<Rightarrow> Inr (img, th)
      | None \<Rightarrow>
          (case emplace (backgroundImageTable th) (fst cfg)
                  (ThemeImage_background x (th_name th) (snd cfg)) of
             (tab, stored, inserted) \<Rightarrow>
               if inserted
               then Inr (stored, th\<lparr>backgroundImageTable := tab, built := built th + 1\<rparr>)
               else Inl AssertionFailed))"

definition loadAction ::
  "ext \<Rightarrow> Theme \<Rightarrow> ActionImageConfig cref \<Rightarrow> error + (ThemeImage \<times> Theme)" where
  "loadAction x th cfg =
     (case findValue (actionImageTable th) (fst cfg) of
        Some img \<Rightarrow> Inr (img, th)
      | None \<Rightarrow>
          (case emplace (actionImageTable th) (fst cfg)
                  (ThemeImage_action x (th_name th) (snd cfg)) of
             (tab, stored, inserted) \<Rightarrow>
               if inserted
               then Inr (stored, th\<lparr>actionImageTable := tab, built := built th + 1\<rparr>)
               else Inl AssertionFailed))"

text \<open>\<open>Theme::loadImage(icon, label, size, classicui)\<close>: the tray image.\<close>

definition tray_key :: "ustring \<Rightarrow> ustring \<Rightarrow> ustring" where
  "tray_key icon label = ustr ''icon:'' @ icon @ ustr ''label:'' @ label"

definition Theme_loadImage ::
  "ext \<Rightarrow> ClassicUIConfig \<Rightarrow> Theme \<Rightarrow> ustring \<Rightarrow> ustring \<Rightarrow> nat
     \<Rightarrow> error + (ThemeImage \<times> Theme)" where
  "Theme_loadImage x config th icon label sz =
     (let name = tray_key icon label;
          found = findValue (trayImageTable th) name
      in case (case found of Some img \<Rightarrow> if ti_size img = sz then Some img else None
                | None \<Rightarrow> None) of
           Some img \<Rightarrow> Inr (img, th)
         | None \<Rightarrow>
             (let tab0 = (case found of Some _ \<Rightarrow> erase (trayImageTable th) name
                           | None \<Rightarrow> trayImageTable th)
              in case emplace tab0 name (ThemeImage_tray x config (th_iconTheme th) icon label sz) of
                   (tab, stored, inserted) \<Rightarrow>
                     if inserted
                     then Inr (stored, th\<lparr>trayImageTable := tab, built := built th + 1\<rparr>)
                     else Inl AssertionFailed))"

definition reset :: "Theme \<Rightarrow> Theme" where
  "reset th = th\<lparr>trayImageTable := Map.empty, backgroundImageTable := Map.empty,
                 actionImageTable := Map.empty\<rparr>"

definition setIconTheme :: "Theme \<Rightarrow> ustring \<Rightarrow> bool \<times> Theme" where
  "setIconTheme th name =
     (if internalName (th_iconTheme th) \<noteq> name
      then (True, th\<lparr>th_iconTheme := IconTheme_new name, trayImageTable := Map.empty\<rparr>)
      else (False, th))"

section \<open>Concrete values for the examples\<close>

text \<open>
  A 4 by 4 image whose sixteen pixels are all different, an environment in which exactly
  one theme file (\<open>themes/default/panel.png\<close>) exists and decodes to that image, and a
  theme that has that image cached for the background configuration at address 7, an
  invalid action image at address 9, and a tray image of size 16.
\<close>

definition sample_surface :: surface where
  "sample_surface =
     \<lparr>status_ok = True, s_width = 4, s_height = 4,
      s_pixels = (\<lambda>i j. word_of_int (1 + i + 4 * j))\<rparr>"

definition sample_ext :: ext where
  "sample_ext =
     \<lparr>x_glib = sample_glib,
      x_findIcon = (\<lambda>theme icon sz. []),
      x_open = (\<lambda>path. - 1),
      x_StandardPath_open = (\<lambda>path.
         \<lparr>f_fd = (if path = theme_path (ustr ''default'') (ustr ''panel.png'') then 3 else - 1),
          f_path = path\<rparr>),
      x_png_stream = (\<lambda>fd. if fd = 3 then Some sample_surface else None),
      x_pixbuf = (\<lambda>fd. None),
      x_hasTwoKeyboardInCurrentGroup = False,
      x_pixel_of_color = (\<lambda>col. word_of_nat (c_alpha col * 2 ^ 24 + c_red col * 2 ^ 16
                                               + c_green col * 2 ^ 8 + c_blue col)),
      x_text_icon = (\<lambda>label font pixelSize sz outline col i j. 0),
      x_composite = (\<lambda>op al src dst. dst),
      x_resample = (\<lambda>f s sx sy qx qy. 0)\<rparr>"

definition sample_config :: ClassicUIConfig where
  "sample_config =
     \<lparr>preferTextIcon = False, trayFont = ustr ''Sans 9'',
      trayBorderColor = \<lparr>c_red = 0, c_green = 0, c_blue = 0, c_alpha = 255\<rparr>,
      trayTextColor = \<lparr>c_red = 255, c_green = 255, c_blue = 255, c_alpha = 255\<rparr>\<rparr>"

definition sample_image :: ThemeImage where
  "sample_image = ThemeImage_init\<lparr>ti_valid := True, ti_image := Some sample_surface\<rparr>"

definition sample_theme :: Theme where
  "sample_theme =
     \<lparr>th_iconTheme = IconTheme_new (ustr ''hicolor''), th_name = ustr ''default'',
      trayImageTable = [tray_key (ustr ''fcitx-kbd'') (ustr ''us'') \<mapsto>
                          ThemeImage_init\<lparr>ti_size := 16, ti_image := Some sample_surface\<rparr>],
      backgroundImageTable = [7 \<mapsto> sample_image],
      actionImageTable = [9 \<mapsto> ThemeImage_init],
      built = 3\<rparr>"

definition sample_margin :: MarginConfig where
  "sample_margin = \<lparr>marginLeft = 1, marginRight = 1, marginTop = 1, marginBottom = 1\<rparr>"

definition no_margin :: MarginConfig where
  "no_margin = \<lparr>marginLeft = 0, marginRight = 0, marginTop = 0, marginBottom = 0\<rparr>"

definition sample_background :: BackgroundImageConfig where
  "sample_background =
     \<lparr>bg_image = ustr ''panel.png'',
      bg_color = \<lparr>c_red = 255, c_green = 255, c_blue = 255, c_alpha = 255\<rparr>,
      bg_borderColor = \<lparr>c_red = 0, c_green = 0, c_blue = 0, c_alpha = 255\<rparr>,
      bg_borderWidth = 1, bg_overlay = [], bg_gravity = BottomRight,
      bg_overlayOffsetX = 0, bg_overlayOffsetY = 0, bg_hideOverlayIfOversize = False,
      bg_margin = sample_margin, bg_overlayClipMargin = no_margin\<rparr>"

section \<open>Rectangles\<close>

text \<open>
  Modelled from the spec: \<open>Rect\<close> (fcitx-utils, not among the sources) is an integer
  position and size, with intersection and containment tests. The right and bottom edges
  are exclusive; the intersection of rectangles that do not overlap is the default
  rectangle, which is empty.
\<close>

record Rect =
  r_x :: int
  r_y :: int
  r_w :: int
  r_h :: int

definition Rect_default :: Rect where
  "Rect_default = \<lparr>r_x = 0, r_y = 0, r_w = 0, r_h = 0\<rparr>"

definition setPosition :: "Rect \<Rightarrow> int \<Rightarrow> int \<Rightarrow> Rect" where
  "setPosition r x y = r\<lparr>r_x := x, r_y := y\<rparr>"

definition setSize :: "Rect \<Rightarrow> int \<Rightarrow> int \<Rightarrow> Rect" where
  "setSize r w h = r\<lparr>r_w := w, r_h := h\<rparr>"

definition r_left :: "Rect \<Rightarrow> int" where
  "r_left r = r_x r"

definition r_top :: "Rect \<Rightarrow> int" where
  "r_top r = r_y r"

definition r_right :: "Rect \<Rightarrow> int" where
  "r_right r = r_x r + r_w r"

definition r_bottom :: "Rect \<Rightarrow> int" where
  "r_bottom r = r_y r + r_h r"

definition intersected :: "Rect \<Rightarrow> Rect \<Rightarrow> Rect" where
  "intersected a b =
     (let x1 = max (r_left a) (r_left b); x2 = min (r_right a) (r_right b);
          y1 = max (r_top a) (r_top b); y2 = min (r_bottom a) (r_bottom b)
      in if x1 < x2 \<and> y1 < y2
         then \<lparr>r_x = x1, r_y = y1, r_w = x2 - x1, r_h = y2 - y1\<rparr>
         else Rect_default)"

definition isEmpty :: "Rect \<Rightarrow> bool" where
  "isEmpty r = (r_w r \<le> 0 \<or> r_h r \<le> 0)"

definition contains :: "Rect \<Rightarrow> Rect \<Rightarrow> bool" where
  "contains a b =
     (r_left a \<le> r_left b \<and> r_right b \<le> r_right a \<and>
      r_top a \<le> r_top b \<and> r_bottom b \<le> r_bottom a)"

text \<open>The pixels of a rectangle.\<close>

definition in_Rect :: "Rect \<Rightarrow> int \<Rightarrow> int \<Rightarrow> bool" where
  "in_Rect r px py = (r_left r \<le> px \<and> px < r_right r \<and> r_top r \<le> py \<and> py < r_bottom r)"

section \<open>Painting a background\<close>

text \<open>
  The local variables of \<open>Theme::paint\<close> after the first part of its body: the four
  margins, the size of the stretchable region of the image (at least 1 in each direction),
  and the target size, a negative target size having been replaced by the size of the
  stretchable region.
\<close>

record paint_locals =
  pl_marginTop :: int
  pl_marginBottom :: int
  pl_marginLeft :: int
  pl_marginRight :: int
  pl_resizeHeight :: int
  pl_resizeWidth :: int
  pl_height :: int
  pl_width :: int

definition paint_locals_of :: "surface \<Rightarrow> BackgroundImageConfig \<Rightarrow> int \<Rightarrow> int \<Rightarrow> paint_locals" where
  "paint_locals_of img cfg width height =
     (let marginTop = marginTop (bg_margin cfg);
          marginBottom = marginBottom (bg_margin cfg);
          marginLeft = marginLeft (bg_margin cfg);
          marginRight = marginRight (bg_margin cfg);
          resizeHeight = cairo_image_surface_get_height img - marginTop - marginBottom;
          resizeWidth = cairo_image_surface_get_width img - marginLeft - marginRight;
          resizeHeight = (if resizeHeight \<le> 0 then 1 else resizeHeight);
          resizeWidth = (if resizeWidth \<le> 0 then 1 else resizeWidth);
          height = (if height < 0 then resizeHeight else height);
          width = (if width < 0 then resizeWidth else width)
      in \<lparr>pl_marginTop = marginTop, pl_marginBottom = marginBottom,
          pl_marginLeft = marginLeft, pl_marginRight = marginRight,
          pl_resizeHeight = resizeHeight, pl_resizeWidth = resizeWidth,
          pl_height = height, pl_width = width\<rparr>)"

definition targetResizeWidth :: "paint_locals \<Rightarrow> int" where
  "targetResizeWidth l = pl_width l - pl_marginLeft l - pl_marginRight l"

definition targetResizeHeight :: "paint_locals \<Rightarrow> int" where
  "targetResizeHeight l = pl_height l - pl_marginTop l - pl_marginBottom l"

definition scaleX :: "paint_locals \<Rightarrow> rat" where
  "scaleX l = of_int (targetResizeWidth l) / of_int (pl_resizeWidth l)"

definition scaleY :: "paint_locals \<Rightarrow> rat" where
  "scaleY l = of_int (targetResizeHeight l) / of_int (pl_resizeHeight l)"

text \<open>
  The nine parts, numbered as in the source: 7 8 9 on the top row, 4 5 6 in the middle,
  1 2 3 at the bottom. The comments of the source name the top and bottom edges "2 and 8"
  and the left and right edges "4 and 6"; the top edge is painted first.
\<close>

definition paint_part1 :: "ext \<Rightarrow> surface \<Rightarrow> paint_locals \<Rightarrow> rat \<Rightarrow> cairo_t \<Rightarrow> cairo_t" where
  "paint_part1 x img l al c =
     (if pl_marginLeft l \<noteq> 0 \<and> pl_marginBottom l \<noteq> 0 then
        (let c = cairo_save c;
             c = cairo_translate c 0 (of_int (pl_height l - pl_marginBottom l));
             c = cairo_set_source_surface c img 0 (of_int (- pl_marginTop l - pl_resizeHeight l));
             c = cairo_rectangle c 0 0 (of_int (pl_marginLeft l)) (of_int (pl_marginBottom l));
             c = cairo_clip c;
             c = cairo_paint_with_alpha x c al
         in cairo_restore c)
      else c)"

definition paint_part3 :: "ext \<Rightarrow> surface \<Rightarrow> paint_locals \<Rightarrow> rat \<Rightarrow> cairo_t \<Rightarrow> cairo_t" where
  "paint_part3 x img l al c =
     (if pl_marginRight l \<noteq> 0 \<and> pl_marginBottom l \<noteq> 0 then
        (let c = cairo_save c;
             c = cairo_translate c (of_int (pl_width l - pl_marginRight l))
                   (of_int (pl_height l - pl_marginBottom l));
             c = cairo_set_source_surface c img (of_int (- pl_marginLeft l - pl_resizeWidth l))
                   (of_int (- pl_marginTop l - pl_resizeHeight l));
             c = cairo_rectangle c 0 0 (of_int (pl_marginRight l)) (of_int (pl_marginBottom l));
             c = cairo_clip c;
             c = cairo_paint_with_alpha x c al
         in cairo_restore c)
      else c)"

definition paint_part7 :: "ext \<Rightarrow> surface \<Rightarrow> paint_locals \<Rightarrow> rat \<Rightarrow> cairo_t \<Rightarrow> cairo_t" where
  "paint_part7 x img l al c =
     (if pl_marginLeft l \<noteq> 0 \<and> pl_marginTop l \<noteq> 0 then
        (let c = cairo_save c;
             c = cairo_set_source_surface c img 0 0;
             c = cairo_rectangle c 0 0 (of_int (pl_marginLeft l)) (of_int (pl_marginTop l));
             c = cairo_clip c;
             c = cairo_paint_with_alpha x c al
         in cairo_restore c)
      else c)"

definition paint_part9 :: "ext \<Rightarrow> surface \<Rightarrow> paint_locals \<Rightarrow> rat \<Rightarrow> cairo_t \<Rightarrow> cairo_t" where
  "paint_part9 x img l al c =
     (if pl_marginRight l \<noteq> 0 \<and> pl_marginTop l \<noteq> 0 then
        (let c = cairo_save c;
             c = cairo_translate c (of_int (pl_width l - pl_marginRight l)) 0;
             c = cairo_set_source_surface c img (of_int (- pl_marginLeft l - pl_resizeWidth l)) 0;
             c = cairo_rectangle c 0 0 (of_int (pl_marginRight l)) (of_int (pl_marginTop l));
             c = cairo_clip c;
             c = cairo_paint_with_alpha x c al
         in cairo_restore c)
      else c)"

definition paint_part8 :: "ext \<Rightarrow> surface \<Rightarrow> paint_locals \<Rightarrow> rat \<Rightarrow> cairo_t \<Rightarrow> cairo_t" where
  "paint_part8 x img l al c =
     (if pl_marginTop l \<noteq> 0 \<and> targetResizeWidth l > 0 then
        (let c = cairo_save c;
             c = cairo_translate c (of_int (pl_marginLeft l)) 0;
             c = cairo_scale c (scaleX l) 1;
             c = cairo_set_source_surface c img (of_int (- pl_marginLeft l)) 0;
             c = cairo_rectangle c 0 0 (of_int (pl_resizeWidth l)) (of_int (pl_marginTop l));
             c = cairo_clip c;
             c = cairo_paint_with_alpha x c al
         in cairo_restore c)
      else c)"

definition paint_part2 :: "ext \<Rightarrow> surface \<Rightarrow> paint_locals \<Rightarrow> rat \<Rightarrow> cairo_t \<Rightarrow> cairo_t" where
  "paint_part2 x img l al c =
     (if pl_marginBottom l \<noteq> 0 \<and> targetResizeWidth l > 0 then
        (let c = cairo_save c;
             c = cairo_translate c (of_int (pl_marginLeft l))
                   (of_int (pl_height l - pl_marginBottom l));
             c = cairo_scale c (scaleX l) 1;
             c = cairo_set_source_surface c img (of_int (- pl_marginLeft l))
                   (of_int (- pl_marginTop l - pl_resizeHeight l));
             c = cairo_rectangle c 0 0 (of_int (pl_resizeWidth l)) (of_int (pl_marginBottom l));
             c = cairo_clip c;
             c = cairo_paint_with_alpha x c al
         in cairo_restore c)
      else c)"

definition paint_part4 :: "ext \<Rightarrow> surface \<Rightarrow> paint_locals \<Rightarrow> rat \<Rightarrow> cairo_t \<Rightarrow> cairo_t" where
  "paint_part4 x img l al c =
     (if pl_marginLeft l \<noteq> 0 \<and> targetResizeHeight l > 0 then
        (let c = cairo_save c;
             c = cairo_translate c 0 (of_int (pl_marginTop l));
             c = cairo_scale c 1 (scaleY l);
             c = cairo_set_source_surface c img 0 (of_int (- pl_marginTop l));
             c = cairo_rectangle c 0 0 (of_int (pl_marginLeft l)) (of_int (pl_resizeHeight l));
             c = cairo_clip c;
             c = cairo_paint_with_alpha x c al
         in cairo_restore c)
      else c)"

definition paint_part6 :: "ext \<Rightarrow> surface \<Rightarrow> paint_locals \<Rightarrow> rat \<Rightarrow> cairo_t \<Rightarrow> cairo_t" where
  "paint_part6 x img l al c =
     (if pl_marginRight l \<noteq> 0 \<and> targetResizeHeight l > 0 then
        (let c = cairo_save c;
             c = cairo_translate c (of_int (pl_width l - pl_marginRight l))
                   (of_int (pl_marginTop l));
             c = cairo_scale c 1 (scaleY l);
             c = cairo_set_source_surface c img (of_int (- pl_marginLeft l - pl_resizeWidth l))
                   (of_int (- pl_marginTop l));
             c = cairo_rectangle c 0 0 (of_int (pl_marginRight l)) (of_int (pl_resizeHeight l));
             c = cairo_clip c;
             c = cairo_paint_with_alpha x c al
         in cairo_restore c)
      else c)"

definition paint_part5 :: "ext \<Rightarrow> surface \<Rightarrow> paint_locals \<Rightarrow> rat \<Rightarrow> cairo_t \<Rightarrow> cairo_t" where
  "paint_part5 x img l al c =
     (if targetResizeHeight l > 0 \<and> targetResizeWidth l > 0 then
        (let c = cairo_save c;
             c = cairo_translate c (of_int (pl_marginLeft l)) (of_int (pl_marginTop l));
             c = cairo_scale c (scaleX l) (scaleY l);
             c = cairo_set_source_surface c img (of_int (- pl_marginLeft l))
                   (of_int (- pl_marginTop l));
             c = cairo_source_set_filter c CAIRO_FILTER_NEAREST;
             w = pl_resizeWidth l; h = pl_resizeHeight l;
             c = cairo_rectangle c 0 0 (of_int w) (of_int h);
             c = cairo_clip c;
             c = cairo_paint_with_alpha x c al
         in cairo_restore c)
      else c)"

definition paint_ninepatch :: "ext \<Rightarrow> surface \<Rightarrow> paint_locals \<Rightarrow> rat \<Rightarrow> cairo_t \<Rightarrow> cairo_t" where
  "paint_ninepatch x img l al c =
     (let c = cairo_save c;
          c = paint_part1 x img l al c;
          c = paint_part3 x img l al c;
          c = paint_part7 x img l al c;
          c = paint_part9 x img l al c;
          c = paint_part8 x img l al c;
          c = paint_part2 x img l al c;
          c = paint_part4 x img l al c;
          c = paint_part6 x img l al c;
          c = paint_part5 x img l al c
      in cairo_restore c)"

text \<open>Integer division of C++, which truncates towards zero.\<close>

definition cdiv :: "int \<Rightarrow> int \<Rightarrow> int" where
  "cdiv a b = sgn a * sgn b * (\<bar>a\<bar> div \<bar>b\<bar>)"

text \<open>The two \<open>switch\<close> statements that place the overlay.\<close>

definition overlay_x :: "BackgroundImageConfig \<Rightarrow> int \<Rightarrow> int \<Rightarrow> int" where
  "overlay_x cfg width ovWidth =
     (case bg_gravity cfg of
        TopLeft \<Rightarrow> bg_overlayOffsetX cfg
      | CenterLeft \<Rightarrow> bg_overlayOffsetX cfg
      | BottomLeft \<Rightarrow> bg_overlayOffsetX cfg
      | TopCenter \<Rightarrow> cdiv (width - ovWidth) 2 + bg_overlayOffsetX cfg
      | Center \<Rightarrow> cdiv (width - ovWidth) 2 + bg_overlayOffsetX cfg
      | BottomCenter \<Rightarrow> cdiv (width - ovWidth) 2 + bg_overlayOffsetX cfg
      | TopRight \<Rightarrow> width - ovWidth - bg_overlayOffsetX cfg
      | CenterRight \<Rightarrow> width - ovWidth - bg_overlayOffsetX cfg
      | BottomRight \<Rightarrow> width - ovWidth - bg_overlayOffsetX cfg)"

definition overlay_y :: "BackgroundImageConfig \<Rightarrow> int \<Rightarrow> int \<Rightarrow> int" where
  "overlay_y cfg height ovHeight =
     (case bg_gravity cfg of
        TopLeft \<Rightarrow> bg_overlayOffsetY cfg
      | TopCenter \<Rightarrow> bg_overlayOffsetY cfg
      | TopRight \<Rightarrow> bg_overlayOffsetY cfg
      | CenterLeft \<Rightarrow> cdiv (height - ovHeight) 2 + bg_overlayOffsetY cfg
      | Center \<Rightarrow> cdiv (height - ovHeight) 2 + bg_overlayOffsetY cfg
      | CenterRight \<Rightarrow> cdiv (height - ovHeight) 2 + bg_overlayOffsetY cfg
      | BottomLeft \<Rightarrow> height - ovHeight - bg_overlayOffsetY cfg
      | BottomCenter \<Rightarrow> height - ovHeight - bg_overlayOffsetY cfg
      | BottomRight \<Rightarrow> height - ovHeight - bg_overlayOffsetY cfg)"

definition overlay_clipRect :: "BackgroundImageConfig \<Rightarrow> int \<Rightarrow> int \<Rightarrow> Rect" where
  "overlay_clipRect cfg width height =
     (let clipWidth = width - marginLeft (bg_overlayClipMargin cfg)
                        - marginRight (bg_overlayClipMargin cfg);
          clipHeight = height - marginTop (bg_overlayClipMargin cfg)
                         - marginBottom (bg_overlayClipMargin cfg)
      in setSize (setPosition Rect_default (marginLeft (bg_overlayClipMargin cfg))
                    (marginTop (bg_overlayClipMargin cfg))) clipWidth clipHeight)"

definition overlay_rect :: "BackgroundImageConfig \<Rightarrow> surface \<Rightarrow> int \<Rightarrow> int \<Rightarrow> Rect" where
  "overlay_rect cfg ov width height =
     setSize (setPosition Rect_default (overlay_x cfg width (overlayWidth ov))
                (overlay_y cfg height (overlayHeight ov)))
       (overlayWidth ov) (overlayHeight ov)"

text \<open>
  The second half of \<open>Theme::paint\<close>: the overlay. \<open>width\<close> and \<open>height\<close> are the
  values of the local variables at this point, that is \<open>pl_width\<close> and \<open>pl_height\<close>.
\<close>

definition paint_overlay ::
  "ext \<Rightarrow> surface option \<Rightarrow> BackgroundImageConfig \<Rightarrow> int \<Rightarrow> int \<Rightarrow> rat \<Rightarrow> cairo_t \<Rightarrow> cairo_t" where
  "paint_overlay x overlay cfg width height al c =
     (case overlay of
        None \<Rightarrow> c
      | Some ov \<Rightarrow>
          (let clipRect = overlay_clipRect cfg width height in
           if r_w clipRect \<le> 0 \<or> r_h clipRect \<le> 0 then c
           else
             (let rect = overlay_rect cfg ov width height;
                  finalRect = intersected rect clipRect
              in if isEmpty finalRect then c
                 else if bg_hideOverlayIfOversize cfg \<and> \<not> contains clipRect rect then c
                 else
                   (let c = cairo_save c;
                        c = cairo_set_operator c CAIRO_OPERATOR_OVER;
                        c = cairo_translate c (of_int (r_left finalRect)) (of_int (r_top finalRect));
                        c = cairo_set_source_surface c ov (of_int (r_x rect - r_left finalRect))
                              (of_int (r_y rect - r_top finalRect));
                        c = cairo_rectangle c 0 0 (of_int (r_w finalRect)) (of_int (r_h finalRect));
                        c = cairo_clip c;
                        c = cairo_paint_with_alpha x c al
                    in cairo_restore c))))"

text \<open>
  \<open>Theme::paint(c, cfg, width, height, alpha)\<close> for a background: the image is looked up
  in the cache (and built when absent); reading the size of a null surface is an error.
\<close>

definition paint_image ::
  "ext \<Rightarrow> surface \<Rightarrow> surface option \<Rightarrow> BackgroundImageConfig \<Rightarrow> cairo_t \<Rightarrow> int \<Rightarrow> int \<Rightarrow> rat
     \<Rightarrow> cairo_t" where
  "paint_image x img overlay cfg c width height al =
     (let l = paint_locals_of img cfg width height;
          c = paint_ninepatch x img l al c
      in paint_overlay x overlay cfg (pl_width l) (pl_height l) al c)"

definition paint ::
  "ext \<Rightarrow> Theme \<Rightarrow> cairo_t \<Rightarrow> BackgroundImageConfig cref \<Rightarrow> int \<Rightarrow> int \<Rightarrow> rat
     \<Rightarrow> error + (cairo_t \<times> Theme)" where
  "paint x th c cfg width height al =
     (case loadBackground x th cfg of
        Inl e \<Rightarrow> Inl e
      | Inr (timg, th') \<Rightarrow>
          (case ti_image timg of
             None \<Rightarrow> Inl NullSurface
           | Some img \<Rightarrow>
               Inr (paint_image x img (ti_overlay timg) (snd cfg) c width height al, th')))"

text \<open>\<open>Theme::paint(c, cfg, alpha)\<close> for an action image.\<close>

definition paint_action ::
  "ext \<Rightarrow> Theme \<Rightarrow> cairo_t \<Rightarrow> ActionImageConfig cref \<Rightarrow> rat \<Rightarrow> error + (cairo_t \<times> Theme)" where
  "paint_action x th c cfg al =
     (case loadAction x th cfg of
        Inl e \<Rightarrow> Inl e
      | Inr (timg, th') \<Rightarrow>
          (case ti_image timg of
             None \<Rightarrow> Inl NullSurface
           | Some img \<Rightarrow>
               (let height = cairo_image_surface_get_height img;
                    width = cairo_image_surface_get_width img;
                    c = cairo_save c;
                    c = cairo_set_source_surface c img 0 0;
                    c = cairo_rectangle c 0 0 (of_int width) (of_int height);
                    c = cairo_clip c;
                    c = cairo_paint_with_alpha x c al
                in Inr (cairo_restore c, th'))))"

text \<open>
  The net effect of one part on the target, said directly: inside the device rectangle
  \<open>R\<close> (and the clip that was already set) every pixel of the target is composited with
  the source read through the transformation \<open>M\<close>.
\<close>

definition stamp ::
  "ext \<Rightarrow> cairo_operator \<Rightarrow> matrix \<Rightarrow> surface \<Rightarrow> rat \<Rightarrow> rat \<Rightarrow> cairo_filter \<Rightarrow> drect \<Rightarrow> rat
     \<Rightarrow> cairo_t \<Rightarrow> cairo_t" where
  "stamp x op M img ox oy f R al c =
     (let t = c_target c; clip = g_clip (c_gstate c); old = s_pixels t
      in if \<not> status_ok t then c
         else c\<lparr>c_target := t\<lparr>s_pixels := (\<lambda>px py.
                if 0 \<le> px \<and> px < s_width t \<and> 0 \<le> py \<and> py < s_height t \<and>
                   in_clip (clip @ [[R]]) px py
                then composite x op al (source_at x (SurfaceSource img M ox oy f) px py)
                       (old px py)
                else old px py)\<rparr>\<rparr>)"

definition translation :: "rat \<Rightarrow> rat \<Rightarrow> matrix" where
  "translation tx ty = \<lparr>m_sx = 1, m_sy = 1, m_tx = tx, m_ty = ty\<rparr>"

text \<open>
  A context as the caller of \<open>paint\<close> provides it in the simplest case: a valid target
  surface, no current path, no clip and no transformation. And the geometry the painting
  is designed for: non-negative margins (the stretchable region is positive by
  construction).
\<close>

definition ctx_plain :: "cairo_t \<Rightarrow> bool" where
  "ctx_plain c =
     (c_path c = [] \<and> g_ctm (c_gstate c) = identity_matrix \<and> g_clip (c_gstate c) = [] \<and>
      status_ok (c_target c))"

definition margins_ok :: "paint_locals \<Rightarrow> bool" where
  "margins_ok l =
     (0 \<le> pl_marginTop l \<and> 0 \<le> pl_marginBottom l \<and> 0 \<le> pl_marginLeft l \<and>
      0 \<le> pl_marginRight l \<and> 0 < pl_resizeWidth l \<and> 0 < pl_resizeHeight l)"

text \<open>
  When the overlay is painted, and over which pixels: the three early returns of the second
  half of \<open>Theme::paint\<close>, negated, and the intersection rectangle.
\<close>

definition overlay_finalRect :: "BackgroundImageConfig \<Rightarrow> surface \<Rightarrow> int \<Rightarrow> int \<Rightarrow> Rect" where
  "overlay_finalRect cfg ov width height =
     intersected (overlay_rect cfg ov width height) (overlay_clipRect cfg width height)"

definition overlay_drawn :: "BackgroundImageConfig \<Rightarrow> surface \<Rightarrow> int \<Rightarrow> int \<Rightarrow> bool" where
  "overlay_drawn cfg ov width height =
     (0 < r_w (overlay_clipRect cfg width height) \<and> 0 < r_h (overlay_clipRect cfg width height) \<and>
      \<not> isEmpty (overlay_finalRect cfg ov width height) \<and>
      (bg_hideOverlayIfOversize cfg \<longrightarrow>
         contains (overlay_clipRect cfg width height) (overlay_rect cfg ov width height)))"

definition overlay_covers ::
  "BackgroundImageConfig \<Rightarrow> surface option \<Rightarrow> int \<Rightarrow> int \<Rightarrow> int \<Rightarrow> int \<Rightarrow> bool" where
  "overlay_covers cfg overlay width height px py =
     (case overlay of
        None \<Rightarrow> False
      | Some ov \<Rightarrow> overlay_drawn cfg ov width height \<and>
                   in_Rect (overlay_finalRect cfg ov width height) px py)"

text \<open>
  More concrete values: an 8 by 8 target with the operator SOURCE, as \<open>Theme::mask\<close> sets
  it up, a background whose margins of 3 exceed what the 4 by 4 image can hold, and a
  background with a 4 by 4 overlay that is pushed 2 pixels out of the bottom right corner
  and hidden when oversized.
\<close>

definition sample_target :: cairo_t where
  "sample_target =
     cairo_set_operator (cairo_create (cairo_image_surface_create 8 8)) CAIRO_OPERATOR_SOURCE"

definition wide_margin_background :: BackgroundImageConfig where
  "wide_margin_background =
     sample_background\<lparr>bg_margin :=
        \<lparr>marginLeft = 3, marginRight = 3, marginTop = 3, marginBottom = 3\<rparr>\<rparr>"

definition overlay_background :: BackgroundImageConfig where
  "overlay_background =
     sample_background\<lparr>bg_overlay := ustr ''badge.png'', bg_overlayOffsetX := - 2,
        bg_overlayOffsetY := - 2, bg_hideOverlayIfOversize := True\<rparr>"

text \<open>
  The thirds of the gravity grid, in the words of the specification: the column decides the
  horizontal placement, the row the vertical one.
\<close>

datatype third = Near | Middle | Far

definition gravity_column :: "Gravity \<Rightarrow> third" where
  "gravity_column g =
     (if g = TopLeft \<or> g = CenterLeft \<or> g = BottomLeft then Near
      else if g = TopCenter \<or> g = Center \<or> g = BottomCenter then Middle
      else Far)"

definition gravity_row :: "Gravity \<Rightarrow> third" where
  "gravity_row g =
     (if g = TopLeft \<or> g = TopCenter \<or> g = TopRight then Near
      else if g = CenterLeft \<or> g = Center \<or> g = CenterRight then Middle
      else Far)"

section \<open>The shape mask\<close>

text \<open>
  \<open>cairo_region_t\<close> is an external type (pixman's regions). The model keeps a region as
  its rows, top to bottom, each row with its spans \<open>[x1, x2)\<close> from left to right, spans
  of a row neither overlapping nor touching. A rectangle is \<open>(x, y, width, height)\<close>. The
  rectangles of a region are read band by band: consecutive rows with the same spans form
  one band, and a band gives one rectangle per span, left to right. This is the banded form
  in which pixman keeps every region.
\<close>

type_synonym span = "int \<times> int"

type_synonym cairo_region = "(int \<times> span list) list"

type_synonym cairo_rectangle_int = "int \<times> int \<times> int \<times> int"

definition cairo_region_create :: cairo_region where
  "cairo_region_create = []"

fun span_union :: "span \<Rightarrow> span list \<Rightarrow> span list" where
  "span_union s [] = [s]"
| "span_union s (t # ts) =
     (if snd s < fst t then s # t # ts
      else if snd t < fst s then t # span_union s ts
      else span_union (min (fst s) (fst t), max (snd s) (snd t)) ts)"

fun row_union :: "int \<Rightarrow> span \<Rightarrow> cairo_region \<Rightarrow> cairo_region" where
  "row_union y s [] = [(y, [s])]"
| "row_union y s (r # rs) =
     (if y < fst r then (y, [s]) # r # rs
      else if y = fst r then (fst r, span_union s (snd r)) # rs
      else r # row_union y s rs)"

definition cairo_region_union_rectangle :: "cairo_region \<Rightarrow> cairo_rectangle_int \<Rightarrow> cairo_region" where
  "cairo_region_union_rectangle region rect =
     (case rect of (x, y, w, h) \<Rightarrow>
        if w \<le> 0 \<or> h \<le> 0 then region
        else fold (\<lambda>row. row_union row (x, x + w)) [y..y + h - 1] region)"

fun bands :: "cairo_region \<Rightarrow> (int \<times> int \<times> span list) list" where
  "bands [] = []"
| "bands (r # rs) =
     (case bands rs of
        [] \<Rightarrow> [(fst r, fst r + 1, snd r)]
      | b # bs \<Rightarrow>
          if fst b = fst r + 1 \<and> snd (snd b) = snd r
          then (fst r, fst (snd b), snd r) # bs
          else (fst r, fst r + 1, snd r) # b # bs)"

text \<open>
  \<open>cairo_region_num_rectangles\<close> and \<open>cairo_region_get_rectangle\<close>: the rectangles in
  their order.
\<close>

definition cairo_region_rectangles :: "cairo_region \<Rightarrow> cairo_rectangle_int list" where
  "cairo_region_rectangles region =
     concat (map (\<lambda>b. map (\<lambda>s. (fst s, fst b, snd s - fst s, fst (snd b) - fst b)) (snd (snd b)))
               (bands region))"

text \<open>
  The raster of an A1 surface: \<open>data\<close> gives the byte at an offset from the start of the
  pixel data, a row is \<open>stride\<close> bytes after the one before, and pixel \<open>x\<close> of a row is
  bit \<open>x mod 8\<close> of byte \<open>x div 8\<close>, counted from the least significant bit on a
  little-endian machine and from the most significant bit on a big-endian one.
\<close>

type_synonym raster = "int \<Rightarrow> 8 word"

definition a1_bit :: "bool \<Rightarrow> raster \<Rightarrow> int \<Rightarrow> int \<Rightarrow> int \<Rightarrow> bool" where
  "a1_bit little data stride x y =
     bit (data (y * stride + x div 8)) (if little then nat (x mod 8) else 7 - nat (x mod 8))"

text \<open>
  The state of the scan of one row: \<open>x\<close>, \<open>all\<close>, \<open>prev1\<close> and the region. The macro
  \<open>AddSpan\<close> adds the rectangle \<open>(prev1, y, x - prev1, 1)\<close> to the region.
\<close>

type_synonym scan_state = "int \<times> 8 word \<times> int \<times> cairo_region"

definition AddSpan :: "cairo_region \<Rightarrow> int \<Rightarrow> int \<Rightarrow> int \<Rightarrow> cairo_region" where
  "AddSpan region prev1 y x = cairo_region_union_rectangle region (prev1, y, x - prev1, 1)"

text \<open>
  One iteration of the loop over the bits of a byte, after the test \<open>x < width\<close>:
  \<open>masked\<close> is \<open>byte & 0x01\<close> (or \<open>byte & 0x80\<close>); the final \<open>++x\<close> is included.
\<close>

definition scan_bit :: "int \<Rightarrow> 8 word \<Rightarrow> scan_state \<Rightarrow> scan_state" where
  "scan_bit y masked st =
     (case st of (x, al, prev1, region) \<Rightarrow>
        if (masked = 0) = (al = 0) then (x + 1, al, prev1, region)
        else if al \<noteq> 0 then (x + 1, 0, prev1, AddSpan region prev1 y x)
        else (x + 1, NOT 0, x, region))"

text \<open>
  The loop \<open>for (int b = 8; b > 0 && x < width; --b)\<close>. Its two variants differ in the
  bit that is tested, \<open>byte & 0x01\<close> or \<open>byte & 0x80\<close>, and in the shift, \<open>byte >>= 1\<close>
  or \<open>byte <<= 1\<close>.
\<close>

definition masked :: "bool \<Rightarrow> 8 word \<Rightarrow> 8 word" where
  "masked little byte = (if little then byte AND 0x01 else byte AND 0x80)"

definition shifted :: "bool \<Rightarrow> 8 word \<Rightarrow> 8 word" where
  "shifted little byte = (if little then drop_bit 1 byte else push_bit 1 byte)"

fun bits_loop :: "bool \<Rightarrow> int \<Rightarrow> int \<Rightarrow> nat \<Rightarrow> 8 word \<Rightarrow> scan_state \<Rightarrow> scan_state" where
  "bits_loop little width y 0 byte st = st"
| "bits_loop little width y (Suc b) byte st =
     (if fst st < width
      then bits_loop little width y b (shifted little byte) (scan_bit y (masked little byte) st)
      else st)"

lemma scan_bit_x: "fst (scan_bit y m st) = fst st + 1"
  by (cases st) (simp add: scan_bit_def)

lemma bits_loop_x: "fst st \<le> fst (bits_loop little width y b byte st)"
proof (induction b arbitrary: byte st)
  case 0
  show ?case by simp
next
  case (Suc b)
  have "fst (scan_bit y (masked little byte) st)
      \<le> fst (bits_loop little width y b (shifted little byte) (scan_bit y (masked little byte) st))"
    by (rule Suc)
  then show ?case by (simp add: scan_bit_x)
qed

lemma bits_loop_progress:
  "fst st < width \<Longrightarrow> fst st < fst (bits_loop little width y (Suc b) byte st)"
  using bits_loop_x [of "scan_bit y (masked little byte) st" little width y b "shifted little byte"]
  by (simp add: scan_bit_x)

lemma bits_loop_bound:
  "fst st \<le> width \<Longrightarrow> fst (bits_loop little width y b byte st) \<le> width"
proof (induction b arbitrary: byte st)
  case 0
  then show ?case by simp
next
  case (Suc b)
  show ?case
  proof (cases "fst st < width")
    case True
    then have "fst (scan_bit y (masked little byte) st) \<le> width" by (simp add: scan_bit_x)
    with True Suc.IH show ?thesis by simp
  next
    case False
    with Suc.prems show ?thesis by simp
  qed
qed

text \<open>The loop \<open>for (x = 0; x < width;)\<close> over the bytes of the row at offset \<open>base\<close>.\<close>

function scan_row :: "bool \<Rightarrow> raster \<Rightarrow> int \<Rightarrow> int \<Rightarrow> int \<Rightarrow> scan_state \<Rightarrow> scan_state" where
  "scan_row little data base width y st =
     (if fst st < width then
        (let byte = data (base + fst st div 8) in
         if fst st > width - 8 \<or> byte \<noteq> fst (snd st)
         then scan_row little data base width y (bits_loop little width y 8 byte st)
         else scan_row little data base width y (fst st + 8, snd st))
      else st)"
  by pat_completeness auto
termination scan_row
proof (relation "measure (\<lambda>(little, data, base, width, y, st). nat (width - fst st))")
  show "wf (measure (\<lambda>(little, data, base, width, y, st). nat (width - fst st)))"
    by simp
next
  fix little :: bool and data :: raster and base width y :: int and st :: scan_state
    and byte :: "8 word"
  assume "fst st < width"
  then have "fst st < fst (bits_loop little width y 8 byte st)"
    using bits_loop_progress [of st width little y 7 byte] by (simp add: eval_nat_numeral)
  moreover have "fst (bits_loop little width y 8 byte st) \<le> width"
    using \<open>fst st < width\<close> by (intro bits_loop_bound) simp
  ultimately show "((little, data, base, width, y, bits_loop little width y 8 byte st),
         (little, data, base, width, y, st))
       \<in> measure (\<lambda>(little, data, base, width, y, st). nat (width - fst st))"
    by simp
next
  fix little :: bool and data :: raster and base width y :: int and st :: scan_state
  assume "fst st < width"
  then show "((little, data, base, width, y, fst st + 8, snd st),
         (little, data, base, width, y, st))
       \<in> measure (\<lambda>(little, data, base, width, y, st). nat (width - fst st))"
    by simp
qed

text \<open>
  The loop over the rows: each row starts with \<open>all = zero\<close> and \<open>prev1 = -1\<close>, and a
  span that is still open at the end of the row is added. \<open>n\<close> counts the rows that are
  left.
\<close>

fun mask_rows ::
  "bool \<Rightarrow> raster \<Rightarrow> int \<Rightarrow> int \<Rightarrow> nat \<Rightarrow> int \<Rightarrow> int \<Rightarrow> cairo_region \<Rightarrow> cairo_region" where
  "mask_rows little data stride width 0 y base region = region"
| "mask_rows little data stride width (Suc n) y base region =
     (case scan_row little data base width y (0, 0, - 1, region) of
        (x, al, prev1, region) \<Rightarrow>
          mask_rows little data stride width n (y + 1) (base + stride)
            (if al \<noteq> 0 then AddSpan region prev1 y x else region))"

text \<open>
  The second half of \<open>Theme::mask\<close>: the scan of the raster and the conversion of the
  region's rectangles.
\<close>

definition mask_scan :: "bool \<Rightarrow> raster \<Rightarrow> int \<Rightarrow> int \<Rightarrow> int \<Rightarrow> Rect list" where
  "mask_scan little data stride width height =
     map (\<lambda>r. case r of (x, y, w, h) \<Rightarrow> setSize (setPosition Rect_default x y) w h)
       (cairo_region_rectangles
          (mask_rows little data stride width (nat height) 0 0 cairo_region_create))"

text \<open>
  \<open>Theme::mask(cfg, width, height)\<close>: the background is painted with the operator SOURCE
  and alpha 1 on a new surface, and the raster of that surface is scanned. How cairo lays
  the painted surface out as a 1-bit raster is external: \<open>a1\<close> gives the data and the
  stride of a surface. \<open>little\<close> is the byte order of the machine.
\<close>

definition mask ::
  "ext \<Rightarrow> bool \<Rightarrow> (surface \<Rightarrow> raster \<times> int) \<Rightarrow> Theme \<Rightarrow> BackgroundImageConfig cref \<Rightarrow> int \<Rightarrow> int
     \<Rightarrow> error + (Rect list \<times> Theme)" where
  "mask x little a1 th cfg width height =
     (let c = cairo_create (cairo_image_surface_create width height);
          c = cairo_set_operator c CAIRO_OPERATOR_SOURCE
      in case paint x th c cfg width height 1 of
           Inl e \<Rightarrow> Inl e
         | Inr (c, th') \<Rightarrow>
             (case a1 (c_target c) of
                (data, cairo_stride) \<Rightarrow>
                  Inr (mask_scan little data cairo_stride width height, th')))"

text \<open>
  The spans of a row, said directly: the maximal runs of set bits. \<open>x\<close> is the position of
  the first of the remaining bits, \<open>start\<close> the beginning of the run that is open.
\<close>

fun runs :: "int \<Rightarrow> int option \<Rightarrow> bool list \<Rightarrow> span list" where
  "runs x None [] = []"
| "runs x (Some s) [] = [(s, x)]"
| "runs x None (b # bs) = (if b then runs (x + 1) (Some x) bs else runs (x + 1) None bs)"
| "runs x (Some s) (b # bs) =
     (if b then runs (x + 1) (Some s) bs else (s, x) # runs (x + 1) None bs)"

definition row_bits :: "bool \<Rightarrow> raster \<Rightarrow> int \<Rightarrow> int \<Rightarrow> int \<Rightarrow> int \<Rightarrow> bool list" where
  "row_bits little data stride width y x = map (\<lambda>i. a1_bit little data stride i y) [x..width - 1]"

text \<open>How many rectangles of a list hold a pixel.\<close>

definition holding :: "Rect list \<Rightarrow> int \<Rightarrow> int \<Rightarrow> nat" where
  "holding rs px py = length (filter (\<lambda>r. in_Rect r px py) rs)"

section \<open>Theorems\<close>

subsection \<open>Splitting\<close>

lemma split_from_cur:
  "cur \<noteq> [] \<Longrightarrow> split_from ds cur cs =
     (cur @ takeWhile (\<lambda>c. c \<notin> set ds) cs) # split_from ds [] (dropWhile (\<lambda>c. c \<notin> set ds) cs)"
  by (induction cs arbitrary: cur) auto

lemma split_from_empty_cur:
  "split_from ds [] cs = split_from ds [] (dropWhile (\<lambda>c. c \<in> set ds) cs)"
  by (induction cs) auto

lemma split_from_first:
  "split_from ds [] cs =
     (case dropWhile (\<lambda>c. c \<in> set ds) cs of
        [] \<Rightarrow> []
      | c # r \<Rightarrow> takeWhile (\<lambda>c. c \<notin> set ds) (c # r)
                 # split_from ds [] (dropWhile (\<lambda>c. c \<notin> set ds) r))"
proof (induction cs)
  case Nil
  show ?case by simp
next
  case (Cons a cs)
  show ?case
  proof (cases "a \<in> set ds")
    case True
    with Cons show ?thesis by simp
  next
    case False
    then show ?thesis by (simp add: split_from_cur)
  qed
qed

lemma split_first_token:
  "split label label_delims =
     (if first_token label = [] then []
      else first_token label # tl (split label label_delims))"
proof (cases "dropWhile (\<lambda>c. c \<in> set label_delims) label")
  case Nil
  have "split_from label_delims [] label = []"
    by (subst split_from_first) (simp only: Nil list.case)
  moreover have "first_token label = []"
    unfolding first_token_def by (simp only: Nil takeWhile.simps)
  ultimately show ?thesis by (simp add: split_def)
next
  case (Cons c r)
  then have c: "c \<notin> set label_delims"
    using hd_dropWhile [of "\<lambda>c. c \<in> set label_delims" label] by force
  have "split_from label_delims [] label =
      takeWhile (\<lambda>c. c \<notin> set label_delims) (c # r)
        # split_from label_delims [] (dropWhile (\<lambda>c. c \<notin> set label_delims) r)"
    by (subst split_from_first) (simp only: Cons list.case)
  moreover have "first_token label = takeWhile (\<lambda>c. c \<notin> set label_delims) (c # r)"
    unfolding first_token_def by (simp only: Cons)
  moreover have "takeWhile (\<lambda>c. c \<notin> set label_delims) (c # r) \<noteq> []"
    using c by simp
  ultimately show ?thesis by (simp add: split_def)
qed

lemma extractTextForLabel_first_token:
  "extractTextForLabel g label = extract_loop g (first_token label) [] 0"
proof (cases "first_token label = []")
  case True
  then show ?thesis
    using split_first_token [of label] by (simp add: extractTextForLabel_def)
next
  case False
  then obtain r where "split label label_delims = first_token label # r"
    using split_first_token [of label] by metis
  then show ?thesis by (simp add: extractTextForLabel_def)
qed

subsection \<open>The extraction loop\<close>

lemma extract_loop_spec:
  "text_width g acc = w \<Longrightarrow> w \<le> 3 \<Longrightarrow> extract_loop g cs acc w = (e, w') \<Longrightarrow>
     (\<exists>n \<le> length cs. e = acc @ take n cs \<and> w' = text_width g e \<and> w' \<le> 3 \<and>
        (n < length cs \<longrightarrow> 3 < w' + charWidth g (cs ! n)))"
proof (induction cs arbitrary: acc w)
  case Nil
  then show ?case by simp
next
  case (Cons c cs)
  show ?case
  proof (cases "w + charWidth g c \<le> 3")
    case False
    with Cons.prems have "e = acc" "w' = w" by (simp_all add: Let_def)
    with Cons.prems False show ?thesis
      by (intro exI [of _ 0]) simp
  next
    case True
    with Cons.prems have run: "extract_loop g cs (acc @ [c]) (w + charWidth g c) = (e, w')"
      by (simp add: Let_def)
    have tw: "text_width g (acc @ [c]) = w + charWidth g c"
      using Cons.prems(1) by (simp add: text_width_def)
    from Cons.IH [OF tw True run] obtain n where n: "n \<le> length cs"
      "e = (acc @ [c]) @ take n cs" "w' = text_width g e" "w' \<le> 3"
      "n < length cs \<longrightarrow> 3 < w' + charWidth g (cs ! n)"
      by blast
    then show ?thesis
      by (intro exI [of _ "Suc n"]) simp
  qed
qed

lemma extract_loop_first_token:
  "\<exists>n \<le> length (first_token label).
      extractTextForLabel g label =
        (take n (first_token label), text_width g (take n (first_token label))) \<and>
      text_width g (take n (first_token label)) \<le> 3 \<and>
      (n < length (first_token label) \<longrightarrow>
         3 < text_width g (take n (first_token label)) + charWidth g (first_token label ! n))"
proof -
  obtain e w where ew: "extract_loop g (first_token label) [] 0 = (e, w)"
    by (cases "extract_loop g (first_token label) [] 0") auto
  have "text_width g [] = 0" by (simp add: text_width_def)
  from extract_loop_spec [OF this _ ew] obtain n where
    "n \<le> length (first_token label)" "e = take n (first_token label)"
    "w = text_width g e" "w \<le> 3"
    "n < length (first_token label) \<longrightarrow> 3 < w + charWidth g (first_token label ! n)"
    by auto
  with ew show ?thesis
    unfolding extractTextForLabel_first_token by (intro exI [of _ n]) simp
qed

lemma label_delims_set:
  "set label_delims = {12, 10, 13, 9, 11, 32, 45, 95, 47, 124}"
  by (simp add: label_delims_def FCITX_WHITESPACE_def ustr_def)

lemma first_token_us: "first_token (ustr ''us'') = ustr ''us''"
  by (simp add: first_token_def label_delims_set ustr_def)

lemma first_token_en_US: "first_token (ustr ''en-US'') = ustr ''en''"
  by (simp add: first_token_def label_delims_set ustr_def)

subsection \<open>C8: label abbreviation\<close>

text \<open>
  C8, as amended. \<open>extractTextForLabel\<close> works on the first token of the label (the
  label cut at whitespace and at the separators \<open>-_/|\<close>) and returns its longest prefix,
  read greedily, whose display width stays at most 3, together with that width: the prefix
  of length \<open>n\<close> fits, and the next code point, if there is one, no longer does.
  \<open>us\<close> gives \<open>(us, 2)\<close> and \<open>en-US\<close> gives \<open>(en, 2)\<close> whenever these letters
  have width 1. A first token that starts with a wide code point gives that code point
  alone, with width 2, when the token ends there or continues with another wide code point.
\<close>

theorem extractTextForLabel_abbreviation:
  "(\<exists>n \<le> length (first_token label).
      extractTextForLabel g label =
        (take n (first_token label), text_width g (take n (first_token label))) \<and>
      text_width g (take n (first_token label)) \<le> 3 \<and>
      (n < length (first_token label) \<longrightarrow>
         3 < text_width g (take n (first_token label)) + charWidth g (first_token label ! n)))
   \<and> ((\<forall>c \<in> set (ustr ''us''). charWidth g c = 1) \<longrightarrow>
        extractTextForLabel g (ustr ''us'') = (ustr ''us'', 2))
   \<and> ((\<forall>c \<in> set (ustr ''en''). charWidth g c = 1) \<longrightarrow>
        extractTextForLabel g (ustr ''en-US'') = (ustr ''en'', 2))
   \<and> (charWidth g w = 2 \<and> (first_token label = [w] \<or>
          (\<exists>w' rest. first_token label = w # w' # rest \<and> charWidth g w' = 2)) \<longrightarrow>
        extractTextForLabel g label = ([w], 2))"
proof (intro conjI impI)
  show "\<exists>n \<le> length (first_token label).
      extractTextForLabel g label =
        (take n (first_token label), text_width g (take n (first_token label))) \<and>
      text_width g (take n (first_token label)) \<le> 3 \<and>
      (n < length (first_token label) \<longrightarrow>
         3 < text_width g (take n (first_token label)) + charWidth g (first_token label ! n))"
    by (rule extract_loop_first_token)
next
  assume "\<forall>c \<in> set (ustr ''us''). charWidth g c = 1"
  then show "extractTextForLabel g (ustr ''us'') = (ustr ''us'', 2)"
    unfolding extractTextForLabel_first_token first_token_us
    by (simp add: ustr_def)
next
  assume "\<forall>c \<in> set (ustr ''en''). charWidth g c = 1"
  then show "extractTextForLabel g (ustr ''en-US'') = (ustr ''en'', 2)"
    unfolding extractTextForLabel_first_token first_token_en_US
    by (simp add: ustr_def)
next
  assume a: "charWidth g w = 2 \<and> (first_token label = [w] \<or>
          (\<exists>w' rest. first_token label = w # w' # rest \<and> charWidth g w' = 2))"
  then show "extractTextForLabel g label = ([w], 2)"
    unfolding extractTextForLabel_first_token by auto
qed

text \<open>
  The theorem at concrete labels: "us", "en-US", and a label of two ideographs, of which
  only the first is kept.
\<close>

theorem extractTextForLabel_abbreviation_witness:
  "extractTextForLabel sample_glib (ustr ''us'') = (ustr ''us'', 2) \<and>
   extractTextForLabel sample_glib (ustr ''en-US'') = (ustr ''en'', 2) \<and>
   extractTextForLabel sample_glib [0x4E2D, 0x6587] = ([0x4E2D], 2)"
proof -
  have h1: "\<forall>c \<in> set (ustr ''us''). charWidth sample_glib c = 1"
    by (simp add: ustr_def charWidth_def sample_glib_def)
  have h2: "\<forall>c \<in> set (ustr ''en''). charWidth sample_glib c = 1"
    by (simp add: ustr_def charWidth_def sample_glib_def)
  have h3: "charWidth sample_glib 0x4E2D = 2 \<and> (first_token [0x4E2D, 0x6587] = [0x4E2D] \<or>
          (\<exists>w' rest. first_token [0x4E2D, 0x6587] = 0x4E2D # w' # rest \<and>
             charWidth sample_glib w' = 2))"
    by (simp add: first_token_def label_delims_set charWidth_def sample_glib_def)
  show ?thesis
    using extractTextForLabel_abbreviation [of "[0x4E2D, 0x6587]" sample_glib "0x4E2D"] h1 h2 h3
    by blast
qed

text \<open>
  A label that begins with one wide code point followed by a narrow one: both are taken,
  the result has two characters and width 3, not one character and width 2.
\<close>

theorem extractTextForLabel_wide_counterexample:
  "charWidth sample_glib 0x4E2D = 2 \<and>
   extractTextForLabel sample_glib [0x4E2D, 0x61] = ([0x4E2D, 0x61], 3)"
  by (simp add: extractTextForLabel_first_token first_token_def label_delims_set
      charWidth_def sample_glib_def)

subsection \<open>C3: the font pixel size\<close>

lemma pixelSize_product_nonneg: "0 \<le> pixelSize_product sz textWidth"
  by (simp add: pixelSize_product_def)

lemma drawTextIcon_pixelSize_trunc:
  "drawTextIcon_pixelSize sz textWidth = \<lfloor>pixelSize_product sz textWidth\<rfloor>"
  using pixelSize_product_nonneg [of sz textWidth]
  by (simp add: drawTextIcon_pixelSize_def trunc_int_def Let_def)

text \<open>
  C3. The computed size is the truncated product, but the guard \<open>pixelSize < 0\<close> never
  fires (the product is never negative), so nothing floors the result at 1: for a target
  size of 1 and a text of width 2 the product is 0.75 and the font pixel size is 0.
\<close>

theorem drawTextIcon_pixelSize_zero:
  "drawTextIcon_pixelSize 1 2 = 0 \<and> drawTextIcon_pixelSize 1 3 = 0 \<and>
   drawTextIcon_pixelSize 0 0 = 0"
  by (simp add: drawTextIcon_pixelSize_trunc pixelSize_product_def floor_eq_iff)

subsection \<open>C10: changing the icon theme\<close>

text \<open>
  C10. \<open>setIconTheme\<close> returns whether the name differs from the current icon theme's.
  It never touches the background and action tables. With a different name the tray table is
  emptied and the icon theme becomes the named one; with the current name the theme is
  unchanged.
\<close>

theorem setIconTheme_clears_tray_only:
  "fst (setIconTheme th name) = (internalName (th_iconTheme th) \<noteq> name) \<and>
   backgroundImageTable (snd (setIconTheme th name)) = backgroundImageTable th \<and>
   actionImageTable (snd (setIconTheme th name)) = actionImageTable th \<and>
   (internalName (th_iconTheme th) \<noteq> name \<longrightarrow>
      trayImageTable (snd (setIconTheme th name)) = Map.empty \<and>
      internalName (th_iconTheme (snd (setIconTheme th name))) = name) \<and>
   (internalName (th_iconTheme th) = name \<longrightarrow> snd (setIconTheme th name) = th)"
  by (simp add: setIconTheme_def IconTheme_new_def)

theorem setIconTheme_clears_tray_only_witness:
  "fst (setIconTheme sample_theme (ustr ''breeze'')) \<and>
   trayImageTable (snd (setIconTheme sample_theme (ustr ''breeze''))) = Map.empty \<and>
   backgroundImageTable (snd (setIconTheme sample_theme (ustr ''breeze''))) 7 = Some sample_image \<and>
   actionImageTable (snd (setIconTheme sample_theme (ustr ''breeze''))) 9 = Some ThemeImage_init \<and>
   \<not> fst (setIconTheme sample_theme (ustr ''hicolor'')) \<and>
   snd (setIconTheme sample_theme (ustr ''hicolor'')) = sample_theme"
proof -
  have d: "internalName (th_iconTheme sample_theme) \<noteq> ustr ''breeze''"
    by (simp add: sample_theme_def IconTheme_new_def ustr_def)
  have e: "internalName (th_iconTheme sample_theme) = ustr ''hicolor''"
    by (simp add: sample_theme_def IconTheme_new_def)
  have b: "backgroundImageTable sample_theme 7 = Some sample_image"
    "actionImageTable sample_theme 9 = Some ThemeImage_init"
    by (simp_all add: sample_theme_def)
  show ?thesis
    using setIconTheme_clears_tray_only [of sample_theme "ustr ''breeze''"]
      setIconTheme_clears_tray_only [of sample_theme "ustr ''hicolor''"] d e b
    by simp
qed

subsection \<open>C9: the image caches\<close>

lemma ThemeImage_tray_size: "ti_size (ThemeImage_tray x config it icon label sz) = sz"
  by (simp add: ThemeImage_tray_def ThemeImage_init_def Let_def split: option.splits)

lemma loadBackground_hit:
  "backgroundImageTable th (fst cfg) = Some img \<Longrightarrow> loadBackground x th cfg = Inr (img, th)"
  by (simp add: loadBackground_def findValue_def)

lemma loadBackground_miss:
  "backgroundImageTable th (fst cfg) = None \<Longrightarrow>
   loadBackground x th cfg =
     Inr (ThemeImage_background x (th_name th) (snd cfg),
          th\<lparr>backgroundImageTable :=
                (backgroundImageTable th)(fst cfg \<mapsto> ThemeImage_background x (th_name th) (snd cfg)),
             built := built th + 1\<rparr>)"
  by (simp add: loadBackground_def findValue_def emplace_def)

lemma loadAction_hit:
  "actionImageTable th (fst cfg) = Some img \<Longrightarrow> loadAction x th cfg = Inr (img, th)"
  by (simp add: loadAction_def findValue_def)

lemma loadAction_miss:
  "actionImageTable th (fst cfg) = None \<Longrightarrow>
   loadAction x th cfg =
     Inr (ThemeImage_action x (th_name th) (snd cfg),
          th\<lparr>actionImageTable :=
                (actionImageTable th)(fst cfg \<mapsto> ThemeImage_action x (th_name th) (snd cfg)),
             built := built th + 1\<rparr>)"
  by (simp add: loadAction_def findValue_def emplace_def)

lemma Theme_loadImage_hit:
  "trayImageTable th (tray_key icon label) = Some img \<Longrightarrow> ti_size img = sz \<Longrightarrow>
   Theme_loadImage x config th icon label sz = Inr (img, th)"
  by (simp add: Theme_loadImage_def findValue_def Let_def)

lemma Theme_loadImage_build:
  "trayImageTable th (tray_key icon label) = None \<or>
   (\<exists>old. trayImageTable th (tray_key icon label) = Some old \<and> ti_size old \<noteq> sz) \<Longrightarrow>
   Theme_loadImage x config th icon label sz =
     Inr (ThemeImage_tray x config (th_iconTheme th) icon label sz,
          th\<lparr>trayImageTable :=
                (trayImageTable th)(tray_key icon label \<mapsto>
                   ThemeImage_tray x config (th_iconTheme th) icon label sz),
             built := built th + 1\<rparr>)"
  by (auto simp: Theme_loadImage_def findValue_def emplace_def erase_def Let_def)

lemma loadBackground_cases:
  "loadBackground x th cfg = Inr (img, th') \<Longrightarrow>
   backgroundImageTable th' (fst cfg) = Some img \<and>
   (\<forall>k. k \<noteq> fst cfg \<longrightarrow> backgroundImageTable th' k = backgroundImageTable th k)"
  by (cases "backgroundImageTable th (fst cfg)")
     (auto simp: loadBackground_hit loadBackground_miss)

lemma loadAction_cases:
  "loadAction x th cfg = Inr (img, th') \<Longrightarrow>
   actionImageTable th' (fst cfg) = Some img \<and>
   (\<forall>k. k \<noteq> fst cfg \<longrightarrow> actionImageTable th' k = actionImageTable th k)"
  by (cases "actionImageTable th (fst cfg)")
     (auto simp: loadAction_hit loadAction_miss)

lemma Theme_loadImage_cases:
  "Theme_loadImage x config th icon label sz = Inr (img, th') \<Longrightarrow>
   trayImageTable th' (tray_key icon label) = Some img \<and> ti_size img = sz \<and>
   (\<forall>k. k \<noteq> tray_key icon label \<longrightarrow> trayImageTable th' k = trayImageTable th k)"
proof (cases "trayImageTable th (tray_key icon label)")
  case None
  assume "Theme_loadImage x config th icon label sz = Inr (img, th')"
  with None show ?thesis
    using Theme_loadImage_build [of th icon label sz x config]
    by (auto simp: ThemeImage_tray_size)
next
  case (Some old)
  assume r: "Theme_loadImage x config th icon label sz = Inr (img, th')"
  show ?thesis
  proof (cases "ti_size old = sz")
    case True
    with Some r show ?thesis by (auto simp: Theme_loadImage_hit)
  next
    case False
    with Some r show ?thesis
      using Theme_loadImage_build [of th icon label sz x config]
      by (auto simp: ThemeImage_tray_size)
  qed
qed

text \<open>
  C9. Each table is a map, so it holds at most one image per key: after a load the table
  maps the key to the returned image and is unchanged at every other key. A load never
  fails (the assertions hold). A second load with the same key (and, for a tray image, the
  same size) returns the same image and leaves the theme as it is, the constructor count
  \<open>built\<close> included, whatever the environment and the contents of the configuration are
  at the second call. A tray load that finds an entry of another size replaces that entry
  by a newly built image of the requested size.
\<close>

theorem cache_one_entry_per_key:
  "(\<exists>img th'. loadBackground x th bcfg = Inr (img, th') \<and>
       backgroundImageTable th' (fst bcfg) = Some img \<and>
       (\<forall>k. k \<noteq> fst bcfg \<longrightarrow> backgroundImageTable th' k = backgroundImageTable th k) \<and>
       loadBackground x' th' (fst bcfg, bcfg') = Inr (img, th')) \<and>
   (\<exists>img th'. loadAction x th acfg = Inr (img, th') \<and>
       actionImageTable th' (fst acfg) = Some img \<and>
       (\<forall>k. k \<noteq> fst acfg \<longrightarrow> actionImageTable th' k = actionImageTable th k) \<and>
       loadAction x' th' (fst acfg, acfg') = Inr (img, th')) \<and>
   (\<exists>img th'. Theme_loadImage x config th icon label sz = Inr (img, th') \<and>
       trayImageTable th' (tray_key icon label) = Some img \<and> ti_size img = sz \<and>
       (\<forall>k. k \<noteq> tray_key icon label \<longrightarrow> trayImageTable th' k = trayImageTable th k) \<and>
       Theme_loadImage x' config' th' icon label sz = Inr (img, th')) \<and>
   (\<forall>old. trayImageTable th (tray_key icon label) = Some old \<and> ti_size old \<noteq> sz \<longrightarrow>
       Theme_loadImage x config th icon label sz =
         Inr (ThemeImage_tray x config (th_iconTheme th) icon label sz,
              th\<lparr>trayImageTable :=
                    (trayImageTable th)(tray_key icon label \<mapsto>
                       ThemeImage_tray x config (th_iconTheme th) icon label sz),
                 built := built th + 1\<rparr>))"
proof (intro conjI allI impI)
  obtain r where r: "loadBackground x th bcfg = Inr r"
    by (cases "backgroundImageTable th (fst bcfg)")
       (auto simp: loadBackground_hit loadBackground_miss)
  obtain img th' where p: "r = (img, th')" by (cases r)
  from loadBackground_cases [OF r [unfolded p]]
  show "\<exists>img th'. loadBackground x th bcfg = Inr (img, th') \<and>
       backgroundImageTable th' (fst bcfg) = Some img \<and>
       (\<forall>k. k \<noteq> fst bcfg \<longrightarrow> backgroundImageTable th' k = backgroundImageTable th k) \<and>
       loadBackground x' th' (fst bcfg, bcfg') = Inr (img, th')"
    using r p loadBackground_hit [of th' "(fst bcfg, bcfg')" img x'] by auto
next
  obtain r where r: "loadAction x th acfg = Inr r"
    by (cases "actionImageTable th (fst acfg)")
       (auto simp: loadAction_hit loadAction_miss)
  obtain img th' where p: "r = (img, th')" by (cases r)
  from loadAction_cases [OF r [unfolded p]]
  show "\<exists>img th'. loadAction x th acfg = Inr (img, th') \<and>
       actionImageTable th' (fst acfg) = Some img \<and>
       (\<forall>k. k \<noteq> fst acfg \<longrightarrow> actionImageTable th' k = actionImageTable th k) \<and>
       loadAction x' th' (fst acfg, acfg') = Inr (img, th')"
    using r p loadAction_hit [of th' "(fst acfg, acfg')" img x'] by auto
next
  have "\<exists>r. Theme_loadImage x config th icon label sz = Inr r"
  proof (cases "trayImageTable th (tray_key icon label)")
    case None
    then show ?thesis using Theme_loadImage_build [of th icon label sz x config] by auto
  next
    case (Some old)
    then show ?thesis
      using Theme_loadImage_build [of th icon label sz x config]
        Theme_loadImage_hit [of th icon label old sz x config]
      by (cases "ti_size old = sz") auto
  qed
  then obtain img th' where r: "Theme_loadImage x config th icon label sz = Inr (img, th')"
    by auto
  from Theme_loadImage_cases [OF r]
  show "\<exists>img th'. Theme_loadImage x config th icon label sz = Inr (img, th') \<and>
       trayImageTable th' (tray_key icon label) = Some img \<and> ti_size img = sz \<and>
       (\<forall>k. k \<noteq> tray_key icon label \<longrightarrow> trayImageTable th' k = trayImageTable th k) \<and>
       Theme_loadImage x' config' th' icon label sz = Inr (img, th')"
    using r Theme_loadImage_hit [of th' icon label img sz x' config'] by auto
next
  fix old
  assume "trayImageTable th (tray_key icon label) = Some old \<and> ti_size old \<noteq> sz"
  then show "Theme_loadImage x config th icon label sz =
         Inr (ThemeImage_tray x config (th_iconTheme th) icon label sz,
              th\<lparr>trayImageTable :=
                    (trayImageTable th)(tray_key icon label \<mapsto>
                       ThemeImage_tray x config (th_iconTheme th) icon label sz),
                 built := built th + 1\<rparr>)"
    using Theme_loadImage_build [of th icon label sz x config] by auto
qed

theorem cache_one_entry_per_key_witness:
  "(\<exists>img th'. Theme_loadImage sample_ext sample_config sample_theme
                    (ustr ''fcitx-kbd'') (ustr ''us'') 24 = Inr (img, th') \<and>
       ti_size img = 24 \<and> built th' = 4 \<and>
       trayImageTable th' (tray_key (ustr ''fcitx-kbd'') (ustr ''us'')) = Some img \<and>
       Theme_loadImage sample_ext sample_config th' (ustr ''fcitx-kbd'') (ustr ''us'') 24
         = Inr (img, th')) \<and>
   (\<exists>img th'. loadBackground sample_ext sample_theme (7, sample_background) = Inr (img, th') \<and>
       loadBackground sample_ext th' (7, sample_background) = Inr (img, th'))"
proof -
  have h: "trayImageTable sample_theme (tray_key (ustr ''fcitx-kbd'') (ustr ''us''))
             = Some (ThemeImage_init\<lparr>ti_size := 16, ti_image := Some sample_surface\<rparr>) \<and>
           ti_size (ThemeImage_init\<lparr>ti_size := 16, ti_image := Some sample_surface\<rparr>) \<noteq> 24"
    by (simp add: sample_theme_def ThemeImage_init_def)
  have b: "built sample_theme + 1 = 4" by (simp add: sample_theme_def)
  note t = cache_one_entry_per_key [of sample_ext sample_theme "(7, sample_background)"
      sample_ext sample_background "(9, \<lparr>act_image = []\<rparr>)" "\<lparr>act_image = []\<rparr>"
      sample_config "ustr ''fcitx-kbd''" "ustr ''us''" 24 sample_config]
  from t h have l: "Theme_loadImage sample_ext sample_config sample_theme
                    (ustr ''fcitx-kbd'') (ustr ''us'') 24 =
         Inr (ThemeImage_tray sample_ext sample_config (th_iconTheme sample_theme)
                (ustr ''fcitx-kbd'') (ustr ''us'') 24,
              sample_theme\<lparr>trayImageTable :=
                    (trayImageTable sample_theme)(tray_key (ustr ''fcitx-kbd'') (ustr ''us'') \<mapsto>
                       ThemeImage_tray sample_ext sample_config (th_iconTheme sample_theme)
                         (ustr ''fcitx-kbd'') (ustr ''us'') 24),
                 built := built sample_theme + 1\<rparr>)"
    by blast
  from t have "\<exists>img th'. Theme_loadImage sample_ext sample_config sample_theme
                    (ustr ''fcitx-kbd'') (ustr ''us'') 24 = Inr (img, th') \<and>
       trayImageTable th' (tray_key (ustr ''fcitx-kbd'') (ustr ''us'')) = Some img \<and>
       ti_size img = 24 \<and>
       Theme_loadImage sample_ext sample_config th' (ustr ''fcitx-kbd'') (ustr ''us'') 24
         = Inr (img, th')"
    by blast
  with l b have first: "\<exists>img th'. Theme_loadImage sample_ext sample_config sample_theme
                    (ustr ''fcitx-kbd'') (ustr ''us'') 24 = Inr (img, th') \<and>
       ti_size img = 24 \<and> built th' = 4 \<and>
       trayImageTable th' (tray_key (ustr ''fcitx-kbd'') (ustr ''us'')) = Some img \<and>
       Theme_loadImage sample_ext sample_config th' (ustr ''fcitx-kbd'') (ustr ''us'') 24
         = Inr (img, th')"
    by auto
  from t have second: "\<exists>img th'. loadBackground sample_ext sample_theme (7, sample_background)
         = Inr (img, th') \<and>
       loadBackground sample_ext th' (7, sample_background) = Inr (img, th')"
    by auto
  from first second show ?thesis by blast
qed

subsection \<open>C4: what a load yields when the image cannot be read\<close>

lemma ThemeImage_tray_image:
  "ti_image (ThemeImage_tray x config it icon label sz) =
     Some (case (if \<not> (label \<noteq> [] \<and>
                       ((icon = ustr ''input-keyboard'' \<and> x_hasTwoKeyboardInCurrentGroup x) \<or>
                        preferTextIcon config)) \<and> icon \<noteq> []
                 then load_checked x
                        \<lparr>f_fd = x_open x (x_findIcon x (internalName it) icon sz), f_path = icon\<rparr>
                 else None) of
             Some s \<Rightarrow> s
           | None \<Rightarrow> drawTextIcon x
                       (cairo_image_surface_create (int_of_uint32 sz) (int_of_uint32 sz))
                       label sz config)"
  by (auto simp: ThemeImage_tray_def ThemeImage_init_def Let_def split: option.splits)

lemma ThemeImage_background_image:
  "ti_image (ThemeImage_background x name cfg) =
     Some (case (if bg_image cfg \<noteq> []
                 then load_checked x (x_StandardPath_open x (theme_path name (bg_image cfg)))
                 else None) of
             Some s \<Rightarrow> s
           | None \<Rightarrow> drawBackground x cfg)"
  by (simp add: ThemeImage_background_def ThemeImage_init_def Let_def split: option.splits)

lemma ThemeImage_action_image:
  "ti_image (ThemeImage_action x name cfg) =
     (if act_image cfg \<noteq> []
      then load_checked x (x_StandardPath_open x (theme_path name (act_image cfg)))
      else None) \<and>
   ti_valid (ThemeImage_action x name cfg) = (ti_image (ThemeImage_action x name cfg) \<noteq> None)"
  by (simp add: ThemeImage_action_def ThemeImage_init_def Let_def)

lemma drawBackground_surface:
  assumes m: "0 \<le> marginLeft (bg_margin cfg)" "0 \<le> marginRight (bg_margin cfg)"
    "0 \<le> marginTop (bg_margin cfg)" "0 \<le> marginBottom (bg_margin cfg)"
  and W: "W = marginLeft (bg_margin cfg) + marginRight (bg_margin cfg) +
        max (marginLeft (bg_margin cfg) + marginRight (bg_margin cfg)) minimumSize"
  and H: "H = marginTop (bg_margin cfg) + marginBottom (bg_margin cfg) +
        max (marginTop (bg_margin cfg) + marginBottom (bg_margin cfg)) minimumSize"
  and bw: "bw = Min {bg_borderWidth cfg, marginLeft (bg_margin cfg), marginRight (bg_margin cfg),
        marginTop (bg_margin cfg), marginBottom (bg_margin cfg)}"
  and sz: "W \<le> MAX_IMAGE_SIZE" "H \<le> MAX_IMAGE_SIZE"
  shows "status_ok (drawBackground x cfg) \<and> s_width (drawBackground x cfg) = W \<and>
     s_height (drawBackground x cfg) = H \<and>
     (\<forall>i j. 0 \<le> i \<and> i < W \<and> 0 \<le> j \<and> j < H \<longrightarrow>
        s_pixels (drawBackground x cfg) i j =
          (if bw \<le> i \<and> i < W - bw \<and> bw \<le> j \<and> j < H - bw
           then x_pixel_of_color x (bg_color cfg)
           else x_pixel_of_color x (bg_borderColor cfg)))"
proof -
  have W0: "0 \<le> W" and H0: "0 \<le> H" using m W H by (auto simp: minimumSize_def)
  have bwW: "0 \<le> W - bw * 2" "0 \<le> H - bw * 2"
    using m W H bw by (auto simp: minimumSize_def min_def)
  show ?thesis
    unfolding drawBackground_def Let_def W [symmetric] H [symmetric] bw [symmetric]
    using W0 H0 sz bwW
    by (auto simp: cairo_create_def cairo_image_surface_create_def cairo_set_operator_def
        cairo_paint_def cairo_paint_with_alpha_def cairoSetSourceColor_def cairo_rectangle_def
        cairo_clip_def in_clip_def in_drect_def device_rect_def identity_matrix_def
        composite_def source_at_def Let_def)
qed

lemma loadAction_total: "\<exists>r. loadAction x th cfg = Inr r"
  by (cases "actionImageTable th (fst cfg)") (auto simp: loadAction_hit loadAction_miss)

lemma loadBackground_total: "\<exists>r. loadBackground x th cfg = Inr r"
  by (cases "backgroundImageTable th (fst cfg)")
     (auto simp: loadBackground_hit loadBackground_miss)

lemma Theme_loadImage_total: "\<exists>r. Theme_loadImage x config th icon label sz = Inr r"
proof (cases "trayImageTable th (tray_key icon label)")
  case None
  then show ?thesis using Theme_loadImage_build [of th icon label sz x config] by auto
next
  case (Some old)
  then show ?thesis
    using Theme_loadImage_build [of th icon label sz x config]
      Theme_loadImage_hit [of th icon label old sz x config]
    by (cases "ti_size old = sz") auto
qed

text \<open>
  C4, as amended. No load returns an error. A tray image and a background image always
  hold a surface: the decoded image when there is one, otherwise the text icon drawn from
  the label, respectively the drawn background, which for non-negative margins is a valid
  surface of at least 20 by 20 pixels filled with the background colour inside a border of
  the border colour. An action image has no fallback: with an empty image reference or a
  failed decode its surface is null and the image is marked invalid.
\<close>

theorem load_fallback:
  "(\<exists>r. Theme_loadImage x config th icon label sz = Inr r) \<and>
   (\<exists>r. loadBackground x th bcfg = Inr r) \<and>
   (\<exists>r. loadAction x th acfg = Inr r) \<and>
   (\<exists>s. ti_image (ThemeImage_tray x config it icon label sz) = Some s) \<and>
   (icon = [] \<or> load_checked x
        \<lparr>f_fd = x_open x (x_findIcon x (internalName it) icon sz), f_path = icon\<rparr> = None \<longrightarrow>
      ti_image (ThemeImage_tray x config it icon label sz) =
        Some (drawTextIcon x (cairo_image_surface_create (int_of_uint32 sz) (int_of_uint32 sz))
                label sz config)) \<and>
   (\<exists>s. ti_image (ThemeImage_background x name cfg) = Some s) \<and>
   (bg_image cfg = [] \<or>
    load_checked x (x_StandardPath_open x (theme_path name (bg_image cfg))) = None \<longrightarrow>
      ti_image (ThemeImage_background x name cfg) = Some (drawBackground x cfg)) \<and>
   (0 \<le> marginLeft (bg_margin cfg) \<and> 0 \<le> marginRight (bg_margin cfg) \<and>
    0 \<le> marginTop (bg_margin cfg) \<and> 0 \<le> marginBottom (bg_margin cfg) \<and>
    W = marginLeft (bg_margin cfg) + marginRight (bg_margin cfg) +
        max (marginLeft (bg_margin cfg) + marginRight (bg_margin cfg)) minimumSize \<and>
    H = marginTop (bg_margin cfg) + marginBottom (bg_margin cfg) +
        max (marginTop (bg_margin cfg) + marginBottom (bg_margin cfg)) minimumSize \<and>
    bw = Min {bg_borderWidth cfg, marginLeft (bg_margin cfg), marginRight (bg_margin cfg),
              marginTop (bg_margin cfg), marginBottom (bg_margin cfg)} \<and>
    W \<le> MAX_IMAGE_SIZE \<and> H \<le> MAX_IMAGE_SIZE \<longrightarrow>
      status_ok (drawBackground x cfg) \<and> s_width (drawBackground x cfg) = W \<and>
      s_height (drawBackground x cfg) = H \<and> 20 \<le> W \<and> 20 \<le> H \<and>
      (\<forall>i j. 0 \<le> i \<and> i < W \<and> 0 \<le> j \<and> j < H \<longrightarrow>
         s_pixels (drawBackground x cfg) i j =
           (if bw \<le> i \<and> i < W - bw \<and> bw \<le> j \<and> j < H - bw
            then x_pixel_of_color x (bg_color cfg)
            else x_pixel_of_color x (bg_borderColor cfg)))) \<and>
   (ti_image (ThemeImage_action x name acf) = None) =
      (act_image acf = [] \<or>
       load_checked x (x_StandardPath_open x (theme_path name (act_image acf))) = None) \<and>
   ti_valid (ThemeImage_action x name acf) = (ti_image (ThemeImage_action x name acf) \<noteq> None)"
proof -
  have c1: "\<exists>r. Theme_loadImage x config th icon label sz = Inr r"
    by (rule Theme_loadImage_total)
  have c2: "\<exists>r. loadBackground x th bcfg = Inr r" by (rule loadBackground_total)
  have c3: "\<exists>r. loadAction x th acfg = Inr r" by (rule loadAction_total)
  have c4: "\<exists>s. ti_image (ThemeImage_tray x config it icon label sz) = Some s"
    by (simp add: ThemeImage_tray_image)
  have c5: "icon = [] \<or> load_checked x
        \<lparr>f_fd = x_open x (x_findIcon x (internalName it) icon sz), f_path = icon\<rparr> = None \<longrightarrow>
      ti_image (ThemeImage_tray x config it icon label sz) =
        Some (drawTextIcon x (cairo_image_surface_create (int_of_uint32 sz) (int_of_uint32 sz))
                label sz config)"
    by (auto simp: ThemeImage_tray_image)
  have c6: "\<exists>s. ti_image (ThemeImage_background x name cfg) = Some s"
    by (simp add: ThemeImage_background_image)
  have c7: "bg_image cfg = [] \<or>
    load_checked x (x_StandardPath_open x (theme_path name (bg_image cfg))) = None \<longrightarrow>
      ti_image (ThemeImage_background x name cfg) = Some (drawBackground x cfg)"
    by (auto simp: ThemeImage_background_image)
  have c8: "0 \<le> marginLeft (bg_margin cfg) \<and> 0 \<le> marginRight (bg_margin cfg) \<and>
    0 \<le> marginTop (bg_margin cfg) \<and> 0 \<le> marginBottom (bg_margin cfg) \<and>
    W = marginLeft (bg_margin cfg) + marginRight (bg_margin cfg) +
        max (marginLeft (bg_margin cfg) + marginRight (bg_margin cfg)) minimumSize \<and>
    H = marginTop (bg_margin cfg) + marginBottom (bg_margin cfg) +
        max (marginTop (bg_margin cfg) + marginBottom (bg_margin cfg)) minimumSize \<and>
    bw = Min {bg_borderWidth cfg, marginLeft (bg_margin cfg), marginRight (bg_margin cfg),
              marginTop (bg_margin cfg), marginBottom (bg_margin cfg)} \<and>
    W \<le> MAX_IMAGE_SIZE \<and> H \<le> MAX_IMAGE_SIZE \<longrightarrow>
      status_ok (drawBackground x cfg) \<and> s_width (drawBackground x cfg) = W \<and>
      s_height (drawBackground x cfg) = H \<and> 20 \<le> W \<and> 20 \<le> H \<and>
      (\<forall>i j. 0 \<le> i \<and> i < W \<and> 0 \<le> j \<and> j < H \<longrightarrow>
         s_pixels (drawBackground x cfg) i j =
           (if bw \<le> i \<and> i < W - bw \<and> bw \<le> j \<and> j < H - bw
            then x_pixel_of_color x (bg_color cfg)
            else x_pixel_of_color x (bg_borderColor cfg)))"
  proof
    assume a: "0 \<le> marginLeft (bg_margin cfg) \<and> 0 \<le> marginRight (bg_margin cfg) \<and>
      0 \<le> marginTop (bg_margin cfg) \<and> 0 \<le> marginBottom (bg_margin cfg) \<and>
      W = marginLeft (bg_margin cfg) + marginRight (bg_margin cfg) +
          max (marginLeft (bg_margin cfg) + marginRight (bg_margin cfg)) minimumSize \<and>
      H = marginTop (bg_margin cfg) + marginBottom (bg_margin cfg) +
          max (marginTop (bg_margin cfg) + marginBottom (bg_margin cfg)) minimumSize \<and>
      bw = Min {bg_borderWidth cfg, marginLeft (bg_margin cfg), marginRight (bg_margin cfg),
                marginTop (bg_margin cfg), marginBottom (bg_margin cfg)} \<and>
      W \<le> MAX_IMAGE_SIZE \<and> H \<le> MAX_IMAGE_SIZE"
    then have d: "status_ok (drawBackground x cfg) \<and> s_width (drawBackground x cfg) = W \<and>
       s_height (drawBackground x cfg) = H \<and>
       (\<forall>i j. 0 \<le> i \<and> i < W \<and> 0 \<le> j \<and> j < H \<longrightarrow>
          s_pixels (drawBackground x cfg) i j =
            (if bw \<le> i \<and> i < W - bw \<and> bw \<le> j \<and> j < H - bw
             then x_pixel_of_color x (bg_color cfg)
             else x_pixel_of_color x (bg_borderColor cfg)))"
      by (intro drawBackground_surface) simp_all
    from a have "20 \<le> W" "20 \<le> H" by (auto simp: minimumSize_def)
    with d show "status_ok (drawBackground x cfg) \<and> s_width (drawBackground x cfg) = W \<and>
        s_height (drawBackground x cfg) = H \<and> 20 \<le> W \<and> 20 \<le> H \<and>
        (\<forall>i j. 0 \<le> i \<and> i < W \<and> 0 \<le> j \<and> j < H \<longrightarrow>
           s_pixels (drawBackground x cfg) i j =
             (if bw \<le> i \<and> i < W - bw \<and> bw \<le> j \<and> j < H - bw
              then x_pixel_of_color x (bg_color cfg)
              else x_pixel_of_color x (bg_borderColor cfg)))"
      by simp
  qed
  have c9: "(ti_image (ThemeImage_action x name acf) = None) =
      (act_image acf = [] \<or>
       load_checked x (x_StandardPath_open x (theme_path name (act_image acf))) = None)"
    by (simp add: ThemeImage_action_image)
  have c10: "ti_valid (ThemeImage_action x name acf) =
      (ti_image (ThemeImage_action x name acf) \<noteq> None)"
    by (simp only: ThemeImage_action_image)
  show ?thesis
    by (intro conjI) (rule c1 c2 c3 c4 c5 c6 c7 c8 c9 c10)+
qed

text \<open>
  The theorem where no file can be read: the tray image for the label "us" is the text
  icon, the background image is the drawn 22 by 22 background, black on the border and
  white inside.
\<close>

theorem load_fallback_witness:
  "ti_image (ThemeImage_tray sample_ext sample_config (IconTheme_new (ustr ''hicolor''))
       (ustr ''fcitx-kbd'') (ustr ''us'') 16) =
     Some (drawTextIcon sample_ext (cairo_image_surface_create 16 16) (ustr ''us'') 16
             sample_config) \<and>
   ti_image (ThemeImage_background sample_ext (ustr ''default'')
       (sample_background\<lparr>bg_image := ustr ''missing.png''\<rparr>)) =
     Some (drawBackground sample_ext (sample_background\<lparr>bg_image := ustr ''missing.png''\<rparr>)) \<and>
   status_ok (drawBackground sample_ext (sample_background\<lparr>bg_image := ustr ''missing.png''\<rparr>)) \<and>
   s_width (drawBackground sample_ext (sample_background\<lparr>bg_image := ustr ''missing.png''\<rparr>)) = 22 \<and>
   s_pixels (drawBackground sample_ext (sample_background\<lparr>bg_image := ustr ''missing.png''\<rparr>)) 0 0
     = 0xFF000000 \<and>
   s_pixels (drawBackground sample_ext (sample_background\<lparr>bg_image := ustr ''missing.png''\<rparr>)) 5 5
     = 0xFFFFFFFF"
proof -
  let ?cfg = "sample_background\<lparr>bg_image := ustr ''missing.png''\<rparr>"
  let ?it = "IconTheme_new (ustr ''hicolor'')"
  have h5: "ustr ''fcitx-kbd'' = [] \<or> load_checked sample_ext
        \<lparr>f_fd = x_open sample_ext (x_findIcon sample_ext (internalName ?it) (ustr ''fcitx-kbd'') 16),
         f_path = ustr ''fcitx-kbd''\<rparr> = None"
    by (simp add: load_checked_def loadImage_def sample_ext_def)
  have h7: "bg_image ?cfg = [] \<or>
    load_checked sample_ext (x_StandardPath_open sample_ext
       (theme_path (ustr ''default'') (bg_image ?cfg))) = None"
    by (simp add: load_checked_def loadImage_def sample_ext_def theme_path_def ustr_def)
  have h8: "0 \<le> marginLeft (bg_margin ?cfg) \<and> 0 \<le> marginRight (bg_margin ?cfg) \<and>
    0 \<le> marginTop (bg_margin ?cfg) \<and> 0 \<le> marginBottom (bg_margin ?cfg) \<and>
    (22::int) = marginLeft (bg_margin ?cfg) + marginRight (bg_margin ?cfg) +
        max (marginLeft (bg_margin ?cfg) + marginRight (bg_margin ?cfg)) minimumSize \<and>
    (22::int) = marginTop (bg_margin ?cfg) + marginBottom (bg_margin ?cfg) +
        max (marginTop (bg_margin ?cfg) + marginBottom (bg_margin ?cfg)) minimumSize \<and>
    (1::int) = Min {bg_borderWidth ?cfg, marginLeft (bg_margin ?cfg), marginRight (bg_margin ?cfg),
              marginTop (bg_margin ?cfg), marginBottom (bg_margin ?cfg)} \<and>
    (22::int) \<le> MAX_IMAGE_SIZE \<and> (22::int) \<le> MAX_IMAGE_SIZE"
    by (simp add: sample_background_def sample_margin_def minimumSize_def MAX_IMAGE_SIZE_def)
  have col: "x_pixel_of_color sample_ext (bg_color ?cfg) = 0xFFFFFFFF"
    "x_pixel_of_color sample_ext (bg_borderColor ?cfg) = 0xFF000000"
    by (simp_all add: sample_ext_def sample_background_def)
  have sz: "int_of_uint32 16 = 16" by (simp add: int_of_uint32_def)
  note t = load_fallback [where x = sample_ext and config = sample_config and it = "?it"
      and icon = "ustr ''fcitx-kbd''" and label = "ustr ''us''" and sz = 16
      and name = "ustr ''default''" and cfg = "?cfg" and W = 22 and H = 22 and bw = 1]
  from t h5 sz have a: "ti_image (ThemeImage_tray sample_ext sample_config ?it
       (ustr ''fcitx-kbd'') (ustr ''us'') 16) =
     Some (drawTextIcon sample_ext (cairo_image_surface_create 16 16) (ustr ''us'') 16
             sample_config)"
    by simp
  from t h7 have b: "ti_image (ThemeImage_background sample_ext (ustr ''default'') ?cfg) =
     Some (drawBackground sample_ext ?cfg)"
    by blast
  from t h8 have c: "status_ok (drawBackground sample_ext ?cfg) \<and>
      s_width (drawBackground sample_ext ?cfg) = 22 \<and>
      (\<forall>i j. 0 \<le> i \<and> i < 22 \<and> 0 \<le> j \<and> j < 22 \<longrightarrow>
         s_pixels (drawBackground sample_ext ?cfg) i j =
           (if 1 \<le> i \<and> i < 22 - 1 \<and> 1 \<le> j \<and> j < 22 - 1
            then x_pixel_of_color sample_ext (bg_color ?cfg)
            else x_pixel_of_color sample_ext (bg_borderColor ?cfg)))"
    by blast
  from c have "s_pixels (drawBackground sample_ext ?cfg) 0 0
      = x_pixel_of_color sample_ext (bg_borderColor ?cfg)"
    by simp
  moreover from c have "s_pixels (drawBackground sample_ext ?cfg) 5 5
      = x_pixel_of_color sample_ext (bg_color ?cfg)"
    by simp
  ultimately show ?thesis using a b c col by simp
qed

text \<open>
  An action image whose image reference is empty, or names a file that cannot be read,
  holds no surface; the load returns it as it is.
\<close>

theorem action_image_null_counterexample:
  "ti_image (ThemeImage_action sample_ext (ustr ''default'') \<lparr>act_image = []\<rparr>) = None \<and>
   ti_image (ThemeImage_action sample_ext (ustr ''default'') \<lparr>act_image = ustr ''next.png''\<rparr>)
     = None \<and>
   map_sum id (ti_image \<circ> fst)
     (loadAction sample_ext sample_theme (10, \<lparr>act_image = ustr ''next.png''\<rparr>)) = Inr None"
  by (simp add: loadAction_def findValue_def emplace_def sample_theme_def ThemeImage_action_def
      ThemeImage_init_def load_checked_def loadImage_def sample_ext_def theme_path_def ustr_def
      Let_def)

subsection \<open>The drawing operations on an explicit context\<close>

lemma ctx_plainE:
  assumes "ctx_plain c"
  obtains t op src sv where
    "c = \<lparr>c_target = t,
          c_gstate = \<lparr>g_op = op, g_ctm = \<lparr>m_sx = 1, m_sy = 1, m_tx = 0, m_ty = 0\<rparr>,
                      g_clip = [], g_source = src\<rparr>,
          c_saved = sv, c_path = []\<rparr>" "status_ok t"
proof -
  obtain t g sv p where c: "c = \<lparr>c_target = t, c_gstate = g, c_saved = sv, c_path = p\<rparr>"
    by (cases c) auto
  obtain op m cl src where g: "g = \<lparr>g_op = op, g_ctm = m, g_clip = cl, g_source = src\<rparr>"
    by (cases g) auto
  from assms c g have "p = []" "m = \<lparr>m_sx = 1, m_sy = 1, m_tx = 0, m_ty = 0\<rparr>" "cl = []"
    "status_ok t"
    by (simp_all add: ctx_plain_def identity_matrix_def)
  with c g that show ?thesis by simp
qed

lemma mk_save:
  "cairo_save \<lparr>c_target = t, c_gstate = g, c_saved = sv, c_path = p\<rparr> =
     \<lparr>c_target = t, c_gstate = g, c_saved = g # sv, c_path = p\<rparr>"
  by (simp add: cairo_save_def)

lemma mk_restore:
  "cairo_restore \<lparr>c_target = t, c_gstate = g, c_saved = g' # sv, c_path = p\<rparr> =
     \<lparr>c_target = t, c_gstate = g', c_saved = sv, c_path = p\<rparr>"
  by (simp add: cairo_restore_def)

lemma mk_set_operator:
  "cairo_set_operator \<lparr>c_target = t,
       c_gstate = \<lparr>g_op = op, g_ctm = m, g_clip = cl, g_source = src\<rparr>,
       c_saved = sv, c_path = p\<rparr> op' =
     \<lparr>c_target = t, c_gstate = \<lparr>g_op = op', g_ctm = m, g_clip = cl, g_source = src\<rparr>,
      c_saved = sv, c_path = p\<rparr>"
  by (simp add: cairo_set_operator_def)

lemma mk_translate:
  "cairo_translate \<lparr>c_target = t,
       c_gstate = \<lparr>g_op = op, g_ctm = \<lparr>m_sx = sx, m_sy = sy, m_tx = tx, m_ty = ty\<rparr>,
                   g_clip = cl, g_source = src\<rparr>,
       c_saved = sv, c_path = p\<rparr> dx dy =
     \<lparr>c_target = t,
      c_gstate = \<lparr>g_op = op, g_ctm = \<lparr>m_sx = sx, m_sy = sy, m_tx = sx * dx + tx,
                                       m_ty = sy * dy + ty\<rparr>,
                  g_clip = cl, g_source = src\<rparr>,
      c_saved = sv, c_path = p\<rparr>"
  by (simp add: cairo_translate_def Let_def)

lemma mk_scale:
  "cairo_scale \<lparr>c_target = t,
       c_gstate = \<lparr>g_op = op, g_ctm = \<lparr>m_sx = sx, m_sy = sy, m_tx = tx, m_ty = ty\<rparr>,
                   g_clip = cl, g_source = src\<rparr>,
       c_saved = sv, c_path = p\<rparr> fx fy =
     \<lparr>c_target = t,
      c_gstate = \<lparr>g_op = op, g_ctm = \<lparr>m_sx = sx * fx, m_sy = sy * fy, m_tx = tx, m_ty = ty\<rparr>,
                  g_clip = cl, g_source = src\<rparr>,
      c_saved = sv, c_path = p\<rparr>"
  by (simp add: cairo_scale_def Let_def)

lemma mk_set_source_surface:
  "cairo_set_source_surface \<lparr>c_target = t,
       c_gstate = \<lparr>g_op = op, g_ctm = m, g_clip = cl, g_source = src\<rparr>,
       c_saved = sv, c_path = p\<rparr> s ox oy =
     \<lparr>c_target = t,
      c_gstate = \<lparr>g_op = op, g_ctm = m, g_clip = cl,
                  g_source = SurfaceSource s m ox oy CAIRO_FILTER_GOOD\<rparr>,
      c_saved = sv, c_path = p\<rparr>"
  by (simp add: cairo_set_source_surface_def)

lemma mk_source_set_filter:
  "cairo_source_set_filter \<lparr>c_target = t,
       c_gstate = \<lparr>g_op = op, g_ctm = m, g_clip = cl, g_source = SurfaceSource s m' ox oy f\<rparr>,
       c_saved = sv, c_path = p\<rparr> f' =
     \<lparr>c_target = t,
      c_gstate = \<lparr>g_op = op, g_ctm = m, g_clip = cl, g_source = SurfaceSource s m' ox oy f'\<rparr>,
      c_saved = sv, c_path = p\<rparr>"
  by (simp add: cairo_source_set_filter_def)

lemma mk_rectangle:
  "cairo_rectangle \<lparr>c_target = t,
       c_gstate = \<lparr>g_op = op, g_ctm = m, g_clip = cl, g_source = src\<rparr>,
       c_saved = sv, c_path = p\<rparr> rx ry rw rh =
     \<lparr>c_target = t, c_gstate = \<lparr>g_op = op, g_ctm = m, g_clip = cl, g_source = src\<rparr>,
      c_saved = sv, c_path = p @ [device_rect m rx ry rw rh]\<rparr>"
  by (simp add: cairo_rectangle_def)

lemma mk_clip:
  "cairo_clip \<lparr>c_target = t,
       c_gstate = \<lparr>g_op = op, g_ctm = m, g_clip = cl, g_source = src\<rparr>,
       c_saved = sv, c_path = p\<rparr> =
     \<lparr>c_target = t, c_gstate = \<lparr>g_op = op, g_ctm = m, g_clip = cl @ [p], g_source = src\<rparr>,
      c_saved = sv, c_path = []\<rparr>"
  by (simp add: cairo_clip_def)

lemma mk_paint_with_alpha:
  "cairo_paint_with_alpha x \<lparr>c_target = t,
       c_gstate = \<lparr>g_op = op, g_ctm = m, g_clip = cl, g_source = src\<rparr>,
       c_saved = sv, c_path = p\<rparr> al =
     \<lparr>c_target = (if \<not> status_ok t then t else t\<lparr>s_pixels := (\<lambda>px py.
            if 0 \<le> px \<and> px < s_width t \<and> 0 \<le> py \<and> py < s_height t \<and> in_clip cl px py
            then composite x op al (source_at x src px py) (s_pixels t px py)
            else s_pixels t px py)\<rparr>),
      c_gstate = \<lparr>g_op = op, g_ctm = m, g_clip = cl, g_source = src\<rparr>,
      c_saved = sv, c_path = p\<rparr>"
  by (simp add: cairo_paint_with_alpha_def Let_def)

lemmas mk_ops = mk_save mk_restore mk_set_operator mk_translate mk_scale mk_set_source_surface
  mk_source_set_filter mk_rectangle mk_clip mk_paint_with_alpha

lemma scaleX_times:
  "0 < pl_resizeWidth l \<Longrightarrow> scaleX l * of_int (pl_resizeWidth l) = of_int (targetResizeWidth l)"
  by (simp add: scaleX_def)

lemma scaleY_times:
  "0 < pl_resizeHeight l \<Longrightarrow> scaleY l * of_int (pl_resizeHeight l) = of_int (targetResizeHeight l)"
  by (simp add: scaleY_def)

lemma floor_half: "\<lfloor>(of_int k :: rat) + 1 / 2\<rfloor> = k"
  by (simp add: floor_eq_iff)

lemma source_at_unscaled:
  assumes "tx + ox = of_int a" "ty + oy = of_int b"
  shows "source_at x (SurfaceSource img \<lparr>m_sx = 1, m_sy = 1, m_tx = tx, m_ty = ty\<rparr> ox oy f) px py
           = surface_pixel img (px - a) (py - b)"
proof -
  have qx: "(of_int px + 1 / 2 - tx) / 1 - ox = of_int (px - a) + 1 / 2"
    using assms(1) by (simp add: algebra_simps)
  have qy: "(of_int py + 1 / 2 - ty) / 1 - oy = of_int (py - b) + 1 / 2"
    using assms(2) by (simp add: algebra_simps)
  show ?thesis
    unfolding source_at_def source.case matrix.simps Let_def qx qy
    by (simp add: is_integer_def floor_half del: of_int_diff)
qed

subsection \<open>The nine parts, one by one\<close>

lemma part1_ctx:
  assumes "ctx_plain c"
  shows "ctx_plain (paint_part1 x img l al c) \<and>
     c_gstate (paint_part1 x img l al c) = c_gstate c \<and>
     c_saved (paint_part1 x img l al c) = c_saved c \<and>
     s_width (c_target (paint_part1 x img l al c)) = s_width (c_target c) \<and>
     s_height (c_target (paint_part1 x img l al c)) = s_height (c_target c)"
proof (cases "pl_marginLeft l \<noteq> 0 \<and> pl_marginBottom l \<noteq> 0")
  case False
  with assms show ?thesis by (auto simp: paint_part1_def)
next
  case True
  from assms show ?thesis
    by (elim ctx_plainE)
       (simp add: True paint_part1_def Let_def mk_ops ctx_plain_def identity_matrix_def)
qed

lemma part1_pixel:
  assumes "ctx_plain c" "margins_ok l"
  shows "s_pixels (c_target (paint_part1 x img l al c)) px py =
   (if (pl_marginLeft l \<noteq> 0 \<and> pl_marginBottom l \<noteq> 0) \<and>
       0 \<le> px \<and> px < s_width (c_target c) \<and> 0 \<le> py \<and> py < s_height (c_target c) \<and>
       (0 \<le> px \<and> px < pl_marginLeft l \<and> pl_height l - pl_marginBottom l \<le> py \<and> py < pl_height l)
    then composite x (g_op (c_gstate c)) al
           (surface_pixel img (px - (0)) (py - (pl_height l - pl_marginBottom l - pl_marginTop l - pl_resizeHeight l)))
           (s_pixels (c_target c) px py)
    else s_pixels (c_target c) px py)"
proof (cases "pl_marginLeft l \<noteq> 0 \<and> pl_marginBottom l \<noteq> 0")
  case False
  then show ?thesis by (auto simp: paint_part1_def)
next
  case True
  note src = source_at_unscaled [where a = "0"
      and b = "pl_height l - pl_marginBottom l - pl_marginTop l - pl_resizeHeight l"]
  from assms True show ?thesis
    apply (elim ctx_plainE)
    apply (simp add: paint_part1_def Let_def mk_ops src in_clip_def)
    apply (auto simp: in_drect_def device_rect_def Let_def min_def max_def margins_ok_def
             scaleX_times scaleY_times)
    done
qed

lemma part3_ctx:
  assumes "ctx_plain c"
  shows "ctx_plain (paint_part3 x img l al c) \<and>
     c_gstate (paint_part3 x img l al c) = c_gstate c \<and>
     c_saved (paint_part3 x img l al c) = c_saved c \<and>
     s_width (c_target (paint_part3 x img l al c)) = s_width (c_target c) \<and>
     s_height (c_target (paint_part3 x img l al c)) = s_height (c_target c)"
proof (cases "pl_marginRight l \<noteq> 0 \<and> pl_marginBottom l \<noteq> 0")
  case False
  with assms show ?thesis by (auto simp: paint_part3_def)
next
  case True
  from assms show ?thesis
    by (elim ctx_plainE)
       (simp add: True paint_part3_def Let_def mk_ops ctx_plain_def identity_matrix_def)
qed

lemma part3_pixel:
  assumes "ctx_plain c" "margins_ok l"
  shows "s_pixels (c_target (paint_part3 x img l al c)) px py =
   (if (pl_marginRight l \<noteq> 0 \<and> pl_marginBottom l \<noteq> 0) \<and>
       0 \<le> px \<and> px < s_width (c_target c) \<and> 0 \<le> py \<and> py < s_height (c_target c) \<and>
       (pl_width l - pl_marginRight l \<le> px \<and> px < pl_width l \<and> pl_height l - pl_marginBottom l \<le> py \<and> py < pl_height l)
    then composite x (g_op (c_gstate c)) al
           (surface_pixel img (px - (pl_width l - pl_marginRight l - pl_marginLeft l - pl_resizeWidth l)) (py - (pl_height l - pl_marginBottom l - pl_marginTop l - pl_resizeHeight l)))
           (s_pixels (c_target c) px py)
    else s_pixels (c_target c) px py)"
proof (cases "pl_marginRight l \<noteq> 0 \<and> pl_marginBottom l \<noteq> 0")
  case False
  then show ?thesis by (auto simp: paint_part3_def)
next
  case True
  note src = source_at_unscaled [where a = "pl_width l - pl_marginRight l - pl_marginLeft l - pl_resizeWidth l"
      and b = "pl_height l - pl_marginBottom l - pl_marginTop l - pl_resizeHeight l"]
  from assms True show ?thesis
    apply (elim ctx_plainE)
    apply (simp add: paint_part3_def Let_def mk_ops src in_clip_def)
    apply (auto simp: in_drect_def device_rect_def Let_def min_def max_def margins_ok_def
             scaleX_times scaleY_times)
    done
qed

lemma part7_ctx:
  assumes "ctx_plain c"
  shows "ctx_plain (paint_part7 x img l al c) \<and>
     c_gstate (paint_part7 x img l al c) = c_gstate c \<and>
     c_saved (paint_part7 x img l al c) = c_saved c \<and>
     s_width (c_target (paint_part7 x img l al c)) = s_width (c_target c) \<and>
     s_height (c_target (paint_part7 x img l al c)) = s_height (c_target c)"
proof (cases "pl_marginLeft l \<noteq> 0 \<and> pl_marginTop l \<noteq> 0")
  case False
  with assms show ?thesis by (auto simp: paint_part7_def)
next
  case True
  from assms show ?thesis
    by (elim ctx_plainE)
       (simp add: True paint_part7_def Let_def mk_ops ctx_plain_def identity_matrix_def)
qed

lemma part7_pixel:
  assumes "ctx_plain c" "margins_ok l"
  shows "s_pixels (c_target (paint_part7 x img l al c)) px py =
   (if (pl_marginLeft l \<noteq> 0 \<and> pl_marginTop l \<noteq> 0) \<and>
       0 \<le> px \<and> px < s_width (c_target c) \<and> 0 \<le> py \<and> py < s_height (c_target c) \<and>
       (0 \<le> px \<and> px < pl_marginLeft l \<and> 0 \<le> py \<and> py < pl_marginTop l)
    then composite x (g_op (c_gstate c)) al
           (surface_pixel img (px - (0)) (py - (0)))
           (s_pixels (c_target c) px py)
    else s_pixels (c_target c) px py)"
proof (cases "pl_marginLeft l \<noteq> 0 \<and> pl_marginTop l \<noteq> 0")
  case False
  then show ?thesis by (auto simp: paint_part7_def)
next
  case True
  note src = source_at_unscaled [where a = "0"
      and b = "0"]
  from assms True show ?thesis
    apply (elim ctx_plainE)
    apply (simp add: paint_part7_def Let_def mk_ops src in_clip_def)
    apply (auto simp: in_drect_def device_rect_def Let_def min_def max_def margins_ok_def
             scaleX_times scaleY_times)
    done
qed

lemma part9_ctx:
  assumes "ctx_plain c"
  shows "ctx_plain (paint_part9 x img l al c) \<and>
     c_gstate (paint_part9 x img l al c) = c_gstate c \<and>
     c_saved (paint_part9 x img l al c) = c_saved c \<and>
     s_width (c_target (paint_part9 x img l al c)) = s_width (c_target c) \<and>
     s_height (c_target (paint_part9 x img l al c)) = s_height (c_target c)"
proof (cases "pl_marginRight l \<noteq> 0 \<and> pl_marginTop l \<noteq> 0")
  case False
  with assms show ?thesis by (auto simp: paint_part9_def)
next
  case True
  from assms show ?thesis
    by (elim ctx_plainE)
       (simp add: True paint_part9_def Let_def mk_ops ctx_plain_def identity_matrix_def)
qed

lemma part9_pixel:
  assumes "ctx_plain c" "margins_ok l"
  shows "s_pixels (c_target (paint_part9 x img l al c)) px py =
   (if (pl_marginRight l \<noteq> 0 \<and> pl_marginTop l \<noteq> 0) \<and>
       0 \<le> px \<and> px < s_width (c_target c) \<and> 0 \<le> py \<and> py < s_height (c_target c) \<and>
       (pl_width l - pl_marginRight l \<le> px \<and> px < pl_width l \<and> 0 \<le> py \<and> py < pl_marginTop l)
    then composite x (g_op (c_gstate c)) al
           (surface_pixel img (px - (pl_width l - pl_marginRight l - pl_marginLeft l - pl_resizeWidth l)) (py - (0)))
           (s_pixels (c_target c) px py)
    else s_pixels (c_target c) px py)"
proof (cases "pl_marginRight l \<noteq> 0 \<and> pl_marginTop l \<noteq> 0")
  case False
  then show ?thesis by (auto simp: paint_part9_def)
next
  case True
  note src = source_at_unscaled [where a = "pl_width l - pl_marginRight l - pl_marginLeft l - pl_resizeWidth l"
      and b = "0"]
  from assms True show ?thesis
    apply (elim ctx_plainE)
    apply (simp add: paint_part9_def Let_def mk_ops src in_clip_def)
    apply (auto simp: in_drect_def device_rect_def Let_def min_def max_def margins_ok_def
             scaleX_times scaleY_times)
    done
qed

lemma part8_ctx:
  assumes "ctx_plain c"
  shows "ctx_plain (paint_part8 x img l al c) \<and>
     c_gstate (paint_part8 x img l al c) = c_gstate c \<and>
     c_saved (paint_part8 x img l al c) = c_saved c \<and>
     s_width (c_target (paint_part8 x img l al c)) = s_width (c_target c) \<and>
     s_height (c_target (paint_part8 x img l al c)) = s_height (c_target c)"
proof (cases "pl_marginTop l \<noteq> 0 \<and> targetResizeWidth l > 0")
  case False
  with assms show ?thesis by (auto simp: paint_part8_def)
next
  case True
  from assms show ?thesis
    by (elim ctx_plainE)
       (simp add: True paint_part8_def Let_def mk_ops ctx_plain_def identity_matrix_def)
qed

lemma part8_pixel:
  assumes "ctx_plain c" "margins_ok l"
  shows "s_pixels (c_target (paint_part8 x img l al c)) px py =
   (if (pl_marginTop l \<noteq> 0 \<and> targetResizeWidth l > 0) \<and>
       0 \<le> px \<and> px < s_width (c_target c) \<and> 0 \<le> py \<and> py < s_height (c_target c) \<and>
       (pl_marginLeft l \<le> px \<and> px < pl_marginLeft l + targetResizeWidth l \<and> 0 \<le> py \<and> py < pl_marginTop l)
    then composite x (g_op (c_gstate c)) al
           (source_at x (SurfaceSource img \<lparr>m_sx = scaleX l, m_sy = 1, m_tx = of_int (pl_marginLeft l), m_ty = 0\<rparr> (of_int (- pl_marginLeft l)) 0 CAIRO_FILTER_GOOD) px py)
           (s_pixels (c_target c) px py)
    else s_pixels (c_target c) px py)"
proof (cases "pl_marginTop l \<noteq> 0 \<and> targetResizeWidth l > 0")
  case False
  then show ?thesis by (auto simp: paint_part8_def)
next
  case True
  from assms True show ?thesis
    apply (elim ctx_plainE)
    apply (simp add: paint_part8_def Let_def mk_ops in_clip_def)
    apply (auto simp: in_drect_def device_rect_def Let_def min_def max_def margins_ok_def
             scaleX_times scaleY_times)
    done
qed

lemma part2_ctx:
  assumes "ctx_plain c"
  shows "ctx_plain (paint_part2 x img l al c) \<and>
     c_gstate (paint_part2 x img l al c) = c_gstate c \<and>
     c_saved (paint_part2 x img l al c) = c_saved c \<and>
     s_width (c_target (paint_part2 x img l al c)) = s_width (c_target c) \<and>
     s_height (c_target (paint_part2 x img l al c)) = s_height (c_target c)"
proof (cases "pl_marginBottom l \<noteq> 0 \<and> targetResizeWidth l > 0")
  case False
  with assms show ?thesis by (auto simp: paint_part2_def)
next
  case True
  from assms show ?thesis
    by (elim ctx_plainE)
       (simp add: True paint_part2_def Let_def mk_ops ctx_plain_def identity_matrix_def)
qed

lemma part2_pixel:
  assumes "ctx_plain c" "margins_ok l"
  shows "s_pixels (c_target (paint_part2 x img l al c)) px py =
   (if (pl_marginBottom l \<noteq> 0 \<and> targetResizeWidth l > 0) \<and>
       0 \<le> px \<and> px < s_width (c_target c) \<and> 0 \<le> py \<and> py < s_height (c_target c) \<and>
       (pl_marginLeft l \<le> px \<and> px < pl_marginLeft l + targetResizeWidth l \<and> pl_height l - pl_marginBottom l \<le> py \<and> py < pl_height l)
    then composite x (g_op (c_gstate c)) al
           (source_at x (SurfaceSource img \<lparr>m_sx = scaleX l, m_sy = 1, m_tx = of_int (pl_marginLeft l), m_ty = of_int (pl_height l - pl_marginBottom l)\<rparr> (of_int (- pl_marginLeft l)) (of_int (- pl_marginTop l - pl_resizeHeight l)) CAIRO_FILTER_GOOD) px py)
           (s_pixels (c_target c) px py)
    else s_pixels (c_target c) px py)"
proof (cases "pl_marginBottom l \<noteq> 0 \<and> targetResizeWidth l > 0")
  case False
  then show ?thesis by (auto simp: paint_part2_def)
next
  case True
  from assms True show ?thesis
    apply (elim ctx_plainE)
    apply (simp add: paint_part2_def Let_def mk_ops in_clip_def)
    apply (auto simp: in_drect_def device_rect_def Let_def min_def max_def margins_ok_def
             scaleX_times scaleY_times)
    done
qed

lemma part4_ctx:
  assumes "ctx_plain c"
  shows "ctx_plain (paint_part4 x img l al c) \<and>
     c_gstate (paint_part4 x img l al c) = c_gstate c \<and>
     c_saved (paint_part4 x img l al c) = c_saved c \<and>
     s_width (c_target (paint_part4 x img l al c)) = s_width (c_target c) \<and>
     s_height (c_target (paint_part4 x img l al c)) = s_height (c_target c)"
proof (cases "pl_marginLeft l \<noteq> 0 \<and> targetResizeHeight l > 0")
  case False
  with assms show ?thesis by (auto simp: paint_part4_def)
next
  case True
  from assms show ?thesis
    by (elim ctx_plainE)
       (simp add: True paint_part4_def Let_def mk_ops ctx_plain_def identity_matrix_def)
qed

lemma part4_pixel:
  assumes "ctx_plain c" "margins_ok l"
  shows "s_pixels (c_target (paint_part4 x img l al c)) px py =
   (if (pl_marginLeft l \<noteq> 0 \<and> targetResizeHeight l > 0) \<and>
       0 \<le> px \<and> px < s_width (c_target c) \<and> 0 \<le> py \<and> py < s_height (c_target c) \<and>
       (0 \<le> px \<and> px < pl_marginLeft l \<and> pl_marginTop l \<le> py \<and> py < pl_marginTop l + targetResizeHeight l)
    then composite x (g_op (c_gstate c)) al
           (source_at x (SurfaceSource img \<lparr>m_sx = 1, m_sy = scaleY l, m_tx = 0, m_ty = of_int (pl_marginTop l)\<rparr> 0 (of_int (- pl_marginTop l)) CAIRO_FILTER_GOOD) px py)
           (s_pixels (c_target c) px py)
    else s_pixels (c_target c) px py)"
proof (cases "pl_marginLeft l \<noteq> 0 \<and> targetResizeHeight l > 0")
  case False
  then show ?thesis by (auto simp: paint_part4_def)
next
  case True
  from assms True show ?thesis
    apply (elim ctx_plainE)
    apply (simp add: paint_part4_def Let_def mk_ops in_clip_def)
    apply (auto simp: in_drect_def device_rect_def Let_def min_def max_def margins_ok_def
             scaleX_times scaleY_times)
    done
qed

lemma part6_ctx:
  assumes "ctx_plain c"
  shows "ctx_plain (paint_part6 x img l al c) \<and>
     c_gstate (paint_part6 x img l al c) = c_gstate c \<and>
     c_saved (paint_part6 x img l al c) = c_saved c \<and>
     s_width (c_target (paint_part6 x img l al c)) = s_width (c_target c) \<and>
     s_height (c_target (paint_part6 x img l al c)) = s_height (c_target c)"
proof (cases "pl_marginRight l \<noteq> 0 \<and> targetResizeHeight l > 0")
  case False
  with assms show ?thesis by (auto simp: paint_part6_def)
next
  case True
  from assms show ?thesis
    by (elim ctx_plainE)
       (simp add: True paint_part6_def Let_def mk_ops ctx_plain_def identity_matrix_def)
qed

lemma part6_pixel:
  assumes "ctx_plain c" "margins_ok l"
  shows "s_pixels (c_target (paint_part6 x img l al c)) px py =
   (if (pl_marginRight l \<noteq> 0 \<and> targetResizeHeight l > 0) \<and>
       0 \<le> px \<and> px < s_width (c_target c) \<and> 0 \<le> py \<and> py < s_height (c_target c) \<and>
       (pl_width l - pl_marginRight l \<le> px \<and> px < pl_width l \<and> pl_marginTop l \<le> py \<and> py < pl_marginTop l + targetResizeHeight l)
    then composite x (g_op (c_gstate c)) al
           (source_at x (SurfaceSource img \<lparr>m_sx = 1, m_sy = scaleY l, m_tx = of_int (pl_width l - pl_marginRight l), m_ty = of_int (pl_marginTop l)\<rparr> (of_int (- pl_marginLeft l - pl_resizeWidth l)) (of_int (- pl_marginTop l)) CAIRO_FILTER_GOOD) px py)
           (s_pixels (c_target c) px py)
    else s_pixels (c_target c) px py)"
proof (cases "pl_marginRight l \<noteq> 0 \<and> targetResizeHeight l > 0")
  case False
  then show ?thesis by (auto simp: paint_part6_def)
next
  case True
  from assms True show ?thesis
    apply (elim ctx_plainE)
    apply (simp add: paint_part6_def Let_def mk_ops in_clip_def)
    apply (auto simp: in_drect_def device_rect_def Let_def min_def max_def margins_ok_def
             scaleX_times scaleY_times)
    done
qed

lemma part5_ctx:
  assumes "ctx_plain c"
  shows "ctx_plain (paint_part5 x img l al c) \<and>
     c_gstate (paint_part5 x img l al c) = c_gstate c \<and>
     c_saved (paint_part5 x img l al c) = c_saved c \<and>
     s_width (c_target (paint_part5 x img l al c)) = s_width (c_target c) \<and>
     s_height (c_target (paint_part5 x img l al c)) = s_height (c_target c)"
proof (cases "targetResizeHeight l > 0 \<and> targetResizeWidth l > 0")
  case False
  with assms show ?thesis by (auto simp: paint_part5_def)
next
  case True
  from assms show ?thesis
    by (elim ctx_plainE)
       (simp add: True paint_part5_def Let_def mk_ops ctx_plain_def identity_matrix_def)
qed

lemma part5_pixel:
  assumes "ctx_plain c" "margins_ok l"
  shows "s_pixels (c_target (paint_part5 x img l al c)) px py =
   (if (targetResizeHeight l > 0 \<and> targetResizeWidth l > 0) \<and>
       0 \<le> px \<and> px < s_width (c_target c) \<and> 0 \<le> py \<and> py < s_height (c_target c) \<and>
       (pl_marginLeft l \<le> px \<and> px < pl_marginLeft l + targetResizeWidth l \<and> pl_marginTop l \<le> py \<and> py < pl_marginTop l + targetResizeHeight l)
    then composite x (g_op (c_gstate c)) al
           (source_at x (SurfaceSource img \<lparr>m_sx = scaleX l, m_sy = scaleY l, m_tx = of_int (pl_marginLeft l), m_ty = of_int (pl_marginTop l)\<rparr> (of_int (- pl_marginLeft l)) (of_int (- pl_marginTop l)) CAIRO_FILTER_NEAREST) px py)
           (s_pixels (c_target c) px py)
    else s_pixels (c_target c) px py)"
proof (cases "targetResizeHeight l > 0 \<and> targetResizeWidth l > 0")
  case False
  then show ?thesis by (auto simp: paint_part5_def)
next
  case True
  from assms True show ?thesis
    apply (elim ctx_plainE)
    apply (simp add: paint_part5_def Let_def mk_ops in_clip_def)
    apply (auto simp: in_drect_def device_rect_def Let_def min_def max_def margins_ok_def
             scaleX_times scaleY_times)
    done
qed

subsection \<open>The nine parts together\<close>

lemma save_ctx:
  "ctx_plain (cairo_save c) = ctx_plain c" "c_target (cairo_save c) = c_target c"
  "c_gstate (cairo_save c) = c_gstate c" "c_saved (cairo_save c) = c_gstate c # c_saved c"
  by (simp_all add: cairo_save_def ctx_plain_def)

lemma restore_ctx:
  "c_saved c = g # sv \<Longrightarrow> c_target (cairo_restore c) = c_target c"
  "c_saved c = g # sv \<Longrightarrow> c_gstate (cairo_restore c) = g"
  "c_saved c = g # sv \<Longrightarrow> c_saved (cairo_restore c) = sv"
  "c_saved c = g # sv \<Longrightarrow> c_path (cairo_restore c) = c_path c"
  by (simp_all add: cairo_restore_def)

lemmas part_ctx = part1_ctx part3_ctx part7_ctx part9_ctx part8_ctx part2_ctx part4_ctx
  part6_ctx part5_ctx

lemmas part_pixel = part1_pixel part3_pixel part7_pixel part9_pixel part8_pixel part2_pixel
  part4_pixel part6_pixel part5_pixel

text \<open>The context after each part, from the first to the last.\<close>

lemma ninepatch_chain:
  fixes x :: ext and img :: surface and l :: paint_locals and al :: rat and c :: cairo_t
  defines "c0 \<equiv> cairo_save c"
  defines "c1 \<equiv> paint_part1 x img l al c0"
  defines "c3 \<equiv> paint_part3 x img l al c1"
  defines "c7 \<equiv> paint_part7 x img l al c3"
  defines "c9 \<equiv> paint_part9 x img l al c7"
  defines "c8 \<equiv> paint_part8 x img l al c9"
  defines "c2 \<equiv> paint_part2 x img l al c8"
  defines "c4 \<equiv> paint_part4 x img l al c2"
  defines "c6 \<equiv> paint_part6 x img l al c4"
  defines "c5 \<equiv> paint_part5 x img l al c6"
  assumes c: "ctx_plain c"
  shows "paint_ninepatch x img l al c = cairo_restore c5"
    and "ctx_plain c0 \<and> ctx_plain c1 \<and> ctx_plain c3 \<and> ctx_plain c7 \<and> ctx_plain c9 \<and>
         ctx_plain c8 \<and> ctx_plain c2 \<and> ctx_plain c4 \<and> ctx_plain c6 \<and> ctx_plain c5"
    and "c_gstate c5 = c_gstate c \<and> c_saved c5 = c_gstate c # c_saved c \<and> c_path c5 = []"
    and "g_op (c_gstate c0) = g_op (c_gstate c) \<and> g_op (c_gstate c1) = g_op (c_gstate c) \<and>
         g_op (c_gstate c3) = g_op (c_gstate c) \<and> g_op (c_gstate c7) = g_op (c_gstate c) \<and>
         g_op (c_gstate c9) = g_op (c_gstate c) \<and> g_op (c_gstate c8) = g_op (c_gstate c) \<and>
         g_op (c_gstate c2) = g_op (c_gstate c) \<and> g_op (c_gstate c4) = g_op (c_gstate c) \<and>
         g_op (c_gstate c6) = g_op (c_gstate c)"
    and "s_width (c_target c0) = s_width (c_target c) \<and> s_height (c_target c0) = s_height (c_target c) \<and>
         s_width (c_target c1) = s_width (c_target c) \<and> s_height (c_target c1) = s_height (c_target c) \<and>
         s_width (c_target c3) = s_width (c_target c) \<and> s_height (c_target c3) = s_height (c_target c) \<and>
         s_width (c_target c7) = s_width (c_target c) \<and> s_height (c_target c7) = s_height (c_target c) \<and>
         s_width (c_target c9) = s_width (c_target c) \<and> s_height (c_target c9) = s_height (c_target c) \<and>
         s_width (c_target c8) = s_width (c_target c) \<and> s_height (c_target c8) = s_height (c_target c) \<and>
         s_width (c_target c2) = s_width (c_target c) \<and> s_height (c_target c2) = s_height (c_target c) \<and>
         s_width (c_target c4) = s_width (c_target c) \<and> s_height (c_target c4) = s_height (c_target c) \<and>
         s_width (c_target c6) = s_width (c_target c) \<and> s_height (c_target c6) = s_height (c_target c) \<and>
         s_width (c_target c5) = s_width (c_target c) \<and> s_height (c_target c5) = s_height (c_target c)"
proof -
  show "paint_ninepatch x img l al c = cairo_restore c5"
    by (simp add: paint_ninepatch_def Let_def c0_def c1_def c3_def c7_def c9_def c8_def c2_def
        c4_def c6_def c5_def)
  have p0: "ctx_plain c0" using c by (simp add: c0_def save_ctx)
  have p1: "ctx_plain c1" unfolding c1_def using part1_ctx [OF p0] by simp
  have p3: "ctx_plain c3" unfolding c3_def using part3_ctx [OF p1] by simp
  have p7: "ctx_plain c7" unfolding c7_def using part7_ctx [OF p3] by simp
  have p9: "ctx_plain c9" unfolding c9_def using part9_ctx [OF p7] by simp
  have p8: "ctx_plain c8" unfolding c8_def using part8_ctx [OF p9] by simp
  have p2: "ctx_plain c2" unfolding c2_def using part2_ctx [OF p8] by simp
  have p4: "ctx_plain c4" unfolding c4_def using part4_ctx [OF p2] by simp
  have p6: "ctx_plain c6" unfolding c6_def using part6_ctx [OF p4] by simp
  have p5: "ctx_plain c5" unfolding c5_def using part5_ctx [OF p6] by simp
  show "ctx_plain c0 \<and> ctx_plain c1 \<and> ctx_plain c3 \<and> ctx_plain c7 \<and> ctx_plain c9 \<and>
         ctx_plain c8 \<and> ctx_plain c2 \<and> ctx_plain c4 \<and> ctx_plain c6 \<and> ctx_plain c5"
    using p0 p1 p3 p7 p9 p8 p2 p4 p6 p5 by simp
  have g0: "c_gstate c0 = c_gstate c" "c_saved c0 = c_gstate c # c_saved c"
    "s_width (c_target c0) = s_width (c_target c)" "s_height (c_target c0) = s_height (c_target c)"
    by (simp_all add: c0_def save_ctx)
  have g1: "c_gstate c1 = c_gstate c" "c_saved c1 = c_gstate c # c_saved c"
    "s_width (c_target c1) = s_width (c_target c)" "s_height (c_target c1) = s_height (c_target c)"
    unfolding c1_def using part1_ctx [OF p0, of x img l al] g0 by simp_all
  have g3: "c_gstate c3 = c_gstate c" "c_saved c3 = c_gstate c # c_saved c"
    "s_width (c_target c3) = s_width (c_target c)" "s_height (c_target c3) = s_height (c_target c)"
    unfolding c3_def using part3_ctx [OF p1, of x img l al] g1 by simp_all
  have g7: "c_gstate c7 = c_gstate c" "c_saved c7 = c_gstate c # c_saved c"
    "s_width (c_target c7) = s_width (c_target c)" "s_height (c_target c7) = s_height (c_target c)"
    unfolding c7_def using part7_ctx [OF p3, of x img l al] g3 by simp_all
  have g9: "c_gstate c9 = c_gstate c" "c_saved c9 = c_gstate c # c_saved c"
    "s_width (c_target c9) = s_width (c_target c)" "s_height (c_target c9) = s_height (c_target c)"
    unfolding c9_def using part9_ctx [OF p7, of x img l al] g7 by simp_all
  have g8: "c_gstate c8 = c_gstate c" "c_saved c8 = c_gstate c # c_saved c"
    "s_width (c_target c8) = s_width (c_target c)" "s_height (c_target c8) = s_height (c_target c)"
    unfolding c8_def using part8_ctx [OF p9, of x img l al] g9 by simp_all
  have g2: "c_gstate c2 = c_gstate c" "c_saved c2 = c_gstate c # c_saved c"
    "s_width (c_target c2) = s_width (c_target c)" "s_height (c_target c2) = s_height (c_target c)"
    unfolding c2_def using part2_ctx [OF p8, of x img l al] g8 by simp_all
  have g4: "c_gstate c4 = c_gstate c" "c_saved c4 = c_gstate c # c_saved c"
    "s_width (c_target c4) = s_width (c_target c)" "s_height (c_target c4) = s_height (c_target c)"
    unfolding c4_def using part4_ctx [OF p2, of x img l al] g2 by simp_all
  have g6: "c_gstate c6 = c_gstate c" "c_saved c6 = c_gstate c # c_saved c"
    "s_width (c_target c6) = s_width (c_target c)" "s_height (c_target c6) = s_height (c_target c)"
    unfolding c6_def using part6_ctx [OF p4, of x img l al] g4 by simp_all
  have g5: "c_gstate c5 = c_gstate c" "c_saved c5 = c_gstate c # c_saved c"
    "s_width (c_target c5) = s_width (c_target c)" "s_height (c_target c5) = s_height (c_target c)"
    unfolding c5_def using part5_ctx [OF p6, of x img l al] g6 by simp_all
  from p5 have "c_path c5 = []" by (simp add: ctx_plain_def)
  with g5 show "c_gstate c5 = c_gstate c \<and> c_saved c5 = c_gstate c # c_saved c \<and> c_path c5 = []"
    by simp
  show "g_op (c_gstate c0) = g_op (c_gstate c) \<and> g_op (c_gstate c1) = g_op (c_gstate c) \<and>
         g_op (c_gstate c3) = g_op (c_gstate c) \<and> g_op (c_gstate c7) = g_op (c_gstate c) \<and>
         g_op (c_gstate c9) = g_op (c_gstate c) \<and> g_op (c_gstate c8) = g_op (c_gstate c) \<and>
         g_op (c_gstate c2) = g_op (c_gstate c) \<and> g_op (c_gstate c4) = g_op (c_gstate c) \<and>
         g_op (c_gstate c6) = g_op (c_gstate c)"
    by (simp add: g0 g1 g3 g7 g9 g8 g2 g4 g6)
  show "s_width (c_target c0) = s_width (c_target c) \<and> s_height (c_target c0) = s_height (c_target c) \<and>
         s_width (c_target c1) = s_width (c_target c) \<and> s_height (c_target c1) = s_height (c_target c) \<and>
         s_width (c_target c3) = s_width (c_target c) \<and> s_height (c_target c3) = s_height (c_target c) \<and>
         s_width (c_target c7) = s_width (c_target c) \<and> s_height (c_target c7) = s_height (c_target c) \<and>
         s_width (c_target c9) = s_width (c_target c) \<and> s_height (c_target c9) = s_height (c_target c) \<and>
         s_width (c_target c8) = s_width (c_target c) \<and> s_height (c_target c8) = s_height (c_target c) \<and>
         s_width (c_target c2) = s_width (c_target c) \<and> s_height (c_target c2) = s_height (c_target c) \<and>
         s_width (c_target c4) = s_width (c_target c) \<and> s_height (c_target c4) = s_height (c_target c) \<and>
         s_width (c_target c6) = s_width (c_target c) \<and> s_height (c_target c6) = s_height (c_target c) \<and>
         s_width (c_target c5) = s_width (c_target c) \<and> s_height (c_target c5) = s_height (c_target c)"
    by (simp add: g0 g1 g3 g7 g9 g8 g2 g4 g6 g5)
qed

text \<open>
  The value of a target pixel after the nine parts, for non-negative margins and a target
  that is at least as large as the margins: the nine regions are then disjoint, and a pixel
  is composited once, by the part whose region it lies in (if that part is painted at all).
\<close>

lemma ninepatch_pixel:
  assumes c: "ctx_plain c" and m: "margins_ok l"
    and fit: "pl_marginLeft l + pl_marginRight l \<le> pl_width l"
      "pl_marginTop l + pl_marginBottom l \<le> pl_height l"
    and b: "0 \<le> px" "px < s_width (c_target c)" "0 \<le> py" "py < s_height (c_target c)"
  shows "s_pixels (c_target (paint_ninepatch x img l al c)) px py =
    (if px < 0 \<or> pl_width l \<le> px \<or> py < 0 \<or> pl_height l \<le> py then s_pixels (c_target c) px py
     else if px < pl_marginLeft l \<and> py < pl_marginTop l then
       composite x (g_op (c_gstate c)) al (surface_pixel img px py) (s_pixels (c_target c) px py)
     else if pl_width l - pl_marginRight l \<le> px \<and> py < pl_marginTop l then
       composite x (g_op (c_gstate c)) al
         (surface_pixel img (px - (pl_width l - pl_marginRight l - pl_marginLeft l - pl_resizeWidth l)) py)
         (s_pixels (c_target c) px py)
     else if px < pl_marginLeft l \<and> pl_height l - pl_marginBottom l \<le> py then
       composite x (g_op (c_gstate c)) al
         (surface_pixel img px
            (py - (pl_height l - pl_marginBottom l - pl_marginTop l - pl_resizeHeight l)))
         (s_pixels (c_target c) px py)
     else if pl_width l - pl_marginRight l \<le> px \<and> pl_height l - pl_marginBottom l \<le> py then
       composite x (g_op (c_gstate c)) al
         (surface_pixel img (px - (pl_width l - pl_marginRight l - pl_marginLeft l - pl_resizeWidth l))
            (py - (pl_height l - pl_marginBottom l - pl_marginTop l - pl_resizeHeight l)))
         (s_pixels (c_target c) px py)
     else if py < pl_marginTop l then
       composite x (g_op (c_gstate c)) al
         (source_at x (SurfaceSource img
            \<lparr>m_sx = scaleX l, m_sy = 1, m_tx = of_int (pl_marginLeft l), m_ty = 0\<rparr>
            (of_int (- pl_marginLeft l)) 0 CAIRO_FILTER_GOOD) px py)
         (s_pixels (c_target c) px py)
     else if pl_height l - pl_marginBottom l \<le> py then
       composite x (g_op (c_gstate c)) al
         (source_at x (SurfaceSource img
            \<lparr>m_sx = scaleX l, m_sy = 1, m_tx = of_int (pl_marginLeft l),
             m_ty = of_int (pl_height l - pl_marginBottom l)\<rparr>
            (of_int (- pl_marginLeft l)) (of_int (- pl_marginTop l - pl_resizeHeight l))
            CAIRO_FILTER_GOOD) px py)
         (s_pixels (c_target c) px py)
     else if px < pl_marginLeft l then
       composite x (g_op (c_gstate c)) al
         (source_at x (SurfaceSource img
            \<lparr>m_sx = 1, m_sy = scaleY l, m_tx = 0, m_ty = of_int (pl_marginTop l)\<rparr>
            0 (of_int (- pl_marginTop l)) CAIRO_FILTER_GOOD) px py)
         (s_pixels (c_target c) px py)
     else if pl_width l - pl_marginRight l \<le> px then
       composite x (g_op (c_gstate c)) al
         (source_at x (SurfaceSource img
            \<lparr>m_sx = 1, m_sy = scaleY l, m_tx = of_int (pl_width l - pl_marginRight l),
             m_ty = of_int (pl_marginTop l)\<rparr>
            (of_int (- pl_marginLeft l - pl_resizeWidth l)) (of_int (- pl_marginTop l))
            CAIRO_FILTER_GOOD) px py)
         (s_pixels (c_target c) px py)
     else
       composite x (g_op (c_gstate c)) al
         (source_at x (SurfaceSource img
            \<lparr>m_sx = scaleX l, m_sy = scaleY l, m_tx = of_int (pl_marginLeft l),
             m_ty = of_int (pl_marginTop l)\<rparr>
            (of_int (- pl_marginLeft l)) (of_int (- pl_marginTop l)) CAIRO_FILTER_NEAREST) px py)
         (s_pixels (c_target c) px py))"
proof -
  define c0 where "c0 = cairo_save c"
  define c1 where "c1 = paint_part1 x img l al c0"
  define c3 where "c3 = paint_part3 x img l al c1"
  define c7 where "c7 = paint_part7 x img l al c3"
  define c9 where "c9 = paint_part9 x img l al c7"
  define c8 where "c8 = paint_part8 x img l al c9"
  define c2 where "c2 = paint_part2 x img l al c8"
  define c4 where "c4 = paint_part4 x img l al c2"
  define c6 where "c6 = paint_part6 x img l al c4"
  define c5 where "c5 = paint_part5 x img l al c6"
  note ch = ninepatch_chain [OF c, of x img l al, folded c0_def, folded c1_def, folded c3_def,
      folded c7_def, folded c9_def, folded c8_def, folded c2_def, folded c4_def, folded c6_def,
      folded c5_def]
  have mm: "0 \<le> pl_marginTop l" "0 \<le> pl_marginBottom l" "0 \<le> pl_marginLeft l"
    "0 \<le> pl_marginRight l"
    using m by (simp_all add: margins_ok_def)
  have tr: "targetResizeWidth l = pl_width l - pl_marginLeft l - pl_marginRight l"
    "targetResizeHeight l = pl_height l - pl_marginTop l - pl_marginBottom l"
    by (simp_all add: targetResizeWidth_def targetResizeHeight_def)
  have e0: "s_pixels (c_target c0) px py = s_pixels (c_target c) px py"
    by (simp add: c0_def save_ctx)
  have e1: "s_pixels (c_target c1) px py =
      (if (pl_marginLeft l \<noteq> 0 \<and> pl_marginBottom l \<noteq> 0) \<and> (0 \<le> px \<and> px < pl_marginLeft l \<and> pl_height l - pl_marginBottom l \<le> py \<and> py < pl_height l)
       then composite x (g_op (c_gstate c)) al
         (surface_pixel img (px - (0)) (py - (pl_height l - pl_marginBottom l - pl_marginTop l - pl_resizeHeight l)))
         (s_pixels (c_target c0) px py)
       else s_pixels (c_target c0) px py)"
    unfolding c1_def using part1_pixel [of c0 l x img al px py] ch m b by simp
  have e3: "s_pixels (c_target c3) px py =
      (if (pl_marginRight l \<noteq> 0 \<and> pl_marginBottom l \<noteq> 0) \<and> (pl_width l - pl_marginRight l \<le> px \<and> px < pl_width l \<and> pl_height l - pl_marginBottom l \<le> py \<and> py < pl_height l)
       then composite x (g_op (c_gstate c)) al
         (surface_pixel img (px - (pl_width l - pl_marginRight l - pl_marginLeft l - pl_resizeWidth l)) (py - (pl_height l - pl_marginBottom l - pl_marginTop l - pl_resizeHeight l)))
         (s_pixels (c_target c1) px py)
       else s_pixels (c_target c1) px py)"
    unfolding c3_def using part3_pixel [of c1 l x img al px py] ch m b by simp
  have e7: "s_pixels (c_target c7) px py =
      (if (pl_marginLeft l \<noteq> 0 \<and> pl_marginTop l \<noteq> 0) \<and> (0 \<le> px \<and> px < pl_marginLeft l \<and> 0 \<le> py \<and> py < pl_marginTop l)
       then composite x (g_op (c_gstate c)) al
         (surface_pixel img (px - (0)) (py - (0)))
         (s_pixels (c_target c3) px py)
       else s_pixels (c_target c3) px py)"
    unfolding c7_def using part7_pixel [of c3 l x img al px py] ch m b by simp
  have e9: "s_pixels (c_target c9) px py =
      (if (pl_marginRight l \<noteq> 0 \<and> pl_marginTop l \<noteq> 0) \<and> (pl_width l - pl_marginRight l \<le> px \<and> px < pl_width l \<and> 0 \<le> py \<and> py < pl_marginTop l)
       then composite x (g_op (c_gstate c)) al
         (surface_pixel img (px - (pl_width l - pl_marginRight l - pl_marginLeft l - pl_resizeWidth l)) (py - (0)))
         (s_pixels (c_target c7) px py)
       else s_pixels (c_target c7) px py)"
    unfolding c9_def using part9_pixel [of c7 l x img al px py] ch m b by simp
  have e8: "s_pixels (c_target c8) px py =
      (if (pl_marginTop l \<noteq> 0 \<and> targetResizeWidth l > 0) \<and> (pl_marginLeft l \<le> px \<and> px < pl_marginLeft l + targetResizeWidth l \<and> 0 \<le> py \<and> py < pl_marginTop l)
       then composite x (g_op (c_gstate c)) al
         (source_at x (SurfaceSource img \<lparr>m_sx = scaleX l, m_sy = 1, m_tx = of_int (pl_marginLeft l), m_ty = 0\<rparr> (of_int (- pl_marginLeft l)) 0 CAIRO_FILTER_GOOD) px py)
         (s_pixels (c_target c9) px py)
       else s_pixels (c_target c9) px py)"
    unfolding c8_def using part8_pixel [of c9 l x img al px py] ch m b by simp
  have e2: "s_pixels (c_target c2) px py =
      (if (pl_marginBottom l \<noteq> 0 \<and> targetResizeWidth l > 0) \<and> (pl_marginLeft l \<le> px \<and> px < pl_marginLeft l + targetResizeWidth l \<and> pl_height l - pl_marginBottom l \<le> py \<and> py < pl_height l)
       then composite x (g_op (c_gstate c)) al
         (source_at x (SurfaceSource img \<lparr>m_sx = scaleX l, m_sy = 1, m_tx = of_int (pl_marginLeft l), m_ty = of_int (pl_height l - pl_marginBottom l)\<rparr> (of_int (- pl_marginLeft l)) (of_int (- pl_marginTop l - pl_resizeHeight l)) CAIRO_FILTER_GOOD) px py)
         (s_pixels (c_target c8) px py)
       else s_pixels (c_target c8) px py)"
    unfolding c2_def using part2_pixel [of c8 l x img al px py] ch m b by simp
  have e4: "s_pixels (c_target c4) px py =
      (if (pl_marginLeft l \<noteq> 0 \<and> targetResizeHeight l > 0) \<and> (0 \<le> px \<and> px < pl_marginLeft l \<and> pl_marginTop l \<le> py \<and> py < pl_marginTop l + targetResizeHeight l)
       then composite x (g_op (c_gstate c)) al
         (source_at x (SurfaceSource img \<lparr>m_sx = 1, m_sy = scaleY l, m_tx = 0, m_ty = of_int (pl_marginTop l)\<rparr> 0 (of_int (- pl_marginTop l)) CAIRO_FILTER_GOOD) px py)
         (s_pixels (c_target c2) px py)
       else s_pixels (c_target c2) px py)"
    unfolding c4_def using part4_pixel [of c2 l x img al px py] ch m b by simp
  have e6: "s_pixels (c_target c6) px py =
      (if (pl_marginRight l \<noteq> 0 \<and> targetResizeHeight l > 0) \<and> (pl_width l - pl_marginRight l \<le> px \<and> px < pl_width l \<and> pl_marginTop l \<le> py \<and> py < pl_marginTop l + targetResizeHeight l)
       then composite x (g_op (c_gstate c)) al
         (source_at x (SurfaceSource img \<lparr>m_sx = 1, m_sy = scaleY l, m_tx = of_int (pl_width l - pl_marginRight l), m_ty = of_int (pl_marginTop l)\<rparr> (of_int (- pl_marginLeft l - pl_resizeWidth l)) (of_int (- pl_marginTop l)) CAIRO_FILTER_GOOD) px py)
         (s_pixels (c_target c4) px py)
       else s_pixels (c_target c4) px py)"
    unfolding c6_def using part6_pixel [of c4 l x img al px py] ch m b by simp
  have e5: "s_pixels (c_target c5) px py =
      (if (targetResizeHeight l > 0 \<and> targetResizeWidth l > 0) \<and> (pl_marginLeft l \<le> px \<and> px < pl_marginLeft l + targetResizeWidth l \<and> pl_marginTop l \<le> py \<and> py < pl_marginTop l + targetResizeHeight l)
       then composite x (g_op (c_gstate c)) al
         (source_at x (SurfaceSource img \<lparr>m_sx = scaleX l, m_sy = scaleY l, m_tx = of_int (pl_marginLeft l), m_ty = of_int (pl_marginTop l)\<rparr> (of_int (- pl_marginLeft l)) (of_int (- pl_marginTop l)) CAIRO_FILTER_NEAREST) px py)
         (s_pixels (c_target c6) px py)
       else s_pixels (c_target c6) px py)"
    unfolding c5_def using part5_pixel [of c6 l x img al px py] ch m b by simp
  have e: "s_pixels (c_target (paint_ninepatch x img l al c)) px py = s_pixels (c_target c5) px py"
    using ch restore_ctx(1) [of c5] by simp
  show ?thesis
  proof (cases "pl_width l \<le> px")
    case True
    with mm fit b show ?thesis
      by (simp add: e e5 e6 e4 e2 e8 e9 e7 e3 e1 e0 tr)
  next
    case wx: False
    show ?thesis
    proof (cases "pl_height l \<le> py")
    case True
    with mm fit b show ?thesis
      by (simp add: e e5 e6 e4 e2 e8 e9 e7 e3 e1 e0 tr)
    next
    case False
    with wx have inr: "px < pl_width l" "py < pl_height l" by simp_all
    show ?thesis
    proof (cases "px < pl_marginLeft l")
      case colL: True
      show ?thesis
      proof (cases "py < pl_marginTop l")
        case True
        with colL inr mm fit b show ?thesis
          by (simp add: e e5 e6 e4 e2 e8 e9 e7 e3 e1 e0 tr)
      next
        case rowT: False
        show ?thesis
        proof (cases "pl_height l - pl_marginBottom l \<le> py")
          case True
          with rowT colL inr mm fit b show ?thesis
            by (simp add: e e5 e6 e4 e2 e8 e9 e7 e3 e1 e0 tr)
        next
          case False
          with rowT colL inr mm fit b show ?thesis
            by (simp add: e e5 e6 e4 e2 e8 e9 e7 e3 e1 e0 tr)
        qed
      qed
    next
      case colL: False
      show ?thesis
      proof (cases "pl_width l - pl_marginRight l \<le> px")
        case colR: True
        show ?thesis
        proof (cases "py < pl_marginTop l")
          case True
          with colR colL inr mm fit b show ?thesis
            by (simp add: e e5 e6 e4 e2 e8 e9 e7 e3 e1 e0 tr)
        next
          case rowT: False
          show ?thesis
          proof (cases "pl_height l - pl_marginBottom l \<le> py")
            case True
            with rowT colR colL inr mm fit b show ?thesis
              by (simp add: e e5 e6 e4 e2 e8 e9 e7 e3 e1 e0 tr)
          next
            case False
            with rowT colR colL inr mm fit b show ?thesis
              by (simp add: e e5 e6 e4 e2 e8 e9 e7 e3 e1 e0 tr)
          qed
        qed
      next
        case colR: False
        show ?thesis
        proof (cases "py < pl_marginTop l")
          case True
          with colR colL inr mm fit b show ?thesis
            by (simp add: e e5 e6 e4 e2 e8 e9 e7 e3 e1 e0 tr)
        next
          case rowT: False
          show ?thesis
          proof (cases "pl_height l - pl_marginBottom l \<le> py")
            case True
            with rowT colR colL inr mm fit b show ?thesis
              by (simp add: e e5 e6 e4 e2 e8 e9 e7 e3 e1 e0 tr)
          next
            case False
            with rowT colR colL inr mm fit b show ?thesis
              by (simp add: e e5 e6 e4 e2 e8 e9 e7 e3 e1 e0 tr)
          qed
        qed
      qed
    qed
  qed
qed
qed
lemma ninepatch_ctx:
  assumes c: "ctx_plain c"
  shows "ctx_plain (paint_ninepatch x img l al c) \<and>
     c_gstate (paint_ninepatch x img l al c) = c_gstate c \<and>
     c_saved (paint_ninepatch x img l al c) = c_saved c \<and>
     s_width (c_target (paint_ninepatch x img l al c)) = s_width (c_target c) \<and>
     s_height (c_target (paint_ninepatch x img l al c)) = s_height (c_target c)"
proof -
  note ch = ninepatch_chain [OF c, of x img l al]
  let ?c5 = "paint_part5 x img l al (paint_part6 x img l al (paint_part4 x img l al
     (paint_part2 x img l al (paint_part8 x img l al (paint_part9 x img l al
     (paint_part7 x img l al (paint_part3 x img l al (paint_part1 x img l al
     (cairo_save c)))))))))"
  have r: "paint_ninepatch x img l al c = cairo_restore ?c5" by (rule ch(1))
  have s: "c_saved ?c5 = c_gstate c # c_saved c" "c_path ?c5 = []" using ch(3) by simp_all
  have p5: "ctx_plain ?c5" using ch(2) by simp
  have d: "s_width (c_target ?c5) = s_width (c_target c)"
    "s_height (c_target ?c5) = s_height (c_target c)"
    using ch(5) by simp_all
  from c p5 s d show ?thesis
    unfolding r by (simp add: restore_ctx [OF s(1)] ctx_plain_def)
qed

subsection \<open>The overlay\<close>

lemma overlay_not_drawn:
  "\<not> overlay_drawn cfg ov width height \<Longrightarrow> paint_overlay x (Some ov) cfg width height al c = c"
  by (auto simp: paint_overlay_def overlay_drawn_def overlay_finalRect_def Let_def)

lemma overlay_none: "paint_overlay x None cfg width height al c = c"
  by (simp add: paint_overlay_def)

lemma overlay_pixel:
  assumes c: "ctx_plain c" and d: "overlay_drawn cfg ov width height"
  shows "s_pixels (c_target (paint_overlay x (Some ov) cfg width height al c)) px py =
    (if 0 \<le> px \<and> px < s_width (c_target c) \<and> 0 \<le> py \<and> py < s_height (c_target c) \<and>
        in_Rect (overlay_finalRect cfg ov width height) px py
     then composite x CAIRO_OPERATOR_OVER al
            (surface_pixel ov (px - r_x (overlay_rect cfg ov width height))
               (py - r_y (overlay_rect cfg ov width height)))
            (s_pixels (c_target c) px py)
     else s_pixels (c_target c) px py)"
proof -
  define rect where "rect = overlay_rect cfg ov width height"
  define final where "final = overlay_finalRect cfg ov width height"
  from d have "\<not> isEmpty final" by (simp add: overlay_drawn_def final_def)
  then have pos: "0 < r_w final" "0 < r_h final" by (simp_all add: isEmpty_def)
  have body: "paint_overlay x (Some ov) cfg width height al c =
      (let c = cairo_save c;
           c = cairo_set_operator c CAIRO_OPERATOR_OVER;
           c = cairo_translate c (of_int (r_left final)) (of_int (r_top final));
           c = cairo_set_source_surface c ov (of_int (r_x rect - r_left final))
                 (of_int (r_y rect - r_top final));
           c = cairo_rectangle c 0 0 (of_int (r_w final)) (of_int (r_h final));
           c = cairo_clip c;
           c = cairo_paint_with_alpha x c al
       in cairo_restore c)"
    using d
    by (auto simp: paint_overlay_def overlay_drawn_def overlay_finalRect_def Let_def rect_def
        final_def)
  note src = source_at_unscaled [where a = "r_x rect" and b = "r_y rect"]
  from c pos show ?thesis
    unfolding body rect_def [symmetric] final_def [symmetric]
    apply (elim ctx_plainE)
    apply (simp add: Let_def mk_ops src in_clip_def)
    apply (auto simp: in_drect_def device_rect_def Let_def min_def max_def in_Rect_def
             r_left_def r_top_def r_right_def r_bottom_def)
    done
qed

lemma paint_image_pixel:
  assumes c: "ctx_plain c"
    and b: "0 \<le> px" "px < s_width (c_target c)" "0 \<le> py" "py < s_height (c_target c)"
  shows "s_pixels (c_target (paint_image x img overlay cfg c width height al)) px py =
    (if overlay_covers cfg overlay (pl_width (paint_locals_of img cfg width height))
          (pl_height (paint_locals_of img cfg width height)) px py
     then composite x CAIRO_OPERATOR_OVER al
            (case overlay of
               None \<Rightarrow> 0
             | Some ov \<Rightarrow>
                 surface_pixel ov
                   (px - r_x (overlay_rect cfg ov (pl_width (paint_locals_of img cfg width height))
                                (pl_height (paint_locals_of img cfg width height))))
                   (py - r_y (overlay_rect cfg ov (pl_width (paint_locals_of img cfg width height))
                                (pl_height (paint_locals_of img cfg width height)))))
            (s_pixels (c_target (paint_ninepatch x img (paint_locals_of img cfg width height) al c))
               px py)
     else s_pixels (c_target (paint_ninepatch x img (paint_locals_of img cfg width height) al c))
            px py)"
proof (cases overlay)
  case None
  then show ?thesis
    by (simp add: paint_image_def Let_def overlay_none overlay_covers_def)
next
  case (Some ov)
  define l where "l = paint_locals_of img cfg width height"
  note n = ninepatch_ctx [OF c, of x img l al]
  show ?thesis
  proof (cases "overlay_drawn cfg ov (pl_width l) (pl_height l)")
    case False
    then show ?thesis
      unfolding Some l_def [symmetric]
      by (simp add: paint_image_def Let_def overlay_not_drawn overlay_covers_def
          flip: l_def)
  next
    case True
    from n have pn: "ctx_plain (paint_ninepatch x img l al c)" by simp
    show ?thesis
      unfolding Some l_def [symmetric]
      using overlay_pixel [OF pn True, of x al px py] n b True
      by (simp add: paint_image_def Let_def overlay_covers_def flip: l_def)
  qed
qed

lemma paint_locals_margins_ok:
  "0 \<le> marginTop (bg_margin cfg) \<Longrightarrow> 0 \<le> marginBottom (bg_margin cfg) \<Longrightarrow>
   0 \<le> marginLeft (bg_margin cfg) \<Longrightarrow> 0 \<le> marginRight (bg_margin cfg) \<Longrightarrow>
   margins_ok (paint_locals_of img cfg width height)"
  by (simp add: margins_ok_def paint_locals_of_def Let_def)

lemma part5_source_unscaled:
  "scaleX l = 1 \<Longrightarrow> scaleY l = 1 \<Longrightarrow>
   source_at x (SurfaceSource img
      \<lparr>m_sx = scaleX l, m_sy = scaleY l, m_tx = of_int (pl_marginLeft l),
       m_ty = of_int (pl_marginTop l)\<rparr>
      (of_int (- pl_marginLeft l)) (of_int (- pl_marginTop l)) CAIRO_FILTER_NEAREST) px py
     = surface_pixel img px py"
  using source_at_unscaled [where a = 0 and b = 0 and tx = "of_int (pl_marginLeft l)"
      and ox = "of_int (- pl_marginLeft l)" and ty = "of_int (pl_marginTop l)"
      and oy = "of_int (- pl_marginTop l)" and x = x and img = img
      and f = CAIRO_FILTER_NEAREST and px = px and py = py]
  by simp

subsection \<open>C7: where the overlay is placed\<close>

text \<open>
  C7. The horizontal position of the overlay depends on the column of the gravity only, the
  vertical position on its row only: the offset from the near edge, the centred position
  (with the truncating division of C++) plus the offset, or the far edge minus the overlay's
  size and the offset. With gravity BottomRight and zero offsets the overlay rectangle ends
  exactly at the target's right and bottom edges. Where the overlay is painted, the target
  pixel \<open>(px, py)\<close> receives the overlay's pixel \<open>(px - x, py - y)\<close>, composited with
  the operator OVER on top of the nine-patch.
\<close>

theorem overlay_placement:
  "(gravity_column (bg_gravity cfg) = Near \<longrightarrow> overlay_x cfg width ow = bg_overlayOffsetX cfg) \<and>
   (gravity_column (bg_gravity cfg) = Middle \<longrightarrow>
      overlay_x cfg width ow = cdiv (width - ow) 2 + bg_overlayOffsetX cfg) \<and>
   (gravity_column (bg_gravity cfg) = Far \<longrightarrow>
      overlay_x cfg width ow = width - ow - bg_overlayOffsetX cfg) \<and>
   (gravity_row (bg_gravity cfg) = Near \<longrightarrow> overlay_y cfg height oh = bg_overlayOffsetY cfg) \<and>
   (gravity_row (bg_gravity cfg) = Middle \<longrightarrow>
      overlay_y cfg height oh = cdiv (height - oh) 2 + bg_overlayOffsetY cfg) \<and>
   (gravity_row (bg_gravity cfg) = Far \<longrightarrow>
      overlay_y cfg height oh = height - oh - bg_overlayOffsetY cfg) \<and>
   r_x (overlay_rect cfg ov width height) = overlay_x cfg width (overlayWidth ov) \<and>
   r_y (overlay_rect cfg ov width height) = overlay_y cfg height (overlayHeight ov) \<and>
   (bg_gravity cfg = BottomRight \<and> bg_overlayOffsetX cfg = 0 \<and> bg_overlayOffsetY cfg = 0 \<longrightarrow>
      r_x (overlay_rect cfg ov width height) = width - overlayWidth ov \<and>
      r_y (overlay_rect cfg ov width height) = height - overlayHeight ov \<and>
      r_right (overlay_rect cfg ov width height) = width \<and>
      r_bottom (overlay_rect cfg ov width height) = height) \<and>
   (ctx_plain c \<and> 0 \<le> px \<and> px < s_width (c_target c) \<and> 0 \<le> py \<and> py < s_height (c_target c) \<and>
    overlay_covers cfg (Some ov) (pl_width (paint_locals_of img cfg w h))
      (pl_height (paint_locals_of img cfg w h)) px py \<longrightarrow>
      s_pixels (c_target (paint_image x img (Some ov) cfg c w h al)) px py =
        composite x CAIRO_OPERATOR_OVER al
          (surface_pixel ov
             (px - overlay_x cfg (pl_width (paint_locals_of img cfg w h)) (overlayWidth ov))
             (py - overlay_y cfg (pl_height (paint_locals_of img cfg w h)) (overlayHeight ov)))
          (s_pixels (c_target (paint_image x img None cfg c w h al)) px py))"
proof -
  have cx: "gravity_column (bg_gravity cfg) = Near \<longrightarrow> overlay_x cfg width ow = bg_overlayOffsetX cfg"
    "gravity_column (bg_gravity cfg) = Middle \<longrightarrow>
      overlay_x cfg width ow = cdiv (width - ow) 2 + bg_overlayOffsetX cfg"
    "gravity_column (bg_gravity cfg) = Far \<longrightarrow>
      overlay_x cfg width ow = width - ow - bg_overlayOffsetX cfg"
    by (cases "bg_gravity cfg"; simp add: gravity_column_def overlay_x_def)+
  have cy: "gravity_row (bg_gravity cfg) = Near \<longrightarrow> overlay_y cfg height oh = bg_overlayOffsetY cfg"
    "gravity_row (bg_gravity cfg) = Middle \<longrightarrow>
      overlay_y cfg height oh = cdiv (height - oh) 2 + bg_overlayOffsetY cfg"
    "gravity_row (bg_gravity cfg) = Far \<longrightarrow>
      overlay_y cfg height oh = height - oh - bg_overlayOffsetY cfg"
    by (cases "bg_gravity cfg"; simp add: gravity_row_def overlay_y_def)+
  have r: "r_x (overlay_rect cfg ov width height) = overlay_x cfg width (overlayWidth ov)"
    "r_y (overlay_rect cfg ov width height) = overlay_y cfg height (overlayHeight ov)"
    by (simp_all add: overlay_rect_def setSize_def setPosition_def)
  have br: "bg_gravity cfg = BottomRight \<and> bg_overlayOffsetX cfg = 0 \<and> bg_overlayOffsetY cfg = 0 \<longrightarrow>
      r_x (overlay_rect cfg ov width height) = width - overlayWidth ov \<and>
      r_y (overlay_rect cfg ov width height) = height - overlayHeight ov \<and>
      r_right (overlay_rect cfg ov width height) = width \<and>
      r_bottom (overlay_rect cfg ov width height) = height"
    by (simp add: overlay_rect_def setSize_def setPosition_def overlay_x_def overlay_y_def
        r_right_def r_bottom_def)
  have px: "ctx_plain c \<and> 0 \<le> px \<and> px < s_width (c_target c) \<and> 0 \<le> py \<and>
      py < s_height (c_target c) \<and>
      overlay_covers cfg (Some ov) (pl_width (paint_locals_of img cfg w h))
        (pl_height (paint_locals_of img cfg w h)) px py \<longrightarrow>
      s_pixels (c_target (paint_image x img (Some ov) cfg c w h al)) px py =
        composite x CAIRO_OPERATOR_OVER al
          (surface_pixel ov
             (px - overlay_x cfg (pl_width (paint_locals_of img cfg w h)) (overlayWidth ov))
             (py - overlay_y cfg (pl_height (paint_locals_of img cfg w h)) (overlayHeight ov)))
          (s_pixels (c_target (paint_image x img None cfg c w h al)) px py)"
  proof
    assume a: "ctx_plain c \<and> 0 \<le> px \<and> px < s_width (c_target c) \<and> 0 \<le> py \<and>
      py < s_height (c_target c) \<and>
      overlay_covers cfg (Some ov) (pl_width (paint_locals_of img cfg w h))
        (pl_height (paint_locals_of img cfg w h)) px py"
    then have c: "ctx_plain c" and b: "0 \<le> px" "px < s_width (c_target c)" "0 \<le> py"
      "py < s_height (c_target c)"
      by simp_all
    have n: "\<not> overlay_covers cfg None (pl_width (paint_locals_of img cfg w h))
        (pl_height (paint_locals_of img cfg w h)) px py"
      by (simp add: overlay_covers_def)
    show "s_pixels (c_target (paint_image x img (Some ov) cfg c w h al)) px py =
        composite x CAIRO_OPERATOR_OVER al
          (surface_pixel ov
             (px - overlay_x cfg (pl_width (paint_locals_of img cfg w h)) (overlayWidth ov))
             (py - overlay_y cfg (pl_height (paint_locals_of img cfg w h)) (overlayHeight ov)))
          (s_pixels (c_target (paint_image x img None cfg c w h al)) px py)"
      using a n
      by (simp add: paint_image_pixel [OF c b] overlay_rect_def setSize_def setPosition_def)
  qed
  show ?thesis
    by (intro conjI) (rule cx cy r br px)+
qed

lemma sample_target_plain:
  "ctx_plain sample_target" "s_width (c_target sample_target) = 8"
  "s_height (c_target sample_target) = 8"
  "g_op (c_gstate sample_target) = CAIRO_OPERATOR_SOURCE"
  "s_pixels (c_target sample_target) px py = 0"
  by (simp_all add: sample_target_def cairo_set_operator_def cairo_create_def
      cairo_image_surface_create_def MAX_IMAGE_SIZE_def ctx_plain_def)

lemma sample_locals:
  "paint_locals_of sample_surface sample_background 8 8 =
     \<lparr>pl_marginTop = 1, pl_marginBottom = 1, pl_marginLeft = 1, pl_marginRight = 1,
      pl_resizeHeight = 2, pl_resizeWidth = 2, pl_height = 8, pl_width = 8\<rparr>"
  by (simp add: paint_locals_of_def sample_surface_def sample_background_def sample_margin_def
      cairo_image_surface_get_width_def cairo_image_surface_get_height_def Let_def)

lemmas rect_defs = overlay_rect_def overlay_clipRect_def overlay_finalRect_def setSize_def
  setPosition_def Rect_default_def intersected_def isEmpty_def contains_def in_Rect_def
  r_left_def r_top_def r_right_def r_bottom_def overlayWidth_def overlayHeight_def
  cairo_image_surface_get_width_def cairo_image_surface_get_height_def overlay_x_def
  overlay_y_def

theorem overlay_placement_witness:
  "overlay_x sample_background 8 4 = 4 \<and> overlay_y sample_background 8 4 = 4 \<and>
   r_x (overlay_rect sample_background sample_surface 8 8) = 4 \<and>
   r_y (overlay_rect sample_background sample_surface 8 8) = 4 \<and>
   r_right (overlay_rect sample_background sample_surface 8 8) = 8 \<and>
   r_bottom (overlay_rect sample_background sample_surface 8 8) = 8 \<and>
   s_pixels (c_target (paint_image sample_ext sample_surface (Some sample_surface)
      sample_background sample_target 8 8 1)) 7 7 =
     composite sample_ext CAIRO_OPERATOR_OVER 1 (surface_pixel sample_surface 3 3)
       (s_pixels (c_target (paint_image sample_ext sample_surface None
          sample_background sample_target 8 8 1)) 7 7)"
proof -
  have g: "gravity_column (bg_gravity sample_background) = Far"
    "gravity_row (bg_gravity sample_background) = Far"
    "bg_gravity sample_background = BottomRight \<and> bg_overlayOffsetX sample_background = 0 \<and>
     bg_overlayOffsetY sample_background = 0"
    by (simp_all add: sample_background_def gravity_column_def gravity_row_def)
  have o: "bg_overlayOffsetX sample_background = 0" "bg_overlayOffsetY sample_background = 0"
    "overlayWidth sample_surface = 4" "overlayHeight sample_surface = 4"
    by (simp_all add: sample_background_def sample_surface_def overlayWidth_def
        overlayHeight_def cairo_image_surface_get_width_def cairo_image_surface_get_height_def)
  have lw: "pl_width (paint_locals_of sample_surface sample_background 8 8) = 8"
    "pl_height (paint_locals_of sample_surface sample_background 8 8) = 8"
    by (simp_all add: sample_locals)
  have cov: "ctx_plain sample_target \<and> (0::int) \<le> 7 \<and> 7 < s_width (c_target sample_target) \<and>
      (0::int) \<le> 7 \<and> 7 < s_height (c_target sample_target) \<and>
      overlay_covers sample_background (Some sample_surface)
        (pl_width (paint_locals_of sample_surface sample_background 8 8))
        (pl_height (paint_locals_of sample_surface sample_background 8 8)) 7 7"
    unfolding lw
    by (simp add: sample_target_plain overlay_covers_def overlay_drawn_def
        rect_defs sample_background_def sample_surface_def no_margin_def Let_def)
  note t = overlay_placement [where cfg = sample_background and width = 8 and height = 8
      and ow = 4 and oh = 4 and ov = sample_surface and c = sample_target and px = 7 and py = 7
      and img = sample_surface and w = 8 and h = 8 and x = sample_ext and al = 1]
  from t g o cov show ?thesis
    by (simp add: lw)
qed

subsection \<open>C5: an oversized overlay is hidden\<close>

lemma finalRect_inside_clip:
  "\<not> isEmpty (overlay_finalRect cfg ov width height) \<Longrightarrow>
   contains (overlay_clipRect cfg width height) (overlay_finalRect cfg ov width height)"
  by (auto simp: overlay_finalRect_def intersected_def isEmpty_def contains_def Let_def
      r_left_def r_top_def r_right_def r_bottom_def Rect_default_def split: if_splits)

text \<open>
  C5. When \<open>hideOverlayIfOversize\<close> is set and the clip rectangle does not contain the
  overlay rectangle as placed (before it is intersected with the clip), painting with the
  overlay gives the same context, pixel for pixel, as painting without one; so does
  \<open>Theme::paint\<close> on a cached image that has an overlay. The intersection itself always
  lies inside the clip rectangle, so the test is on the rectangle as placed.
\<close>

theorem oversize_overlay_hidden:
  "(bg_hideOverlayIfOversize cfg \<and>
    \<not> contains (overlay_clipRect cfg (pl_width (paint_locals_of img cfg width height))
                  (pl_height (paint_locals_of img cfg width height)))
         (overlay_rect cfg ov (pl_width (paint_locals_of img cfg width height))
            (pl_height (paint_locals_of img cfg width height))) \<longrightarrow>
      paint_image x img (Some ov) cfg c width height al =
        paint_image x img None cfg c width height al) \<and>
   (loadBackground x th rcfg = Inr (timg, th') \<and> ti_image timg = Some img \<and>
    ti_overlay timg = Some ov \<and> bg_hideOverlayIfOversize (snd rcfg) \<and>
    \<not> contains (overlay_clipRect (snd rcfg) (pl_width (paint_locals_of img (snd rcfg) width height))
                  (pl_height (paint_locals_of img (snd rcfg) width height)))
         (overlay_rect (snd rcfg) ov (pl_width (paint_locals_of img (snd rcfg) width height))
            (pl_height (paint_locals_of img (snd rcfg) width height))) \<longrightarrow>
      paint x th c rcfg width height al =
        Inr (paint_image x img None (snd rcfg) c width height al, th')) \<and>
   (\<not> isEmpty (overlay_finalRect cfg ov w h) \<longrightarrow>
      contains (overlay_clipRect cfg w h) (overlay_finalRect cfg ov w h))"
proof -
  have hidden: "paint_image x img (Some ov) cf c width height al =
        paint_image x img None cf c width height al"
    if "bg_hideOverlayIfOversize cf \<and>
      \<not> contains (overlay_clipRect cf (pl_width (paint_locals_of img cf width height))
                  (pl_height (paint_locals_of img cf width height)))
         (overlay_rect cf ov (pl_width (paint_locals_of img cf width height))
            (pl_height (paint_locals_of img cf width height)))" for cf
  proof -
    from that have "\<not> overlay_drawn cf ov (pl_width (paint_locals_of img cf width height))
        (pl_height (paint_locals_of img cf width height))"
      by (simp add: overlay_drawn_def)
    then show ?thesis
      by (simp add: paint_image_def Let_def overlay_not_drawn overlay_none)
  qed
  have a: "bg_hideOverlayIfOversize cfg \<and>
    \<not> contains (overlay_clipRect cfg (pl_width (paint_locals_of img cfg width height))
                  (pl_height (paint_locals_of img cfg width height)))
         (overlay_rect cfg ov (pl_width (paint_locals_of img cfg width height))
            (pl_height (paint_locals_of img cfg width height))) \<longrightarrow>
      paint_image x img (Some ov) cfg c width height al =
        paint_image x img None cfg c width height al"
    using hidden [of cfg] by blast
  have b: "loadBackground x th rcfg = Inr (timg, th') \<and> ti_image timg = Some img \<and>
    ti_overlay timg = Some ov \<and> bg_hideOverlayIfOversize (snd rcfg) \<and>
    \<not> contains (overlay_clipRect (snd rcfg) (pl_width (paint_locals_of img (snd rcfg) width height))
                  (pl_height (paint_locals_of img (snd rcfg) width height)))
         (overlay_rect (snd rcfg) ov (pl_width (paint_locals_of img (snd rcfg) width height))
            (pl_height (paint_locals_of img (snd rcfg) width height))) \<longrightarrow>
      paint x th c rcfg width height al =
        Inr (paint_image x img None (snd rcfg) c width height al, th')"
    using hidden [of "snd rcfg"] by (auto simp: paint_def)
  have d: "\<not> isEmpty (overlay_finalRect cfg ov w h) \<longrightarrow>
      contains (overlay_clipRect cfg w h) (overlay_finalRect cfg ov w h)"
    using finalRect_inside_clip by blast
  show ?thesis
    by (intro conjI) (rule a b d)+
qed

text \<open>
  The theorem for a 4 by 4 overlay pushed 2 pixels out of the bottom right corner of an
  8 by 8 target: a 2 by 2 part of it lies inside the clip, and nothing of it is painted.
\<close>

theorem oversize_overlay_hidden_witness:
  "overlay_rect overlay_background sample_surface 8 8 = \<lparr>r_x = 6, r_y = 6, r_w = 4, r_h = 4\<rparr> \<and>
   overlay_finalRect overlay_background sample_surface 8 8 = \<lparr>r_x = 6, r_y = 6, r_w = 2, r_h = 2\<rparr> \<and>
   paint_image sample_ext sample_surface (Some sample_surface) overlay_background
       sample_target 8 8 1 =
     paint_image sample_ext sample_surface None overlay_background sample_target 8 8 1 \<and>
   contains (overlay_clipRect overlay_background 8 8)
     (overlay_finalRect overlay_background sample_surface 8 8)"
proof -
  have l: "pl_width (paint_locals_of sample_surface overlay_background 8 8) = 8"
    "pl_height (paint_locals_of sample_surface overlay_background 8 8) = 8"
    by (simp_all add: paint_locals_of_def Let_def)
  have r: "overlay_rect overlay_background sample_surface 8 8 =
      \<lparr>r_x = 6, r_y = 6, r_w = 4, r_h = 4\<rparr>"
    "overlay_finalRect overlay_background sample_surface 8 8 =
      \<lparr>r_x = 6, r_y = 6, r_w = 2, r_h = 2\<rparr>"
    "overlay_clipRect overlay_background 8 8 = \<lparr>r_x = 0, r_y = 0, r_w = 8, r_h = 8\<rparr>"
    by (simp_all add: rect_defs overlay_background_def sample_background_def sample_surface_def
        no_margin_def Let_def)
  have h: "bg_hideOverlayIfOversize overlay_background \<and>
    \<not> contains (overlay_clipRect overlay_background
                    (pl_width (paint_locals_of sample_surface overlay_background 8 8))
                    (pl_height (paint_locals_of sample_surface overlay_background 8 8)))
         (overlay_rect overlay_background sample_surface
            (pl_width (paint_locals_of sample_surface overlay_background 8 8))
            (pl_height (paint_locals_of sample_surface overlay_background 8 8)))"
    unfolding l r by (simp add: overlay_background_def contains_def r_left_def r_right_def
        r_top_def r_bottom_def)
  have e: "\<not> isEmpty (overlay_finalRect overlay_background sample_surface 8 8)"
    unfolding r by (simp add: isEmpty_def)
  note t = oversize_overlay_hidden [where cfg = overlay_background and img = sample_surface
      and ov = sample_surface and width = 8 and height = 8 and x = sample_ext
      and c = sample_target and al = 1 and w = 8 and h = 8]
  from t h e r show ?thesis by simp
qed

subsection \<open>C2: the four corners\<close>

lemma locals_fields:
  "pl_marginTop (paint_locals_of img cfg width height) = marginTop (bg_margin cfg)"
  "pl_marginBottom (paint_locals_of img cfg width height) = marginBottom (bg_margin cfg)"
  "pl_marginLeft (paint_locals_of img cfg width height) = marginLeft (bg_margin cfg)"
  "pl_marginRight (paint_locals_of img cfg width height) = marginRight (bg_margin cfg)"
  "pl_resizeWidth (paint_locals_of img cfg width height) =
     (if s_width img - marginLeft (bg_margin cfg) - marginRight (bg_margin cfg) \<le> 0 then 1
      else s_width img - marginLeft (bg_margin cfg) - marginRight (bg_margin cfg))"
  "pl_resizeHeight (paint_locals_of img cfg width height) =
     (if s_height img - marginTop (bg_margin cfg) - marginBottom (bg_margin cfg) \<le> 0 then 1
      else s_height img - marginTop (bg_margin cfg) - marginBottom (bg_margin cfg))"
  "pl_width (paint_locals_of img cfg width height) =
     (if width < 0 then pl_resizeWidth (paint_locals_of img cfg width height) else width)"
  "pl_height (paint_locals_of img cfg width height) =
     (if height < 0 then pl_resizeHeight (paint_locals_of img cfg width height) else height)"
  by (simp_all add: paint_locals_of_def Let_def cairo_image_surface_get_width_def
      cairo_image_surface_get_height_def)

lemma composite_source: "1 \<le> al \<Longrightarrow> composite x CAIRO_OPERATOR_SOURCE al s d = s"
  by (simp add: composite_def)

text \<open>
  C2, as amended. Let the margins be non-negative, the source image larger than the sum of
  opposing margins, the target at least the sum of opposing margins, the context plain, and
  let the overlay not cover the pixel. Then a target pixel in one of the four corner
  regions is composited, with the context's operator and the given alpha, from the source
  pixel at the same distance from the same corner: the corner is neither scaled nor moved.
  With the operator SOURCE and an alpha of at least 1 compositing is a plain copy, so the
  corner is identical to the source's. A corner with a zero margin is not painted.
\<close>

theorem paint_corners:
  assumes c: "ctx_plain c"
    and l: "l = paint_locals_of img cfg width height"
    and m: "0 \<le> pl_marginTop l" "0 \<le> pl_marginBottom l" "0 \<le> pl_marginLeft l"
      "0 \<le> pl_marginRight l"
    and big: "pl_marginLeft l + pl_marginRight l < s_width img"
      "pl_marginTop l + pl_marginBottom l < s_height img"
    and fit: "pl_marginLeft l + pl_marginRight l \<le> pl_width l"
      "pl_marginTop l + pl_marginBottom l \<le> pl_height l"
    and b: "0 \<le> px" "px < s_width (c_target c)" "0 \<le> py" "py < s_height (c_target c)"
    and nov: "\<not> overlay_covers cfg overlay (pl_width l) (pl_height l) px py"
  shows
   "(px < pl_marginLeft l \<and> py < pl_marginTop l \<longrightarrow>
      s_pixels (c_target (paint_image x img overlay cfg c width height al)) px py =
        composite x (g_op (c_gstate c)) al (surface_pixel img px py)
          (s_pixels (c_target c) px py)) \<and>
    (pl_width l - pl_marginRight l \<le> px \<and> px < pl_width l \<and> py < pl_marginTop l \<longrightarrow>
      s_pixels (c_target (paint_image x img overlay cfg c width height al)) px py =
        composite x (g_op (c_gstate c)) al
          (surface_pixel img (s_width img - (pl_width l - px)) py)
          (s_pixels (c_target c) px py)) \<and>
    (px < pl_marginLeft l \<and> pl_height l - pl_marginBottom l \<le> py \<and> py < pl_height l \<longrightarrow>
      s_pixels (c_target (paint_image x img overlay cfg c width height al)) px py =
        composite x (g_op (c_gstate c)) al
          (surface_pixel img px (s_height img - (pl_height l - py)))
          (s_pixels (c_target c) px py)) \<and>
    (pl_width l - pl_marginRight l \<le> px \<and> px < pl_width l \<and>
     pl_height l - pl_marginBottom l \<le> py \<and> py < pl_height l \<longrightarrow>
      s_pixels (c_target (paint_image x img overlay cfg c width height al)) px py =
        composite x (g_op (c_gstate c)) al
          (surface_pixel img (s_width img - (pl_width l - px)) (s_height img - (pl_height l - py)))
          (s_pixels (c_target c) px py)) \<and>
    (1 \<le> al \<longrightarrow> composite x CAIRO_OPERATOR_SOURCE al s d = s) \<and>
    (pl_marginLeft l = 0 \<or> pl_marginTop l = 0 \<longrightarrow> paint_part7 x img l al c' = c') \<and>
    (pl_marginRight l = 0 \<or> pl_marginTop l = 0 \<longrightarrow> paint_part9 x img l al c' = c') \<and>
    (pl_marginLeft l = 0 \<or> pl_marginBottom l = 0 \<longrightarrow> paint_part1 x img l al c' = c') \<and>
    (pl_marginRight l = 0 \<or> pl_marginBottom l = 0 \<longrightarrow> paint_part3 x img l al c' = c')"
proof -
  have rs: "pl_resizeWidth l = s_width img - pl_marginLeft l - pl_marginRight l"
    "pl_resizeHeight l = s_height img - pl_marginTop l - pl_marginBottom l"
    using big unfolding l by (simp_all add: locals_fields)
  have mo: "margins_ok l"
    using m big rs by (simp add: margins_ok_def)
  have p: "s_pixels (c_target (paint_image x img overlay cfg c width height al)) px py =
      s_pixels (c_target (paint_ninepatch x img l al c)) px py"
    using paint_image_pixel [OF c b, of x img overlay cfg width height al] nov
    unfolding l by simp
  note np = ninepatch_pixel [OF c mo fit b, of x img al]
  have tl: "px < pl_marginLeft l \<and> py < pl_marginTop l \<longrightarrow>
      s_pixels (c_target (paint_image x img overlay cfg c width height al)) px py =
        composite x (g_op (c_gstate c)) al (surface_pixel img px py)
          (s_pixels (c_target c) px py)"
    using m fit b by (simp add: p np)
  have tr: "pl_width l - pl_marginRight l \<le> px \<and> px < pl_width l \<and> py < pl_marginTop l \<longrightarrow>
      s_pixels (c_target (paint_image x img overlay cfg c width height al)) px py =
        composite x (g_op (c_gstate c)) al
          (surface_pixel img (s_width img - (pl_width l - px)) py)
          (s_pixels (c_target c) px py)"
    using m fit b by (simp add: p np rs algebra_simps)
  have bl: "px < pl_marginLeft l \<and> pl_height l - pl_marginBottom l \<le> py \<and> py < pl_height l \<longrightarrow>
      s_pixels (c_target (paint_image x img overlay cfg c width height al)) px py =
        composite x (g_op (c_gstate c)) al
          (surface_pixel img px (s_height img - (pl_height l - py)))
          (s_pixels (c_target c) px py)"
    using m fit b by (simp add: p np rs algebra_simps)
  have br: "pl_width l - pl_marginRight l \<le> px \<and> px < pl_width l \<and>
     pl_height l - pl_marginBottom l \<le> py \<and> py < pl_height l \<longrightarrow>
      s_pixels (c_target (paint_image x img overlay cfg c width height al)) px py =
        composite x (g_op (c_gstate c)) al
          (surface_pixel img (s_width img - (pl_width l - px)) (s_height img - (pl_height l - py)))
          (s_pixels (c_target c) px py)"
    using m fit b by (simp add: p np rs algebra_simps)
  have cs: "1 \<le> al \<longrightarrow> composite x CAIRO_OPERATOR_SOURCE al s d = s"
    by (simp add: composite_source)
  have z: "pl_marginLeft l = 0 \<or> pl_marginTop l = 0 \<longrightarrow> paint_part7 x img l al c' = c'"
    "pl_marginRight l = 0 \<or> pl_marginTop l = 0 \<longrightarrow> paint_part9 x img l al c' = c'"
    "pl_marginLeft l = 0 \<or> pl_marginBottom l = 0 \<longrightarrow> paint_part1 x img l al c' = c'"
    "pl_marginRight l = 0 \<or> pl_marginBottom l = 0 \<longrightarrow> paint_part3 x img l al c' = c'"
    by (auto simp: paint_part7_def paint_part9_def paint_part1_def paint_part3_def)
  show ?thesis
    by (intro conjI) (rule tl tr bl br cs z)+
qed

lemma sample_pixels:
  "surface_pixel sample_surface i j =
     (if 0 \<le> i \<and> i < 4 \<and> 0 \<le> j \<and> j < 4 then word_of_int (1 + i + 4 * j) else 0)"
  "s_width sample_surface = 4" "s_height sample_surface = 4"
  by (simp_all add: surface_pixel_def sample_surface_def)

lemma sample_margins:
  "marginLeft (bg_margin sample_background) = 1" "marginRight (bg_margin sample_background) = 1"
  "marginTop (bg_margin sample_background) = 1" "marginBottom (bg_margin sample_background) = 1"
  "marginLeft (bg_margin wide_margin_background) = 3"
  "marginRight (bg_margin wide_margin_background) = 3"
  "marginTop (bg_margin wide_margin_background) = 3"
  "marginBottom (bg_margin wide_margin_background) = 3"
  by (simp_all add: sample_background_def sample_margin_def wide_margin_background_def)

text \<open>
  The theorem for the 4 by 4 image with margins of 1, painted at 8 by 8 with the operator
  SOURCE and alpha 1: the four corner pixels of the target are the four corner pixels of the
  image.
\<close>

theorem paint_corners_witness:
  "s_pixels (c_target (paint_image sample_ext sample_surface None sample_background
      sample_target 8 8 1)) 0 0 = 1 \<and>
   s_pixels (c_target (paint_image sample_ext sample_surface None sample_background
      sample_target 8 8 1)) 7 0 = 4 \<and>
   s_pixels (c_target (paint_image sample_ext sample_surface None sample_background
      sample_target 8 8 1)) 0 7 = 13 \<and>
   s_pixels (c_target (paint_image sample_ext sample_surface None sample_background
      sample_target 8 8 1)) 7 7 = 16"
proof -
  define l where "l = paint_locals_of sample_surface sample_background 8 8"
  have lf: "pl_marginTop l = 1" "pl_marginBottom l = 1" "pl_marginLeft l = 1"
    "pl_marginRight l = 1" "pl_width l = 8" "pl_height l = 8"
    by (simp_all add: l_def locals_fields sample_margins)
  have nov: "\<not> overlay_covers sample_background None (pl_width l) (pl_height l) px py" for px py
    by (simp add: overlay_covers_def)
  have one: "(1::rat) \<le> 1" by simp
  have a: "s_pixels (c_target (paint_image sample_ext sample_surface None sample_background
      sample_target 8 8 1)) 0 0 = 1"
    using paint_corners [OF sample_target_plain(1) l_def, where x = sample_ext and al = 1
        and overlay = None and px = 0 and py = 0]
    by (simp add: lf sample_pixels sample_target_plain composite_source overlay_covers_def)
  have b: "s_pixels (c_target (paint_image sample_ext sample_surface None sample_background
      sample_target 8 8 1)) 7 0 = 4"
    using paint_corners [OF sample_target_plain(1) l_def, where x = sample_ext and al = 1
        and overlay = None and px = 7 and py = 0]
    by (simp add: lf sample_pixels sample_target_plain composite_source overlay_covers_def)
  have c: "s_pixels (c_target (paint_image sample_ext sample_surface None sample_background
      sample_target 8 8 1)) 0 7 = 13"
    using paint_corners [OF sample_target_plain(1) l_def, where x = sample_ext and al = 1
        and overlay = None and px = 0 and py = 7]
    by (simp add: lf sample_pixels sample_target_plain composite_source overlay_covers_def)
  have d: "s_pixels (c_target (paint_image sample_ext sample_surface None sample_background
      sample_target 8 8 1)) 7 7 = 16"
    using paint_corners [OF sample_target_plain(1) l_def, where x = sample_ext and al = 1
        and overlay = None and px = 7 and py = 7]
    by (simp add: lf sample_pixels sample_target_plain composite_source overlay_covers_def)
  from a b c d show ?thesis by simp
qed

text \<open>
  The same image with margins of 3, which together exceed its width: the stretchable region
  is clamped to 1, the top right corner is read from column 4 onwards, outside the image,
  and the target pixel (5, 0) stays transparent although the image's top right corner
  region starts with the pixel (1, 0) of value 2.
\<close>

theorem paint_corners_counterexample:
  "marginLeft (bg_margin wide_margin_background) + marginRight (bg_margin wide_margin_background)
     \<le> 8 \<and>
   s_pixels (c_target (paint_image sample_ext sample_surface None wide_margin_background
      sample_target 8 8 1)) 5 0 = 0 \<and>
   surface_pixel sample_surface 1 0 = 2"
proof -
  define l where "l = paint_locals_of sample_surface wide_margin_background 8 8"
  have lf: "pl_marginTop l = 3" "pl_marginBottom l = 3" "pl_marginLeft l = 3"
    "pl_marginRight l = 3" "pl_width l = 8" "pl_height l = 8" "pl_resizeWidth l = 1"
    "pl_resizeHeight l = 1"
    by (simp_all add: l_def locals_fields sample_margins sample_pixels)
  have mo: "margins_ok l" by (simp add: margins_ok_def lf)
  have b: "(0::int) \<le> 5" "5 < s_width (c_target sample_target)" "(0::int) \<le> 0"
    "0 < s_height (c_target sample_target)"
    by (simp_all add: sample_target_plain)
  have fit: "pl_marginLeft l + pl_marginRight l \<le> pl_width l"
    "pl_marginTop l + pl_marginBottom l \<le> pl_height l"
    by (simp_all add: lf)
  have "s_pixels (c_target (paint_image sample_ext sample_surface None wide_margin_background
      sample_target 8 8 1)) 5 0 =
      s_pixels (c_target (paint_ninepatch sample_ext sample_surface l 1 sample_target)) 5 0"
    using paint_image_pixel [OF sample_target_plain(1) b, of sample_ext sample_surface None
        wide_margin_background 8 8 1]
    by (simp add: overlay_covers_def l_def)
  also have "\<dots> = 0"
    using ninepatch_pixel [OF sample_target_plain(1) mo fit b, of sample_ext sample_surface 1]
    by (simp add: lf sample_target_plain composite_source sample_pixels)
  finally show ?thesis by (simp add: sample_margins sample_pixels)
qed

subsection \<open>C6: the centre at scale 1\<close>

lemma source_at_scale_one:
  "sx = 1 \<Longrightarrow> sy = 1 \<Longrightarrow> tx + ox = 0 \<Longrightarrow> ty + oy = 0 \<Longrightarrow>
   source_at x (SurfaceSource img \<lparr>m_sx = sx, m_sy = sy, m_tx = tx, m_ty = ty\<rparr> ox oy f) px py
     = surface_pixel img px py"
  using source_at_unscaled [where a = 0 and b = 0 and tx = tx and ox = ox and ty = ty
      and oy = oy and x = x and img = img and f = f and px = px and py = py]
  by simp

text \<open>
  C6, as amended. When the target size is the size of the stretchable region plus the
  margins (for an image larger than its margins: the image's own size), both scale factors
  are 1 and every pixel of the centre region is composited from the source pixel at the
  same position; with the operator SOURCE and an alpha of at least 1 it is that pixel. The
  margins are non-negative, the context is plain and the overlay does not cover the pixel.
\<close>

theorem paint_center_unscaled:
  assumes c: "ctx_plain c"
    and l: "l = paint_locals_of img cfg width height"
    and m: "0 \<le> pl_marginTop l" "0 \<le> pl_marginBottom l" "0 \<le> pl_marginLeft l"
      "0 \<le> pl_marginRight l"
    and nat: "pl_width l = pl_marginLeft l + pl_marginRight l + pl_resizeWidth l"
      "pl_height l = pl_marginTop l + pl_marginBottom l + pl_resizeHeight l"
    and b: "px < s_width (c_target c)" "py < s_height (c_target c)"
    and reg: "pl_marginLeft l \<le> px" "px < pl_marginLeft l + pl_resizeWidth l"
      "pl_marginTop l \<le> py" "py < pl_marginTop l + pl_resizeHeight l"
    and nov: "\<not> overlay_covers cfg overlay (pl_width l) (pl_height l) px py"
  shows "scaleX l = 1 \<and> scaleY l = 1 \<and>
    s_pixels (c_target (paint_image x img overlay cfg c width height al)) px py =
      composite x (g_op (c_gstate c)) al (surface_pixel img px py) (s_pixels (c_target c) px py) \<and>
    (g_op (c_gstate c) = CAIRO_OPERATOR_SOURCE \<and> 1 \<le> al \<longrightarrow>
      s_pixels (c_target (paint_image x img overlay cfg c width height al)) px py =
        surface_pixel img px py)"
proof -
  have rp: "0 < pl_resizeWidth l" "0 < pl_resizeHeight l"
    unfolding l by (simp_all add: locals_fields)
  have mo: "margins_ok l" using m rp by (simp add: margins_ok_def)
  have sc: "scaleX l = 1" "scaleY l = 1"
    using nat rp
    by (simp_all add: scaleX_def scaleY_def targetResizeWidth_def targetResizeHeight_def)
  have b': "0 \<le> px" "px < s_width (c_target c)" "0 \<le> py" "py < s_height (c_target c)"
    using b reg m by simp_all
  have fit: "pl_marginLeft l + pl_marginRight l \<le> pl_width l"
    "pl_marginTop l + pl_marginBottom l \<le> pl_height l"
    using nat rp by simp_all
  have p: "s_pixels (c_target (paint_image x img overlay cfg c width height al)) px py =
      s_pixels (c_target (paint_ninepatch x img l al c)) px py"
    using paint_image_pixel [OF c b', of x img overlay cfg width height al] nov
    unfolding l by simp
  have v: "s_pixels (c_target (paint_image x img overlay cfg c width height al)) px py =
      composite x (g_op (c_gstate c)) al (surface_pixel img px py) (s_pixels (c_target c) px py)"
    using ninepatch_pixel [OF c mo fit b', of x img al] reg nat m rp
    by (simp add: p source_at_scale_one sc)
  from sc v show ?thesis by (simp add: composite_source)
qed

text \<open>
  The theorem for the 4 by 4 image with margins of 1 painted at its own size: the four
  centre pixels of the target are the four centre pixels of the image.
\<close>

theorem paint_center_unscaled_witness:
  "scaleX (paint_locals_of sample_surface sample_background 4 4) = 1 \<and>
   s_pixels (c_target (paint_image sample_ext sample_surface None sample_background
      sample_target 4 4 1)) 1 1 = 6 \<and>
   s_pixels (c_target (paint_image sample_ext sample_surface None sample_background
      sample_target 4 4 1)) 2 1 = 7 \<and>
   s_pixels (c_target (paint_image sample_ext sample_surface None sample_background
      sample_target 4 4 1)) 1 2 = 10 \<and>
   s_pixels (c_target (paint_image sample_ext sample_surface None sample_background
      sample_target 4 4 1)) 2 2 = 11"
proof -
  define l where "l = paint_locals_of sample_surface sample_background 4 4"
  have lf: "pl_marginTop l = 1" "pl_marginBottom l = 1" "pl_marginLeft l = 1"
    "pl_marginRight l = 1" "pl_width l = 4" "pl_height l = 4" "pl_resizeWidth l = 2"
    "pl_resizeHeight l = 2"
    by (simp_all add: l_def locals_fields sample_margins sample_pixels)
  have nov: "\<not> overlay_covers sample_background None (pl_width l) (pl_height l) px py" for px py
    by (simp add: overlay_covers_def)
  have a: "scaleX l = 1 \<and> s_pixels (c_target (paint_image sample_ext sample_surface None
      sample_background sample_target 4 4 1)) 1 1 = 6"
    using paint_center_unscaled [OF sample_target_plain(1) l_def, where x = sample_ext
        and al = 1 and overlay = None and px = 1 and py = 1]
    by (simp add: lf sample_pixels sample_target_plain overlay_covers_def composite_source)
  have b: "s_pixels (c_target (paint_image sample_ext sample_surface None
      sample_background sample_target 4 4 1)) 2 1 = 7"
    using paint_center_unscaled [OF sample_target_plain(1) l_def, where x = sample_ext
        and al = 1 and overlay = None and px = 2 and py = 1]
    by (simp add: lf sample_pixels sample_target_plain overlay_covers_def composite_source)
  have c: "s_pixels (c_target (paint_image sample_ext sample_surface None
      sample_background sample_target 4 4 1)) 1 2 = 10"
    using paint_center_unscaled [OF sample_target_plain(1) l_def, where x = sample_ext
        and al = 1 and overlay = None and px = 1 and py = 2]
    by (simp add: lf sample_pixels sample_target_plain overlay_covers_def composite_source)
  have d: "s_pixels (c_target (paint_image sample_ext sample_surface None
      sample_background sample_target 4 4 1)) 2 2 = 11"
    using paint_center_unscaled [OF sample_target_plain(1) l_def, where x = sample_ext
        and al = 1 and overlay = None and px = 2 and py = 2]
    by (simp add: lf sample_pixels sample_target_plain overlay_covers_def composite_source)
  from a b c d show ?thesis by (simp add: l_def)
qed

text \<open>
  The negative sentinel replaces the target size by the size of the stretchable region, not
  by that size plus the margins. For the 4 by 4 image with margins of 1 the target becomes
  2 by 2, nothing is left between the margins, both scale factors are 0 and the centre is
  not painted at all: the target pixel (1, 1) is the image's bottom right corner pixel (3, 3),
  of value 16, and no target pixel shows the image's centre pixel (1, 1), of value 6.
\<close>

theorem paint_center_sentinel_counterexample:
  "pl_width (paint_locals_of sample_surface sample_background (- 1) (- 1)) =
     pl_resizeWidth (paint_locals_of sample_surface sample_background (- 1) (- 1)) \<and>
   pl_height (paint_locals_of sample_surface sample_background (- 1) (- 1)) =
     pl_resizeHeight (paint_locals_of sample_surface sample_background (- 1) (- 1)) \<and>
   scaleX (paint_locals_of sample_surface sample_background (- 1) (- 1)) = 0 \<and>
   scaleY (paint_locals_of sample_surface sample_background (- 1) (- 1)) = 0 \<and>
   s_pixels (c_target (paint_image sample_ext sample_surface None sample_background
      sample_target (- 1) (- 1) 1)) 1 1 = 16 \<and>
   surface_pixel sample_surface 1 1 = 6"
proof -
  define l where "l = paint_locals_of sample_surface sample_background (- 1) (- 1)"
  have lf: "pl_marginTop l = 1" "pl_marginBottom l = 1" "pl_marginLeft l = 1"
    "pl_marginRight l = 1" "pl_width l = 2" "pl_height l = 2" "pl_resizeWidth l = 2"
    "pl_resizeHeight l = 2"
    by (simp_all add: l_def locals_fields sample_margins sample_pixels)
  have mo: "margins_ok l" by (simp add: margins_ok_def lf)
  have sc: "scaleX l = 0" "scaleY l = 0"
    by (simp_all add: scaleX_def scaleY_def targetResizeWidth_def targetResizeHeight_def lf)
  have b: "(0::int) \<le> 1" "1 < s_width (c_target sample_target)" "(0::int) \<le> 1"
    "1 < s_height (c_target sample_target)"
    by (simp_all add: sample_target_plain)
  have fit: "pl_marginLeft l + pl_marginRight l \<le> pl_width l"
    "pl_marginTop l + pl_marginBottom l \<le> pl_height l"
    by (simp_all add: lf)
  have "s_pixels (c_target (paint_image sample_ext sample_surface None sample_background
      sample_target (- 1) (- 1) 1)) 1 1 =
      s_pixels (c_target (paint_ninepatch sample_ext sample_surface l 1 sample_target)) 1 1"
    using paint_image_pixel [OF sample_target_plain(1) b, of sample_ext sample_surface None
        sample_background "- 1" "- 1" 1]
    by (simp add: overlay_covers_def l_def)
  also have "\<dots> = 16"
    using ninepatch_pixel [OF sample_target_plain(1) mo fit b, of sample_ext sample_surface 1]
    by (simp add: lf sample_target_plain composite_source sample_pixels)
  finally show ?thesis
    using sc lf by (simp add: sample_pixels flip: l_def)
qed

end
